theory Spec2Isabelle
  imports Complex_Main "HOL-Library.Monad_Syntax" "HOL-Library.Sublist"
begin

section \<open>Regional prompts: the layer store\<close>

text \<open>
  The store of \<^verbatim>\<open>regionalPromptsSlice\<close>. A JavaScript \<^verbatim>\<open>number\<close> is modelled by
  \<^typ>\<open>real\<close>: the reducers only subtract layer offsets from coordinates and no
  property below depends on rounding. Strings are \<^typ>\<open>string\<close>, a nullable field is an
  \<open>option\<close>, an array is a list.
\<close>

subsection \<open>Data model\<close>

datatype drawing_tool = brush | eraser

datatype mask_object =
    VectorMaskLine (line_id: string) (tool: drawing_tool) (strokeWidth: real) (points: "real list")
  | VectorMaskRect (rect_id: string) (obj_x: real) (obj_y: real) (obj_width: real) (obj_height: real)

record text_prompt =
  positive :: string
  negative :: string

record irect =
  rect_x :: real
  rect_y :: real
  width :: real
  height :: real

record rgba_color =
  col_r :: real
  col_g :: real
  col_b :: real
  col_a :: real

datatype auto_negative = Off | Invert

datatype layer_kind = vector_mask_layer

text \<open>\<^verbatim>\<open>ImagePrompt\<close> is an empty object type in the source, hence \<^typ>\<open>unit\<close>.\<close>

record layer =
  layer_id :: string
  layer_x :: real
  layer_y :: real
  bbox :: "irect option"
  bboxNeedsUpdate :: bool
  isVisible :: bool
  textPrompt :: "text_prompt option"
  imagePrompts :: "unit list"
  previewColor :: rgba_color
  autoNegative :: auto_negative
  needsPixelBbox :: bool
  kind :: layer_kind
  objects :: "mask_object list"

record regional_prompts_state =
  selectedLayerId :: "string option"
  layers :: "layer list"
  brushSize :: real
  brushColor :: rgba_color
  globalMaskLayerOpacity :: real
  isEnabled :: bool

definition initialRegionalPromptsState :: regional_prompts_state where
  "initialRegionalPromptsState =
     \<lparr> selectedLayerId = None,
       layers = [],
       brushSize = 100,
       brushColor = \<lparr> col_r = 255, col_g = 0, col_b = 0, col_a = 1 \<rparr>,
       globalMaskLayerOpacity = 1 / 2,
       isEnabled = False \<rparr>"

fun isLine :: "mask_object \<Rightarrow> bool" where
  "isLine (VectorMaskLine i t w ps) = True"
| "isLine (VectorMaskRect i x y w h) = False"

definition isVectorMaskLayer :: "layer \<Rightarrow> bool" where
  "isVectorMaskLayer l = (kind l = vector_mask_layer)"

datatype error = AssertionError string | UploadError string

subsection \<open>The color cycler\<close>

text \<open>
  \<^verbatim>\<open>LayerColors\<close> keeps a static index \<^verbatim>\<open>i\<close>; it is threaded explicitly. The index only ever
  holds \<^verbatim>\<open>COLORS.length - 1\<close>, a result of \<^verbatim>\<open>findIndex\<close> or a remainder, so it is a
  natural number.
\<close>

definition COLORS :: "rgba_color list" where
  "COLORS =
     [ \<lparr> col_r = 123, col_g = 159, col_b = 237, col_a = 1 \<rparr>,
       \<lparr> col_r = 106, col_g = 222, col_b = 106, col_a = 1 \<rparr>,
       \<lparr> col_r = 250, col_g = 225, col_b = 80, col_a = 1 \<rparr>,
       \<lparr> col_r = 233, col_g = 137, col_b = 81, col_a = 1 \<rparr>,
       \<lparr> col_r = 229, col_g = 96, col_b = 96, col_a = 1 \<rparr>,
       \<lparr> col_r = 226, col_g = 122, col_b = 210, col_a = 1 \<rparr>,
       \<lparr> col_r = 167, col_g = 116, col_b = 234, col_a = 1 \<rparr> ]"

definition LayerColors_initial_i :: nat where
  "LayerColors_initial_i = length COLORS - 1"

text \<open>\<^verbatim>\<open>Array.prototype.findIndex\<close>: the first index whose element satisfies the
  predicate, \<open>None\<close> for the source's \<^verbatim>\<open>-1\<close>.\<close>

fun findIndex :: "('a \<Rightarrow> bool) \<Rightarrow> 'a list \<Rightarrow> nat option" where
  "findIndex p [] = None"
| "findIndex p (x # xs) =
     (if p x then Some 0 else (case findIndex p xs of None \<Rightarrow> None | Some i \<Rightarrow> Some (Suc i)))"

text \<open>\<^verbatim>\<open>LayerColors.next(currentColor?)\<close>, from the index before the call to the color
  returned and the index after it. The \<^verbatim>\<open>assert(color)\<close> is the \<open>Inl\<close> branch.\<close>

definition "next" :: "rgba_color option \<Rightarrow> nat \<Rightarrow> error + (rgba_color \<times> nat)" where
  "next currentColor i =
     (let i1 = (case currentColor of
                  None \<Rightarrow> i
                | Some c \<Rightarrow>
                    (case findIndex (\<lambda>c'. c' = c\<lparr>col_a := 1\<rparr>) COLORS of
                       None \<Rightarrow> i
                     | Some j \<Rightarrow> j));
          i2 = (i1 + 1) mod length COLORS
      in if i2 < length COLORS then Inr (COLORS ! i2, i2)
         else Inl (AssertionError ''Wrong assertion encountered''))"

subsection \<open>Identifiers\<close>

definition VECTOR_MASK_LAYER_NAME :: string where
  "VECTOR_MASK_LAYER_NAME = ''vector_mask_layer''"

definition getVectorMaskLayerId :: "string \<Rightarrow> string" where
  "getVectorMaskLayerId layerId = VECTOR_MASK_LAYER_NAME @ ''_'' @ layerId"

definition getVectorMaskLayerLineId :: "string \<Rightarrow> string \<Rightarrow> string" where
  "getVectorMaskLayerLineId layerId lineId = layerId @ ''.line_'' @ lineId"

definition getVectorMaskLayerRectId :: "string \<Rightarrow> string \<Rightarrow> string" where
  "getVectorMaskLayerRectId layerId lineId = layerId @ ''.rect_'' @ lineId"

subsection \<open>Array helpers\<close>

text \<open>
  The reducers look a layer up with \<^verbatim>\<open>state.layers.find(...)\<close> and then assign to fields of
  the layer found: the first layer with the id changes, and nothing changes when there is
  none. \<open>update_first\<close> is that update on the list.
\<close>

fun update_first :: "('a \<Rightarrow> bool) \<Rightarrow> ('a \<Rightarrow> 'a) \<Rightarrow> 'a list \<Rightarrow> 'a list" where
  "update_first p f [] = []"
| "update_first p f (x # xs) = (if p x then f x # xs else x # update_first p f xs)"

definition with_layer :: "string \<Rightarrow> (layer \<Rightarrow> layer) \<Rightarrow> regional_prompts_state \<Rightarrow> regional_prompts_state" where
  "with_layer layerId f s = s\<lparr>layers := update_first (\<lambda>l. layer_id l = layerId) f (layers s)\<rparr>"

text \<open>\<^verbatim>\<open>Array.prototype.findLast\<close> and the update of the element it returns.\<close>

definition findLast :: "('a \<Rightarrow> bool) \<Rightarrow> 'a list \<Rightarrow> 'a option" where
  "findLast p xs = find p (rev xs)"

definition update_last :: "('a \<Rightarrow> bool) \<Rightarrow> ('a \<Rightarrow> 'a) \<Rightarrow> 'a list \<Rightarrow> 'a list" where
  "update_last p f xs = rev (update_first p f (rev xs))"

text \<open>
  Modelled from the spec: \<^verbatim>\<open>moveForward\<close>, \<^verbatim>\<open>moveBackward\<close>, \<^verbatim>\<open>moveToFront\<close> and
  \<^verbatim>\<open>moveToBack\<close> are imported by the slice from \<^verbatim>\<open>common/util/arrayUtils\<close>, whose text is
  missing. The spec says: the layer is reordered within the list relative to its
  current position; forward and backward swap it with the adjacent element in that
  direction; to-front and to-back move it to the respective end of the sequence; moving an
  id that is not there changes nothing. The callback selects the element, as in
  \<^verbatim>\<open>findIndex\<close>.
\<close>

definition moveForward :: "'a list \<Rightarrow> ('a \<Rightarrow> bool) \<Rightarrow> 'a list" where
  "moveForward xs cb =
     (case findIndex cb xs of
        None \<Rightarrow> xs
      | Some i \<Rightarrow> if Suc i < length xs then xs[i := xs ! Suc i, Suc i := xs ! i] else xs)"

text \<open>Modelled from the spec: \<^verbatim>\<open>moveBackward\<close> of \<^verbatim>\<open>common/util/arrayUtils\<close>, the swap with the element before.\<close>

definition moveBackward :: "'a list \<Rightarrow> ('a \<Rightarrow> bool) \<Rightarrow> 'a list" where
  "moveBackward xs cb =
     (case findIndex cb xs of
        None \<Rightarrow> xs
      | Some i \<Rightarrow> if 0 < i then xs[i := xs ! (i - 1), i - 1 := xs ! i] else xs)"

text \<open>Modelled from the spec: \<^verbatim>\<open>moveToFront\<close> of \<^verbatim>\<open>common/util/arrayUtils\<close>, the move to the start of the sequence.\<close>

definition moveToFront :: "'a list \<Rightarrow> ('a \<Rightarrow> bool) \<Rightarrow> 'a list" where
  "moveToFront xs cb =
     (case findIndex cb xs of
        None \<Rightarrow> xs
      | Some i \<Rightarrow> (xs ! i) # take i xs @ drop (Suc i) xs)"

text \<open>Modelled from the spec: \<^verbatim>\<open>moveToBack\<close> of \<^verbatim>\<open>common/util/arrayUtils\<close>, the move to the end of the sequence.\<close>

definition moveToBack :: "'a list \<Rightarrow> ('a \<Rightarrow> bool) \<Rightarrow> 'a list" where
  "moveToBack xs cb =
     (case findIndex cb xs of
        None \<Rightarrow> xs
      | Some i \<Rightarrow> take i xs @ drop (Suc i) xs @ [xs ! i])"

subsection \<open>Reducers\<close>

text \<open>
  One definition per case reducer, under the source's name. \<open>layerAdded\<close> calls the color
  cycler, so it also takes and returns the cycler's index and can, as far as its text goes,
  fail on the cycler's assertion.
\<close>

definition layerAdded ::
  "layer_kind \<Rightarrow> string \<Rightarrow> nat \<times> regional_prompts_state \<Rightarrow> error + (nat \<times> regional_prompts_state)" where
  "layerAdded payload uuid st =
     (case st of (i, s) \<Rightarrow>
        (case payload of
           vector_mask_layer \<Rightarrow>
             (let lastColor = (if layers s = [] then None else Some (previewColor (last (layers s))))
              in case next lastColor i of
                   Inl e \<Rightarrow> Inl e
                 | Inr (color, i') \<Rightarrow>
                     (let layer =
                        \<lparr> layer_id = getVectorMaskLayerId uuid,
                          layer_x = 0,
                          layer_y = 0,
                          bbox = None,
                          bboxNeedsUpdate = False,
                          isVisible = True,
                          textPrompt = Some \<lparr> positive = '''', negative = '''' \<rparr>,
                          imagePrompts = [],
                          previewColor = color,
                          autoNegative = Off,
                          needsPixelBbox = False,
                          kind = payload,
                          objects = [] \<rparr>
                      in Inr (i', s\<lparr>layers := layers s @ [layer],
                                    selectedLayerId := Some (layer_id layer)\<rparr>)))))"

definition layerSelected :: "string \<Rightarrow> regional_prompts_state \<Rightarrow> regional_prompts_state" where
  "layerSelected payload s =
     (case find (\<lambda>l. layer_id l = payload) (layers s) of
        None \<Rightarrow> s
      | Some layer \<Rightarrow> s\<lparr>selectedLayerId := Some (layer_id layer)\<rparr>)"

definition layerVisibilityToggled :: "string \<Rightarrow> regional_prompts_state \<Rightarrow> regional_prompts_state" where
  "layerVisibilityToggled payload s = with_layer payload (\<lambda>l. l\<lparr>isVisible := \<not> isVisible l\<rparr>) s"

definition layerTranslated :: "string \<Rightarrow> real \<Rightarrow> real \<Rightarrow> regional_prompts_state \<Rightarrow> regional_prompts_state" where
  "layerTranslated layerId x y s = with_layer layerId (\<lambda>l. l\<lparr>layer_x := x, layer_y := y\<rparr>) s"

definition layerBboxChanged :: "string \<Rightarrow> irect option \<Rightarrow> regional_prompts_state \<Rightarrow> regional_prompts_state" where
  "layerBboxChanged layerId b s = with_layer layerId (\<lambda>l. l\<lparr>bbox := b, bboxNeedsUpdate := False\<rparr>) s"

definition layerReset :: "string \<Rightarrow> regional_prompts_state \<Rightarrow> regional_prompts_state" where
  "layerReset payload s =
     with_layer payload
       (\<lambda>l. l\<lparr>objects := [], bbox := None, isVisible := True, needsPixelBbox := False,
              bboxNeedsUpdate := False\<rparr>) s"

definition layerDeleted :: "string \<Rightarrow> regional_prompts_state \<Rightarrow> regional_prompts_state" where
  "layerDeleted payload s =
     (let ls = filter (\<lambda>l. layer_id l \<noteq> payload) (layers s)
      in s\<lparr>layers := ls,
            selectedLayerId := (case ls of [] \<Rightarrow> None | l # _ \<Rightarrow> Some (layer_id l))\<rparr>)"

definition layerMovedForward :: "string \<Rightarrow> regional_prompts_state \<Rightarrow> regional_prompts_state" where
  "layerMovedForward payload s = s\<lparr>layers := moveForward (layers s) (\<lambda>l. layer_id l = payload)\<rparr>"

definition layerMovedToFront :: "string \<Rightarrow> regional_prompts_state \<Rightarrow> regional_prompts_state" where
  "layerMovedToFront payload s = s\<lparr>layers := moveToBack (layers s) (\<lambda>l. layer_id l = payload)\<rparr>"

definition layerMovedBackward :: "string \<Rightarrow> regional_prompts_state \<Rightarrow> regional_prompts_state" where
  "layerMovedBackward payload s = s\<lparr>layers := moveBackward (layers s) (\<lambda>l. layer_id l = payload)\<rparr>"

definition layerMovedToBack :: "string \<Rightarrow> regional_prompts_state \<Rightarrow> regional_prompts_state" where
  "layerMovedToBack payload s = s\<lparr>layers := moveToFront (layers s) (\<lambda>l. layer_id l = payload)\<rparr>"

definition allLayersDeleted :: "regional_prompts_state \<Rightarrow> regional_prompts_state" where
  "allLayersDeleted s = s\<lparr>layers := [], selectedLayerId := None\<rparr>"

definition maskLayerPositivePromptChanged ::
  "string \<Rightarrow> string \<Rightarrow> regional_prompts_state \<Rightarrow> regional_prompts_state" where
  "maskLayerPositivePromptChanged layerId prompt s =
     with_layer layerId
       (\<lambda>l. case textPrompt l of
               None \<Rightarrow> l
             | Some tp \<Rightarrow> l\<lparr>textPrompt := Some (tp\<lparr>positive := prompt\<rparr>)\<rparr>) s"

definition maskLayerNegativePromptChanged ::
  "string \<Rightarrow> string \<Rightarrow> regional_prompts_state \<Rightarrow> regional_prompts_state" where
  "maskLayerNegativePromptChanged layerId prompt s =
     with_layer layerId
       (\<lambda>l. case textPrompt l of
               None \<Rightarrow> l
             | Some tp \<Rightarrow> l\<lparr>textPrompt := Some (tp\<lparr>negative := prompt\<rparr>)\<rparr>) s"

definition maskLayerPreviewColorChanged ::
  "string \<Rightarrow> rgba_color \<Rightarrow> regional_prompts_state \<Rightarrow> regional_prompts_state" where
  "maskLayerPreviewColorChanged layerId color s = with_layer layerId (\<lambda>l. l\<lparr>previewColor := color\<rparr>) s"

definition maskLayerLineAdded ::
  "string \<Rightarrow> real \<times> real \<times> real \<times> real \<Rightarrow> drawing_tool \<Rightarrow> string \<Rightarrow>
   regional_prompts_state \<Rightarrow> regional_prompts_state" where
  "maskLayerLineAdded layerId pts tool0 uuid s =
     (case pts of (p0, p1, p2, p3) \<Rightarrow>
        with_layer layerId
          (\<lambda>l. l\<lparr>objects := objects l @
                     [VectorMaskLine (getVectorMaskLayerLineId (layer_id l) uuid) tool0 (brushSize s)
                        [p0 - layer_x l, p1 - layer_y l, p2 - layer_x l, p3 - layer_y l]],
                 bboxNeedsUpdate := True,
                 needsPixelBbox := (if \<not> needsPixelBbox l \<and> tool0 = eraser then True
                                    else needsPixelBbox l)\<rparr>) s)"

fun push_points :: "real list \<Rightarrow> mask_object \<Rightarrow> mask_object" where
  "push_points new (VectorMaskLine i t w ps) = VectorMaskLine i t w (ps @ new)"
| "push_points new (VectorMaskRect i x y w h) = VectorMaskRect i x y w h"

definition maskLayerPointsAdded ::
  "string \<Rightarrow> real \<times> real \<Rightarrow> regional_prompts_state \<Rightarrow> regional_prompts_state" where
  "maskLayerPointsAdded layerId point s =
     (case find (\<lambda>l. layer_id l = layerId) (layers s) of
        None \<Rightarrow> s
      | Some layer \<Rightarrow>
          (case findLast isLine (objects layer) of
             None \<Rightarrow> s
           | Some lastLine \<Rightarrow>
               with_layer layerId
                 (\<lambda>l. l\<lparr>objects := update_last isLine
                                      (push_points [fst point - layer_x l, snd point - layer_y l])
                                      (objects l),
                        bboxNeedsUpdate := True\<rparr>) s))"

definition maskLayerRectAdded ::
  "string \<Rightarrow> irect \<Rightarrow> string \<Rightarrow> regional_prompts_state \<Rightarrow> regional_prompts_state" where
  "maskLayerRectAdded layerId rect uuid s =
     (if height rect = 0 \<or> width rect = 0 then s
      else with_layer layerId
             (\<lambda>l. l\<lparr>objects := objects l @
                        [VectorMaskRect (getVectorMaskLayerRectId (layer_id l) uuid)
                           (rect_x rect - layer_x l) (rect_y rect - layer_y l)
                           (width rect) (height rect)],
                    bboxNeedsUpdate := True\<rparr>) s)"

definition maskLayerAutoNegativeChanged ::
  "string \<Rightarrow> auto_negative \<Rightarrow> regional_prompts_state \<Rightarrow> regional_prompts_state" where
  "maskLayerAutoNegativeChanged layerId an s = with_layer layerId (\<lambda>l. l\<lparr>autoNegative := an\<rparr>) s"

definition brushSizeChanged :: "real \<Rightarrow> regional_prompts_state \<Rightarrow> regional_prompts_state" where
  "brushSizeChanged payload s = s\<lparr>brushSize := payload\<rparr>"

definition globalMaskLayerOpacityChanged :: "real \<Rightarrow> regional_prompts_state \<Rightarrow> regional_prompts_state" where
  "globalMaskLayerOpacityChanged payload s =
     s\<lparr>globalMaskLayerOpacity := payload,
       layers := map (\<lambda>l. l\<lparr>previewColor := (previewColor l)\<lparr>col_a := payload\<rparr>\<rparr>) (layers s)\<rparr>"

definition isEnabledChanged :: "bool \<Rightarrow> regional_prompts_state \<Rightarrow> regional_prompts_state" where
  "isEnabledChanged payload s = s\<lparr>isEnabled := payload\<rparr>"

definition undo :: "regional_prompts_state \<Rightarrow> regional_prompts_state" where
  "undo s = s\<lparr>layers := map (\<lambda>l. l\<lparr>bboxNeedsUpdate := True\<rparr>) (layers s)\<rparr>"

definition redo :: "regional_prompts_state \<Rightarrow> regional_prompts_state" where
  "redo s = s\<lparr>layers := map (\<lambda>l. l\<lparr>bboxNeedsUpdate := True\<rparr>) (layers s)\<rparr>"

subsection \<open>Actions and the slice reducer\<close>

text \<open>
  The closed set of actions of the slice, each with its payload (and the uuid that
  \<^verbatim>\<open>prepare\<close> puts into \<^verbatim>\<open>meta\<close>); \<open>OtherAction\<close> is an action of another slice, known by
  its type string only.
\<close>

datatype action =
    LayerAdded layer_kind string
  | LayerSelected string
  | LayerVisibilityToggled string
  | LayerTranslated string real real
  | LayerBboxChanged string "irect option"
  | LayerReset string
  | LayerDeleted string
  | LayerMovedForward string
  | LayerMovedToFront string
  | LayerMovedBackward string
  | LayerMovedToBack string
  | AllLayersDeleted
  | MaskLayerPositivePromptChanged string string
  | MaskLayerNegativePromptChanged string string
  | MaskLayerPreviewColorChanged string rgba_color
  | MaskLayerLineAdded string "real \<times> real \<times> real \<times> real" drawing_tool string
  | MaskLayerPointsAdded string "real \<times> real"
  | MaskLayerRectAdded string irect string
  | MaskLayerAutoNegativeChanged string auto_negative
  | BrushSizeChanged real
  | GlobalMaskLayerOpacityChanged real
  | IsEnabledChanged bool
  | Undo
  | Redo
  | OtherAction string

text \<open>The state the actions act on: the cycler's static index and the slice.\<close>

type_synonym store = "nat \<times> regional_prompts_state"

fun reducer :: "store \<Rightarrow> action \<Rightarrow> error + store" where
  "reducer st (LayerAdded k uuid) = layerAdded k uuid st"
| "reducer (i, s) (LayerSelected p) = Inr (i, layerSelected p s)"
| "reducer (i, s) (LayerVisibilityToggled p) = Inr (i, layerVisibilityToggled p s)"
| "reducer (i, s) (LayerTranslated p x y) = Inr (i, layerTranslated p x y s)"
| "reducer (i, s) (LayerBboxChanged p b) = Inr (i, layerBboxChanged p b s)"
| "reducer (i, s) (LayerReset p) = Inr (i, layerReset p s)"
| "reducer (i, s) (LayerDeleted p) = Inr (i, layerDeleted p s)"
| "reducer (i, s) (LayerMovedForward p) = Inr (i, layerMovedForward p s)"
| "reducer (i, s) (LayerMovedToFront p) = Inr (i, layerMovedToFront p s)"
| "reducer (i, s) (LayerMovedBackward p) = Inr (i, layerMovedBackward p s)"
| "reducer (i, s) (LayerMovedToBack p) = Inr (i, layerMovedToBack p s)"
| "reducer (i, s) AllLayersDeleted = Inr (i, allLayersDeleted s)"
| "reducer (i, s) (MaskLayerPositivePromptChanged p t) = Inr (i, maskLayerPositivePromptChanged p t s)"
| "reducer (i, s) (MaskLayerNegativePromptChanged p t) = Inr (i, maskLayerNegativePromptChanged p t s)"
| "reducer (i, s) (MaskLayerPreviewColorChanged p c) = Inr (i, maskLayerPreviewColorChanged p c s)"
| "reducer (i, s) (MaskLayerLineAdded p pts tool0 uuid) = Inr (i, maskLayerLineAdded p pts tool0 uuid s)"
| "reducer (i, s) (MaskLayerPointsAdded p pt) = Inr (i, maskLayerPointsAdded p pt s)"
| "reducer (i, s) (MaskLayerRectAdded p r uuid) = Inr (i, maskLayerRectAdded p r uuid s)"
| "reducer (i, s) (MaskLayerAutoNegativeChanged p an) = Inr (i, maskLayerAutoNegativeChanged p an s)"
| "reducer (i, s) (BrushSizeChanged v) = Inr (i, brushSizeChanged v s)"
| "reducer (i, s) (GlobalMaskLayerOpacityChanged v) = Inr (i, globalMaskLayerOpacityChanged v s)"
| "reducer (i, s) (IsEnabledChanged v) = Inr (i, isEnabledChanged v s)"
| "reducer (i, s) Undo = Inr (i, undo s)"
| "reducer (i, s) Redo = Inr (i, redo s)"
| "reducer (i, s) (OtherAction t) = Inr (i, s)"

text \<open>Dispatching a sequence of actions; a thrown error ends the run.\<close>

fun dispatch_all :: "store \<Rightarrow> action list \<Rightarrow> error + store" where
  "dispatch_all st [] = Inr st"
| "dispatch_all st (a # as) =
     (case reducer st a of Inl e \<Rightarrow> Inl e | Inr st' \<Rightarrow> dispatch_all st' as)"

definition selection_valid :: "regional_prompts_state \<Rightarrow> bool" where
  "selection_valid s =
     (case selectedLayerId s of
        None \<Rightarrow> True
      | Some i \<Rightarrow> i \<in> set (map layer_id (layers s)))"

text \<open>Calling \<^verbatim>\<open>LayerColors.next()\<close> without an argument \<open>n\<close> times in a row: the colors
  returned, in order, and the index left behind.\<close>

fun next_times :: "nat \<Rightarrow> nat \<Rightarrow> error + (rgba_color list \<times> nat)" where
  "next_times 0 i = Inr ([], i)"
| "next_times (Suc n) i =
     (case next None i of
        Inl e \<Rightarrow> Inl e
      | Inr (c, i') \<Rightarrow>
          (case next_times n i' of
             Inl e \<Rightarrow> Inl e
           | Inr (cs, i'') \<Rightarrow> Inr (c # cs, i'')))"

subsection \<open>Undo grouping\<close>

definition sliceName :: string where
  "sliceName = ''regionalPrompts''"

text \<open>The type string of an action, as \<^verbatim>\<open>createSlice\<close> generates it: the slice name, a
  slash and the reducer's key.\<close>

fun action_type :: "action \<Rightarrow> string" where
  "action_type (LayerAdded k u) = sliceName @ ''/layerAdded''"
| "action_type (LayerSelected p) = sliceName @ ''/layerSelected''"
| "action_type (LayerVisibilityToggled p) = sliceName @ ''/layerVisibilityToggled''"
| "action_type (LayerTranslated p x y) = sliceName @ ''/layerTranslated''"
| "action_type (LayerBboxChanged p b) = sliceName @ ''/layerBboxChanged''"
| "action_type (LayerReset p) = sliceName @ ''/layerReset''"
| "action_type (LayerDeleted p) = sliceName @ ''/layerDeleted''"
| "action_type (LayerMovedForward p) = sliceName @ ''/layerMovedForward''"
| "action_type (LayerMovedToFront p) = sliceName @ ''/layerMovedToFront''"
| "action_type (LayerMovedBackward p) = sliceName @ ''/layerMovedBackward''"
| "action_type (LayerMovedToBack p) = sliceName @ ''/layerMovedToBack''"
| "action_type AllLayersDeleted = sliceName @ ''/allLayersDeleted''"
| "action_type (MaskLayerPositivePromptChanged p t) = sliceName @ ''/maskLayerPositivePromptChanged''"
| "action_type (MaskLayerNegativePromptChanged p t) = sliceName @ ''/maskLayerNegativePromptChanged''"
| "action_type (MaskLayerPreviewColorChanged p c) = sliceName @ ''/maskLayerPreviewColorChanged''"
| "action_type (MaskLayerLineAdded p pts t u) = sliceName @ ''/maskLayerLineAdded''"
| "action_type (MaskLayerPointsAdded p pt) = sliceName @ ''/maskLayerPointsAdded''"
| "action_type (MaskLayerRectAdded p r u) = sliceName @ ''/maskLayerRectAdded''"
| "action_type (MaskLayerAutoNegativeChanged p an) = sliceName @ ''/maskLayerAutoNegativeChanged''"
| "action_type (BrushSizeChanged v) = sliceName @ ''/brushSizeChanged''"
| "action_type (GlobalMaskLayerOpacityChanged v) = sliceName @ ''/globalMaskLayerOpacityChanged''"
| "action_type (IsEnabledChanged v) = sliceName @ ''/isEnabledChanged''"
| "action_type Undo = sliceName @ ''/undo''"
| "action_type Redo = sliceName @ ''/redo''"
| "action_type (OtherAction t) = t"

text \<open>\<^verbatim>\<open>isAnyOf(...)\<close> over the seven action creators that group by their own type.\<close>

fun undoableGroupByMatcher :: "action \<Rightarrow> bool" where
  "undoableGroupByMatcher (LayerTranslated p x y) = True"
| "undoableGroupByMatcher (BrushSizeChanged v) = True"
| "undoableGroupByMatcher (GlobalMaskLayerOpacityChanged v) = True"
| "undoableGroupByMatcher (IsEnabledChanged v) = True"
| "undoableGroupByMatcher (MaskLayerPositivePromptChanged p t) = True"
| "undoableGroupByMatcher (MaskLayerNegativePromptChanged p t) = True"
| "undoableGroupByMatcher (MaskLayerPreviewColorChanged p c) = True"
| "undoableGroupByMatcher a = False"

definition LINE_1 :: string where
  "LINE_1 = ''LINE_1''"

definition LINE_2 :: string where
  "LINE_2 = ''LINE_2''"

fun is_maskLayerLineAdded :: "action \<Rightarrow> bool" where
  "is_maskLayerLineAdded (MaskLayerLineAdded p pts t u) = True"
| "is_maskLayerLineAdded a = False"

fun is_maskLayerPointsAdded :: "action \<Rightarrow> bool" where
  "is_maskLayerPointsAdded (MaskLayerPointsAdded p pt) = True"
| "is_maskLayerPointsAdded a = False"

fun is_layerBboxChanged :: "action \<Rightarrow> bool" where
  "is_layerBboxChanged (LayerBboxChanged p b) = True"
| "is_layerBboxChanged a = False"

text \<open>
  \<^verbatim>\<open>regionalPromptsUndoableConfig.groupBy(action, state, history)\<close>. It reads nothing of
  the state and only \<^verbatim>\<open>history.group\<close> of the history, which is the second argument
  here (\<open>None\<close> for \<^verbatim>\<open>null\<close>). The three \<^verbatim>\<open>if\<close>s are tried in the source's order.
\<close>

definition groupBy :: "action \<Rightarrow> string option \<Rightarrow> string option" where
  "groupBy a history_group =
     (if is_maskLayerLineAdded a then
        (if history_group = Some LINE_1 then Some LINE_2 else Some LINE_1)
      else if is_maskLayerPointsAdded a \<and>
              (history_group = Some LINE_1 \<or> history_group = Some LINE_2) then history_group
      else if undoableGroupByMatcher a then Some (action_type a)
      else None)"

text \<open>\<^verbatim>\<open>regionalPromptsUndoableConfig.filter\<close>: which actions enter the history at all.\<close>

definition filter_undoable :: "action \<Rightarrow> bool" where
  "filter_undoable a =
     (if take (length sliceName) (action_type a) \<noteq> sliceName then False
      else if is_layerBboxChanged a then False
      else True)"

text \<open>
  The history that the undo wrapper keeps, reduced to what grouping is about: the entries
  recorded so far, each with the actions folded into it, and the group token of the last
  entry. The wrapper is a library outside this repository; the rule below is the one the
  spec states for it: an action that the filter rejects leaves the history alone, an action
  whose group is not \<^verbatim>\<open>null\<close> and equals the history's group is folded into the last entry,
  and any other action opens a new entry and sets the history's group to its own. Every
  action is taken to change the state (the wrapper records nothing for an action that
  does not).
\<close>

record undo_history =
  entries :: "action list list"
  group :: "string option"

definition empty_history :: undo_history where
  "empty_history = \<lparr> entries = [], group = None \<rparr>"

definition record_action :: "undo_history \<Rightarrow> action \<Rightarrow> undo_history" where
  "record_action h a =
     (if \<not> filter_undoable a then h
      else (let g = groupBy a (group h)
            in if g \<noteq> None \<and> g = group h \<and> entries h \<noteq> []
               then h\<lparr>entries := butlast (entries h) @ [last (entries h) @ [a]]\<rparr>
               else \<lparr> entries = entries h @ [[a]], group = g \<rparr>))"

definition record_all :: "undo_history \<Rightarrow> action list \<Rightarrow> undo_history" where
  "record_all h as = foldl record_action h as"

section \<open>The graph splicer\<close>

subsection \<open>Execution graph\<close>

text \<open>
  \<^verbatim>\<open>NonNullableGraph\<close>: a dictionary from node id to invocation and an array of edges. The
  invocations the splicer creates are constructors of their own; \<open>OtherInvocation\<close>, with
  the node's id and type, is any other node of the graph handed in.
\<close>

record field_ref =
  node_id :: string
  field :: string

record edge =
  source :: field_ref
  destination :: field_ref

datatype invocation =
    CollectInvocation string
  | AlphaMaskToTensorInvocation string string
  | CompelInvocation string string
  | SDXLCompelPromptInvocation string string string
  | InvertTensorMaskInvocation string
  | OtherInvocation string string

record graph =
  nodes :: "string \<rightharpoonup> invocation"
  edges :: "edge list"

text \<open>
  The node ids and id prefixes are imported by the splicer from
  \<^verbatim>\<open>features/nodes/util/graph/constants\<close>, whose text is missing: their values are a
  parameter.
\<close>

record graph_constants =
  NEGATIVE_CONDITIONING :: string
  NEGATIVE_CONDITIONING_COLLECT :: string
  POSITIVE_CONDITIONING :: string
  POSITIVE_CONDITIONING_COLLECT :: string
  PROMPT_REGION_INVERT_TENSOR_MASK_PREFIX :: string
  PROMPT_REGION_MASK_TO_TENSOR_PREFIX :: string
  PROMPT_REGION_NEGATIVE_COND_PREFIX :: string
  PROMPT_REGION_POSITIVE_COND_INVERTED_PREFIX :: string
  PROMPT_REGION_POSITIVE_COND_PREFIX :: string

text \<open>What the splicer reads of \<^verbatim>\<open>RootState\<close>: the present state of the undoable slice
  and the base of the selected model, if a model is selected.\<close>

record root_state =
  regionalPrompts_present :: regional_prompts_state
  generation_model_base :: "string option"

subsection \<open>Collaborators and effects\<close>

text \<open>
  A blob is the bytes of a rendered mask. \<^verbatim>\<open>getRegionalPromptLayerBlobs\<close> (imported, its
  text missing) and the upload endpoint are parameters: the first maps the layer ids asked
  for to a \<^verbatim>\<open>Record<string, Blob>\<close>, here the association list of the object's own
  properties, in which the first entry of a key is the one a lookup finds; the second maps
  a file name and the file's content to the image name the server assigns, or fails. The
  calls made are logged, in order.
\<close>

type_synonym blob = "nat list"

type_synonym blobs = "(string \<times> blob) list"

text \<open>
  \<^verbatim>\<open>blobs[layer.id]\<close> reads a property of a plain object: where the object has no property
  of its own under the key, the lookup goes on to \<^verbatim>\<open>Object.prototype\<close>, whose properties
  are functions (and, under \<^verbatim>\<open>__proto__\<close>, the prototype itself). All of them are truthy, so
  \<^verbatim>\<open>assert(blob)\<close> lets them pass, and \<^verbatim>\<open>new File([blob], ...)\<close> takes them as content.
  The content of a file is therefore a blob or a value inherited under a property name.
\<close>

datatype file_part = BlobPart blob | InheritedPart string

definition Object_prototype_keys :: "string list" where
  "Object_prototype_keys =
     [''constructor'', ''__defineGetter__'', ''__defineSetter__'', ''hasOwnProperty'',
      ''__lookupGetter__'', ''__lookupSetter__'', ''isPrototypeOf'', ''propertyIsEnumerable'',
      ''toString'', ''valueOf'', ''__proto__'', ''toLocaleString'']"

definition get_property :: "blobs \<Rightarrow> string \<Rightarrow> file_part option" where
  "get_property bs k =
     (case map_of bs k of
        Some b \<Rightarrow> Some (BlobPart b)
      | None \<Rightarrow> if k \<in> set Object_prototype_keys then Some (InheritedPart k) else None)"

datatype effect =
    BlobsRequested "string list"
  | UploadInitiated string file_part

text \<open>\<^verbatim>\<open>size\<close> of lodash on an object: the number of its own keys.\<close>

definition size_blobs :: "blobs \<Rightarrow> nat" where
  "size_blobs bs = length (remdups (map fst bs))"

record splice_state =
  st_graph :: graph
  st_effects :: "effect list"

datatype outcome = Returned | Threw error

subsection \<open>Copying the global node's connections\<close>

text \<open>
  \<^verbatim>\<open>for (const edge of graph.edges) { if (...) graph.edges.push(...) }\<close>: the array iterator
  reads the length anew at every step, so edges pushed during the loop are visited by it.
  The loop is therefore not known to end, and \<open>None\<close> is a run that never does.
\<close>

definition feeds_global :: "string \<Rightarrow> edge \<Rightarrow> bool" where
  "feeds_global globalId e =
     (node_id (destination e) = globalId \<and> field (destination e) \<noteq> ''prompt'')"

definition copied_edge :: "string \<Rightarrow> edge \<Rightarrow> edge" where
  "copied_edge regionalId e =
     \<lparr> source = source e,
       destination = \<lparr> node_id = regionalId, field = field (destination e) \<rparr> \<rparr>"

partial_function (option) copyEdges :: "string \<Rightarrow> string \<Rightarrow> nat \<Rightarrow> edge list \<Rightarrow> edge list option" where
  "copyEdges globalId regionalId i es =
     (if i < length es then
        (if feeds_global globalId (es ! i)
         then copyEdges globalId regionalId (Suc i) (es @ [copied_edge regionalId (es ! i)])
         else copyEdges globalId regionalId (Suc i) es)
      else Some es)"

subsection \<open>The splicer\<close>

text \<open>The conditioning node for a prompt: the SDXL variant carries the prompt in both of
  its fields.\<close>

definition condNode :: "bool \<Rightarrow> string \<Rightarrow> string \<Rightarrow> invocation" where
  "condNode isSDXL nid prompt =
     (if isSDXL then SDXLCompelPromptInvocation nid prompt prompt
      else CompelInvocation nid prompt)"

definition add_node :: "string \<Rightarrow> invocation \<Rightarrow> graph \<Rightarrow> graph" where
  "add_node nid n g = g\<lparr>nodes := (nodes g)(nid \<mapsto> n)\<rparr>"

definition push_edge :: "edge \<Rightarrow> graph \<Rightarrow> graph" where
  "push_edge e g = g\<lparr>edges := edges g @ [e]\<rparr>"

definition mk_edge :: "string \<Rightarrow> string \<Rightarrow> string \<Rightarrow> string \<Rightarrow> edge" where
  "mk_edge sn sf dn df =
     \<lparr> source = \<lparr> node_id = sn, field = sf \<rparr>, destination = \<lparr> node_id = dn, field = df \<rparr> \<rparr>"

text \<open>The body of \<^verbatim>\<open>if (layer.textPrompt?.positive)\<close> (lines 133 to 170).\<close>

definition addPositiveCond ::
  "graph_constants \<Rightarrow> bool \<Rightarrow> layer \<Rightarrow> string \<Rightarrow> string \<Rightarrow> graph \<Rightarrow> graph option" where
  "addPositiveCond K isSDXL l prompt maskToTensorId g =
     (let rid = PROMPT_REGION_POSITIVE_COND_PREFIX K @ ''_'' @ layer_id l;
          g1 = add_node rid (condNode isSDXL rid prompt) g;
          g2 = push_edge (mk_edge maskToTensorId ''mask'' rid ''mask'') g1;
          g3 = push_edge (mk_edge rid ''conditioning'' (POSITIVE_CONDITIONING_COLLECT K) ''item'') g2
      in map_option (\<lambda>es. g3\<lparr>edges := es\<rparr>)
           (copyEdges (POSITIVE_CONDITIONING K) rid 0 (edges g3)))"

text \<open>The body of \<^verbatim>\<open>if (layer.textPrompt?.negative)\<close> (lines 172 to 209).\<close>

definition addNegativeCond ::
  "graph_constants \<Rightarrow> bool \<Rightarrow> layer \<Rightarrow> string \<Rightarrow> string \<Rightarrow> graph \<Rightarrow> graph option" where
  "addNegativeCond K isSDXL l prompt maskToTensorId g =
     (let rid = PROMPT_REGION_NEGATIVE_COND_PREFIX K @ ''_'' @ layer_id l;
          g1 = add_node rid (condNode isSDXL rid prompt) g;
          g2 = push_edge (mk_edge maskToTensorId ''mask'' rid ''mask'') g1;
          g3 = push_edge (mk_edge rid ''conditioning'' (NEGATIVE_CONDITIONING_COLLECT K) ''item'') g2
      in map_option (\<lambda>es. g3\<lparr>edges := es\<rparr>)
           (copyEdges (NEGATIVE_CONDITIONING K) rid 0 (edges g3)))"

text \<open>The body of \<^verbatim>\<open>if (layer.autoNegative === 'invert' && layer.textPrompt?.positive)\<close>
  (lines 212 to 266).\<close>

definition addInvertedCond ::
  "graph_constants \<Rightarrow> bool \<Rightarrow> layer \<Rightarrow> string \<Rightarrow> string \<Rightarrow> graph \<Rightarrow> graph option" where
  "addInvertedCond K isSDXL l prompt maskToTensorId g =
     (let iid = PROMPT_REGION_INVERT_TENSOR_MASK_PREFIX K @ ''_'' @ layer_id l;
          g1 = add_node iid (InvertTensorMaskInvocation iid) g;
          g2 = push_edge (mk_edge maskToTensorId ''mask'' iid ''mask'') g1;
          rid = PROMPT_REGION_POSITIVE_COND_INVERTED_PREFIX K @ ''_'' @ layer_id l;
          g3 = add_node rid (condNode isSDXL rid prompt) g2;
          g4 = push_edge (mk_edge iid ''mask'' rid ''mask'') g3;
          g5 = push_edge (mk_edge rid ''conditioning'' (NEGATIVE_CONDITIONING_COLLECT K) ''item'') g4
      in map_option (\<lambda>es. g5\<lparr>edges := es\<rparr>)
           (copyEdges (POSITIVE_CONDITIONING K) rid 0 (edges g5)))"

text \<open>\<^verbatim>\<open>layer.textPrompt?.positive\<close> and \<^verbatim>\<open>layer.textPrompt?.negative\<close> as conditions: the
  prompt when there is a text prompt and the string is not empty.\<close>

definition truthy_positive :: "layer \<Rightarrow> string option" where
  "truthy_positive l =
     (case textPrompt l of
        None \<Rightarrow> None
      | Some tp \<Rightarrow> if positive tp = [] then None else Some (positive tp))"

definition truthy_negative :: "layer \<Rightarrow> string option" where
  "truthy_negative l =
     (case textPrompt l of
        None \<Rightarrow> None
      | Some tp \<Rightarrow> if negative tp = [] then None else Some (negative tp))"

text \<open>The nodes and edges of one layer, once its mask is uploaded (lines 123 to 266).\<close>

definition addLayerNodes ::
  "graph_constants \<Rightarrow> bool \<Rightarrow> layer \<Rightarrow> string \<Rightarrow> graph \<Rightarrow> graph option" where
  "addLayerNodes K isSDXL l image_name g =
     (let mid = PROMPT_REGION_MASK_TO_TENSOR_PREFIX K @ ''_'' @ layer_id l;
          g1 = add_node mid (AlphaMaskToTensorInvocation mid image_name) g
      in do {
           g2 \<leftarrow> (case truthy_positive l of
                    None \<Rightarrow> Some g1
                  | Some p \<Rightarrow> addPositiveCond K isSDXL l p mid g1);
           g3 \<leftarrow> (case truthy_negative l of
                    None \<Rightarrow> Some g2
                  | Some n \<Rightarrow> addNegativeCond K isSDXL l n mid g2);
           (case truthy_positive l of
              None \<Rightarrow> Some g3
            | Some p \<Rightarrow>
                if autoNegative l = Invert then addInvertedCond K isSDXL l p mid g3
                else Some g3)
         })"

text \<open>One turn of the loop over the layers (lines 110 to 267): the blob's assertion, the
  upload, then the nodes. A throw leaves the state as it is at that point.\<close>

definition processLayer ::
  "graph_constants \<Rightarrow> (string \<Rightarrow> file_part \<Rightarrow> error + string) \<Rightarrow> bool \<Rightarrow> blobs \<Rightarrow> layer \<Rightarrow>
   splice_state \<Rightarrow> (outcome \<times> splice_state) option" where
  "processLayer K uploadImage isSDXL bs l st =
     (case get_property bs (layer_id l) of
        None \<Rightarrow>
          Some (Threw (AssertionError (''Blob for layer '' @ layer_id l @ '' not found'')), st)
      | Some b \<Rightarrow>
          (let file = layer_id l @ ''_mask.png'';
               st1 = st\<lparr>st_effects := st_effects st @ [UploadInitiated file b]\<rparr>
           in case uploadImage file b of
                Inl e \<Rightarrow> Some (Threw e, st1)
              | Inr image_name \<Rightarrow>
                  map_option (\<lambda>g. (Returned, st1\<lparr>st_graph := g\<rparr>))
                    (addLayerNodes K isSDXL l image_name (st_graph st1))))"

fun processLayers ::
  "graph_constants \<Rightarrow> (string \<Rightarrow> file_part \<Rightarrow> error + string) \<Rightarrow> bool \<Rightarrow> blobs \<Rightarrow> layer list \<Rightarrow>
   splice_state \<Rightarrow> (outcome \<times> splice_state) option" where
  "processLayers K uploadImage isSDXL bs [] st = Some (Returned, st)"
| "processLayers K uploadImage isSDXL bs (l # ls) st =
     (case processLayer K uploadImage isSDXL bs l st of
        None \<Rightarrow> None
      | Some (Threw e, st') \<Rightarrow> Some (Threw e, st')
      | Some (Returned, st') \<Rightarrow> processLayers K uploadImage isSDXL bs ls st')"

text \<open>
  Notions about one layer, for stating what a run leaves behind: the ids of the nodes the
  splicer may insert for the layer; the condition under which each of the three copy loops
  for the layer is sure to end (the conditioning node it copies to is not the global node it
  copies from); and the upload that the layer's turn initiates, if its blob lookup finds
  something.
\<close>

definition layer_node_ids :: "graph_constants \<Rightarrow> layer \<Rightarrow> string list" where
  "layer_node_ids K l =
     [PROMPT_REGION_MASK_TO_TENSOR_PREFIX K @ ''_'' @ layer_id l,
      PROMPT_REGION_POSITIVE_COND_PREFIX K @ ''_'' @ layer_id l,
      PROMPT_REGION_NEGATIVE_COND_PREFIX K @ ''_'' @ layer_id l,
      PROMPT_REGION_INVERT_TENSOR_MASK_PREFIX K @ ''_'' @ layer_id l,
      PROMPT_REGION_POSITIVE_COND_INVERTED_PREFIX K @ ''_'' @ layer_id l]"

definition copy_loops_end :: "graph_constants \<Rightarrow> layer \<Rightarrow> bool" where
  "copy_loops_end K l =
     (PROMPT_REGION_POSITIVE_COND_PREFIX K @ ''_'' @ layer_id l \<noteq> POSITIVE_CONDITIONING K \<and>
      PROMPT_REGION_NEGATIVE_COND_PREFIX K @ ''_'' @ layer_id l \<noteq> NEGATIVE_CONDITIONING K \<and>
      PROMPT_REGION_POSITIVE_COND_INVERTED_PREFIX K @ ''_'' @ layer_id l \<noteq> POSITIVE_CONDITIONING K)"

definition upload_of :: "blobs \<Rightarrow> layer \<Rightarrow> effect list" where
  "upload_of bs l =
     (case get_property bs (layer_id l) of
        None \<Rightarrow> []
      | Some part \<Rightarrow> [UploadInitiated (layer_id l @ ''_mask.png'') part])"

definition upload_succeeds :: "(string \<Rightarrow> file_part \<Rightarrow> error + string) \<Rightarrow> blobs \<Rightarrow> layer \<Rightarrow> bool" where
  "upload_succeeds uploadImage bs l =
     (case get_property bs (layer_id l) of
        None \<Rightarrow> False
      | Some part \<Rightarrow> (case uploadImage (layer_id l @ ''_mask.png'') part of Inl e \<Rightarrow> False | Inr n \<Rightarrow> True))"

text \<open>
  The graph \<open>G\<close> extends the graph \<open>g\<close> by nodes under the given ids: the edges of \<open>g\<close> are
  the first edges of \<open>G\<close>, every id with a node in \<open>g\<close> has one in \<open>G\<close>, and every other id
  with a node in \<open>G\<close> is one of the given ids.
\<close>

definition grows :: "string set \<Rightarrow> graph \<Rightarrow> graph \<Rightarrow> bool" where
  "grows ids g G =
     (prefix (edges g) (edges G) \<and> dom (nodes g) \<subseteq> dom (nodes G) \<and>
      dom (nodes G) \<subseteq> dom (nodes g) \<union> ids)"

text \<open>The three filters of lines 27 to 38.\<close>

definition hasPrompt :: "layer \<Rightarrow> bool" where
  "hasPrompt l =
     (let hasTextPrompt =
            (case textPrompt l of
               None \<Rightarrow> False
             | Some tp \<Rightarrow> positive tp \<noteq> [] \<or> negative tp \<noteq> []);
          hasAtLeastOneImagePrompt = (length (imagePrompts l) > 0)
      in hasTextPrompt \<or> hasAtLeastOneImagePrompt)"

definition filtered_layers :: "root_state \<Rightarrow> layer list" where
  "filtered_layers state =
     filter hasPrompt
       (filter isVisible
          (filter isVectorMaskLayer (layers (regionalPrompts_present state))))"

text \<open>The re-routing of one edge (lines 61 to 81).\<close>

definition reroute :: "graph_constants \<Rightarrow> string \<Rightarrow> edge \<Rightarrow> edge" where
  "reroute K denoiseNodeId e =
     (if node_id (destination e) = denoiseNodeId \<and> field (destination e) = ''positive_conditioning''
      then \<lparr> source = source e,
             destination = \<lparr> node_id = POSITIVE_CONDITIONING_COLLECT K, field = ''item'' \<rparr> \<rparr>
      else if node_id (destination e) = denoiseNodeId \<and>
              field (destination e) = ''negative_conditioning''
      then \<lparr> source = source e,
             destination = \<lparr> node_id = NEGATIVE_CONDITIONING_COLLECT K, field = ''item'' \<rparr> \<rparr>
      else e)"

text \<open>Lines 48 to 104: the two collectors, the re-routed edges, then the two edges from
  the collectors to the denoiser.\<close>

definition addCollectors :: "graph_constants \<Rightarrow> string \<Rightarrow> graph \<Rightarrow> graph" where
  "addCollectors K denoiseNodeId g =
     (let g1 = add_node (POSITIVE_CONDITIONING_COLLECT K)
                 (CollectInvocation (POSITIVE_CONDITIONING_COLLECT K)) g;
          g2 = add_node (NEGATIVE_CONDITIONING_COLLECT K)
                 (CollectInvocation (NEGATIVE_CONDITIONING_COLLECT K)) g1;
          g3 = g2\<lparr>edges := map (reroute K denoiseNodeId) (edges g2)\<rparr>;
          g4 = push_edge (mk_edge (POSITIVE_CONDITIONING_COLLECT K) ''collection''
                            denoiseNodeId ''positive_conditioning'') g3
      in push_edge (mk_edge (NEGATIVE_CONDITIONING_COLLECT K) ''collection''
                      denoiseNodeId ''negative_conditioning'') g4)"

text \<open>
  \<^verbatim>\<open>addRegionalPromptsToGraph(state, graph, denoiseNodeId)\<close>. The graph is mutated in
  place by the source, so the graph as the call leaves it is part of the result whether
  the call returns or throws; \<open>None\<close> is a call that never comes back.
\<close>

definition addRegionalPromptsToGraph ::
  "graph_constants \<Rightarrow> (string list \<Rightarrow> blobs) \<Rightarrow> (string \<Rightarrow> file_part \<Rightarrow> error + string) \<Rightarrow>
   root_state \<Rightarrow> graph \<Rightarrow> string \<Rightarrow> (outcome \<times> splice_state) option" where
  "addRegionalPromptsToGraph K getRegionalPromptLayerBlobs uploadImage state g denoiseNodeId =
     (if \<not> isEnabled (regionalPrompts_present state)
      then Some (Returned, \<lparr> st_graph = g, st_effects = [] \<rparr>)
      else
        (let isSDXL = (generation_model_base state = Some ''sdxl'');
             ls = filtered_layers state;
             layerIds = map layer_id ls;
             bs = getRegionalPromptLayerBlobs layerIds;
             st0 = \<lparr> st_graph = g, st_effects = [BlobsRequested layerIds] \<rparr>
         in if size_blobs bs \<noteq> length layerIds
            then Some (Threw (AssertionError ''Mismatch between layer IDs and blobs''), st0)
            else processLayers K uploadImage isSDXL bs ls
                   (st0\<lparr>st_graph := addCollectors K denoiseNodeId g\<rparr>)))"

text \<open>Observations on a graph: the edges into one input of one node, and their sources.\<close>

definition enters :: "string \<Rightarrow> string \<Rightarrow> edge \<Rightarrow> bool" where
  "enters nid f e = (node_id (destination e) = nid \<and> field (destination e) = f)"

definition incoming :: "graph \<Rightarrow> string \<Rightarrow> string \<Rightarrow> edge list" where
  "incoming g nid f = filter (enters nid f) (edges g)"

definition incoming_sources :: "graph \<Rightarrow> string \<Rightarrow> string \<Rightarrow> field_ref list" where
  "incoming_sources g nid f = map source (incoming g nid f)"

section \<open>Concrete inputs\<close>

text \<open>A layer as \<open>layerAdded\<close> creates it, with a given id and the first palette color, and
  a store state holding given layers with a given selection.\<close>

definition example_layer :: "string \<Rightarrow> layer" where
  "example_layer i =
     \<lparr> layer_id = i, layer_x = 0, layer_y = 0, bbox = None, bboxNeedsUpdate = False,
       isVisible = True, textPrompt = Some \<lparr> positive = '''', negative = '''' \<rparr>,
       imagePrompts = [], previewColor = \<lparr> col_r = 123, col_g = 159, col_b = 237, col_a = 1 \<rparr>,
       autoNegative = Off, needsPixelBbox = False, kind = vector_mask_layer, objects = [] \<rparr>"

definition example_state :: "layer list \<Rightarrow> string option \<Rightarrow> regional_prompts_state" where
  "example_state ls sel = initialRegionalPromptsState\<lparr>layers := ls, selectedLayerId := sel\<rparr>"

text \<open>A layer with a line followed by a rectangle, and a layer with a rectangle only.\<close>

definition line_then_rect_layer :: layer where
  "line_then_rect_layer =
     (example_layer ''a'')\<lparr>objects :=
        [VectorMaskLine ''a.line_1'' brush 100 [0, 0, 1, 1],
         VectorMaskRect ''a.rect_1'' 0 0 10 10]\<rparr>"

definition rect_only_layer :: layer where
  "rect_only_layer =
     (example_layer ''a'')\<lparr>objects := [VectorMaskRect ''a.rect_1'' 0 0 10 10]\<rparr>"

text \<open>A layer placed at (2, 3) with two lines followed by a rectangle.\<close>

definition two_lines_layer :: layer where
  "two_lines_layer =
     (example_layer ''a'')\<lparr>layer_x := 2, layer_y := 3, objects :=
        [VectorMaskLine ''a.line_1'' brush 100 [0, 0, 1, 1],
         VectorMaskLine ''a.line_2'' eraser 50 [4, 4, 6, 6],
         VectorMaskRect ''a.rect_1'' 0 0 10 10]\<rparr>"

text \<open>
  A splicing scenario. The constants get values of the shape the names suggest; the base
  graph has a model loader feeding the \<open>clip\<close> input of the global positive and negative
  conditioning nodes, each of which feeds the denoiser. A prompt layer is visible and
  carries the given prompts and auto-negative policy. Every upload succeeds.
\<close>

definition example_constants :: graph_constants where
  "example_constants =
     \<lparr> NEGATIVE_CONDITIONING = ''negative_conditioning'',
       NEGATIVE_CONDITIONING_COLLECT = ''negative_conditioning_collect'',
       POSITIVE_CONDITIONING = ''positive_conditioning'',
       POSITIVE_CONDITIONING_COLLECT = ''positive_conditioning_collect'',
       PROMPT_REGION_INVERT_TENSOR_MASK_PREFIX = ''prompt_region_invert_tensor_mask'',
       PROMPT_REGION_MASK_TO_TENSOR_PREFIX = ''prompt_region_mask_to_tensor'',
       PROMPT_REGION_NEGATIVE_COND_PREFIX = ''prompt_region_negative_cond'',
       PROMPT_REGION_POSITIVE_COND_INVERTED_PREFIX = ''prompt_region_positive_cond_inverted'',
       PROMPT_REGION_POSITIVE_COND_PREFIX = ''prompt_region_positive_cond'' \<rparr>"

definition base_graph :: graph where
  "base_graph =
     \<lparr> nodes =
         [''main_model_loader'' \<mapsto> OtherInvocation ''main_model_loader'' ''main_model_loader'',
          ''positive_conditioning'' \<mapsto> CompelInvocation ''positive_conditioning'' ''a landscape'',
          ''negative_conditioning'' \<mapsto> CompelInvocation ''negative_conditioning'' ''blurry'',
          ''denoise_latents'' \<mapsto> OtherInvocation ''denoise_latents'' ''denoise_latents''],
       edges =
         [mk_edge ''main_model_loader'' ''clip'' ''positive_conditioning'' ''clip'',
          mk_edge ''main_model_loader'' ''clip'' ''negative_conditioning'' ''clip'',
          mk_edge ''positive_conditioning'' ''conditioning'' ''denoise_latents'' ''positive_conditioning'',
          mk_edge ''negative_conditioning'' ''conditioning'' ''denoise_latents'' ''negative_conditioning''] \<rparr>"

definition prompt_layer :: "string \<Rightarrow> string \<Rightarrow> string \<Rightarrow> auto_negative \<Rightarrow> layer" where
  "prompt_layer i p n an =
     (example_layer i)\<lparr>textPrompt := Some \<lparr> positive = p, negative = n \<rparr>, autoNegative := an\<rparr>"

definition example_root_state :: "layer list \<Rightarrow> bool \<Rightarrow> root_state" where
  "example_root_state ls en =
     \<lparr> regionalPrompts_present = (example_state ls None)\<lparr>isEnabled := en\<rparr>,
       generation_model_base = Some ''sd-1'' \<rparr>"

definition example_upload :: "string \<Rightarrow> file_part \<Rightarrow> error + string" where
  "example_upload file b = Inr (''uploaded_'' @ file)"

text \<open>An upload endpoint that is not reachable, and the same scenario run against an
  upload endpoint of choice.\<close>

definition failing_upload :: "string \<Rightarrow> file_part \<Rightarrow> error + string" where
  "failing_upload file b = Inl (UploadError ''network error'')"

definition const_blobs :: "blobs \<Rightarrow> string list \<Rightarrow> blobs" where
  "const_blobs bs layerIds = bs"

definition run_example :: "layer list \<Rightarrow> bool \<Rightarrow> blobs \<Rightarrow> (outcome \<times> splice_state) option" where
  "run_example ls en bs =
     addRegionalPromptsToGraph example_constants (const_blobs bs) example_upload
       (example_root_state ls en) base_graph ''denoise_latents''"

definition run_example_with ::
  "(string \<Rightarrow> file_part \<Rightarrow> error + string) \<Rightarrow> layer list \<Rightarrow> blobs \<Rightarrow>
   (outcome \<times> splice_state) option" where
  "run_example_with up ls bs =
     addRegionalPromptsToGraph example_constants (const_blobs bs) up
       (example_root_state ls True) base_graph ''denoise_latents''"

text \<open>What a finished run shows: the sources of the edges into a collector's \<open>item\<close> input,
  and the node stored under an id.\<close>

definition item_sources_after :: "(outcome \<times> splice_state) option \<Rightarrow> string \<Rightarrow> field_ref list option" where
  "item_sources_after r c =
     (case r of
        Some (Returned, st) \<Rightarrow> Some (incoming_sources (st_graph st) c ''item'')
      | _ \<Rightarrow> None)"

definition node_after :: "(outcome \<times> splice_state) option \<Rightarrow> string \<Rightarrow> invocation option" where
  "node_after r nid = (case r of Some (out, st) \<Rightarrow> nodes (st_graph st) nid | None \<Rightarrow> None)"

definition thrown :: "(outcome \<times> splice_state) option \<Rightarrow> error option" where
  "thrown r = (case r of Some (Threw e, st) \<Rightarrow> Some e | _ \<Rightarrow> None)"

definition effects_after :: "(outcome \<times> splice_state) option \<Rightarrow> effect list" where
  "effects_after r = (case r of Some (out, st) \<Rightarrow> st_effects st | None \<Rightarrow> [])"

section \<open>Properties of the color cycler\<close>

lemma length_COLORS: "length COLORS = 7"
  by (simp add: COLORS_def)

lemma next_None: "next None i = Inr (COLORS ! (Suc i mod 7), Suc i mod 7)"
  by (simp add: next_def length_COLORS Let_def)

lemma next_None_mod: "next None (i mod 7) = next None i"
  unfolding next_None by (simp only: mod_Suc_eq)

lemma next_times_mod: "next_times (Suc n) (i mod 7) = next_times (Suc n) i"
  by (simp only: next_times.simps next_None_mod)

lemma seven_Suc: "(7::nat) = Suc (Suc (Suc (Suc (Suc (Suc (Suc 0))))))"
  by simp

lemma below_7_cases:
  assumes "r < (7::nat)"
  obtains "r = 0" | "r = 1" | "r = 2" | "r = 3" | "r = 4" | "r = 5" | "r = 6"
  using assms by linarith

text \<open>Seven calls from an index in range return the palette rotated to start just after
  that index, and leave the index where it was.\<close>

lemma next_times_7:
  assumes "r < 7"
  shows "next_times 7 r = Inr (drop (Suc r) COLORS @ take (Suc r) COLORS, r)"
  using assms
proof (cases r rule: below_7_cases)
  case 1
  show ?thesis unfolding 1 seven_Suc next_times.simps next_None by (simp add: COLORS_def)
next
  case 2
  show ?thesis unfolding 2 seven_Suc next_times.simps next_None by (simp add: COLORS_def)
next
  case 3
  show ?thesis unfolding 3 seven_Suc next_times.simps next_None by (simp add: COLORS_def)
next
  case 4
  show ?thesis unfolding 4 seven_Suc next_times.simps next_None by (simp add: COLORS_def)
next
  case 5
  show ?thesis unfolding 5 seven_Suc next_times.simps next_None by (simp add: COLORS_def)
next
  case 6
  show ?thesis unfolding 6 seven_Suc next_times.simps next_None by (simp add: COLORS_def)
next
  case 7
  show ?thesis unfolding 7 seven_Suc next_times.simps next_None by (simp add: COLORS_def)
qed

lemma findIndex_COLORS:
  assumes "k < 7"
  shows "findIndex (\<lambda>c'. c' = COLORS ! k) COLORS = Some k"
  using assms
  by (cases k rule: below_7_cases) (simp_all add: COLORS_def)

lemma next_seeded:
  assumes "k < 7" and "c\<lparr>col_a := 1\<rparr> = COLORS ! k"
  shows "next (Some c) i = Inr (COLORS ! (Suc k mod 7), Suc k mod 7)"
  by (simp add: next_def assms findIndex_COLORS length_COLORS Let_def)

text \<open>
  Claim C8. The palette has seven entries. From any index, seven calls of \<open>next()\<close>
  without an argument never fail, return every palette color exactly once, and bring the
  cycler to an index from which the same seven colors come again in the same order, so the
  sequence repeats with period seven. A call seeded with a color that equals the palette's
  entry \<open>k\<close> up to alpha returns the entry after it, the entry after the last being the
  first: seeded with the third color it returns the fourth.
\<close>

theorem color_cycler_visits_palette:
  "length COLORS = 7 \<and>
   (\<exists>cs j. next_times (length COLORS) i = Inr (cs, j) \<and> distinct cs \<and> set cs = set COLORS \<and>
            next_times (length COLORS) j = Inr (cs, j)) \<and>
   (\<forall>c k. k < length COLORS \<and> c\<lparr>col_a := 1\<rparr> = COLORS ! k \<longrightarrow>
            next (Some c) i0 =
              Inr (COLORS ! (Suc k mod length COLORS), Suc k mod length COLORS)) \<and>
   (\<forall>c. c\<lparr>col_a := 1\<rparr> = COLORS ! 2 \<longrightarrow> next (Some c) i0 = Inr (COLORS ! 3, 3)) \<and>
   (\<forall>c. c\<lparr>col_a := 1\<rparr> = COLORS ! 6 \<longrightarrow> next (Some c) i0 = Inr (COLORS ! 0, 0))"
proof (intro conjI)
  show "length COLORS = 7" by (rule length_COLORS)
next
  let ?j = "i mod 7"
  let ?cs = "drop (Suc ?j) COLORS @ take (Suc ?j) COLORS"
  have j: "?j < 7" by simp
  have "next_times 7 i = next_times 7 ?j"
    using next_times_mod [of 6 i] by simp
  then have run: "next_times 7 i = Inr (?cs, ?j)"
    by (simp only: next_times_7 [OF j])
  have d: "distinct ?cs"
  proof -
    have "distinct (take (Suc ?j) COLORS @ drop (Suc ?j) COLORS)"
      by (simp add: COLORS_def)
    then show ?thesis by (simp only: distinct_append) blast
  qed
  have s: "set ?cs = set COLORS"
  proof -
    have "set ?cs = set (take (Suc ?j) COLORS @ drop (Suc ?j) COLORS)"
      by (simp only: set_append Un_commute)
    then show ?thesis by (simp only: append_take_drop_id)
  qed
  show "\<exists>cs j. next_times (length COLORS) i = Inr (cs, j) \<and> distinct cs \<and>
          set cs = set COLORS \<and> next_times (length COLORS) j = Inr (cs, j)"
    unfolding length_COLORS using run d s next_times_7 [OF j] by blast
next
  show "\<forall>c k. k < length COLORS \<and> c\<lparr>col_a := 1\<rparr> = COLORS ! k \<longrightarrow>
          next (Some c) i0 = Inr (COLORS ! (Suc k mod length COLORS), Suc k mod length COLORS)"
    unfolding length_COLORS using next_seeded by blast
next
  show "\<forall>c. c\<lparr>col_a := 1\<rparr> = COLORS ! 2 \<longrightarrow> next (Some c) i0 = Inr (COLORS ! 3, 3)"
    using next_seeded [of 2] by simp
next
  show "\<forall>c. c\<lparr>col_a := 1\<rparr> = COLORS ! 6 \<longrightarrow> next (Some c) i0 = Inr (COLORS ! 0, 0)"
    using next_seeded [of 6] by simp
qed

theorem color_cycler_visits_palette_witness:
  "(\<exists>cs j. next_times 7 LayerColors_initial_i = Inr (cs, j) \<and> distinct cs \<and> set cs = set COLORS \<and>
            next_times 7 j = Inr (cs, j)) \<and>
   next (Some \<lparr> col_r = 250, col_g = 225, col_b = 80, col_a = 1 / 2 \<rparr>) 0 =
     Inr (\<lparr> col_r = 233, col_g = 137, col_b = 81, col_a = 1 \<rparr>, 3) \<and>
   next (Some \<lparr> col_r = 167, col_g = 116, col_b = 234, col_a = 0 \<rparr>) 4 =
     Inr (\<lparr> col_r = 123, col_g = 159, col_b = 237, col_a = 1 \<rparr>, 0)"
proof -
  note t = color_cycler_visits_palette [of LayerColors_initial_i 0]
  note u = color_cycler_visits_palette [of 0 4]
  have a: "\<exists>cs j. next_times 7 LayerColors_initial_i = Inr (cs, j) \<and> distinct cs \<and>
             set cs = set COLORS \<and> next_times 7 j = Inr (cs, j)"
    using t by (simp only: length_COLORS)
  have b: "next (Some \<lparr> col_r = 250, col_g = 225, col_b = 80, col_a = 1 / 2 \<rparr>) 0 = Inr (COLORS ! 3, 3)"
    using t by (simp add: COLORS_def)
  have c: "next (Some \<lparr> col_r = 167, col_g = 116, col_b = 234, col_a = 0 \<rparr>) 4 = Inr (COLORS ! 0, 0)"
    using u by (simp add: COLORS_def)
  show ?thesis using a b c by (simp add: COLORS_def)
qed

section \<open>Properties of the layer store\<close>

subsection \<open>Lists\<close>

lemma findIndex_Some:
  "findIndex p xs = Some i \<Longrightarrow> i < length xs \<and> p (xs ! i) \<and> (\<forall>j<i. \<not> p (xs ! j))"
proof (induction xs arbitrary: i)
  case Nil
  then show ?case by simp
next
  case (Cons x xs)
  show ?case
  proof (cases "p x")
    case True
    with Cons.prems show ?thesis by simp
  next
    case False
    with Cons.prems obtain k where k: "findIndex p xs = Some k" "i = Suc k"
      by (auto split: option.splits)
    from Cons.IH [OF k(1)] False k(2) show ?thesis
      by (auto simp: nth_Cons split: nat.splits)
  qed
qed

lemma findIndex_None: "findIndex p xs = None \<longleftrightarrow> (\<forall>x\<in>set xs. \<not> p x)"
  by (induction xs) (auto split: option.splits)

lemma map_update_first:
  assumes "\<And>x. g (f x) = g x"
  shows "map g (update_first p f xs) = map g xs"
  by (induction xs) (simp_all add: assms)

lemma set_moveForward: "set (moveForward xs cb) = set xs"
  by (auto simp: moveForward_def set_swap dest!: findIndex_Some split: option.splits)

lemma set_moveBackward: "set (moveBackward xs cb) = set xs"
proof (cases "findIndex cb xs")
  case None
  then show ?thesis by (simp add: moveBackward_def)
next
  case (Some i)
  then have "i < length xs" by (simp add: findIndex_Some)
  then have "0 < i \<Longrightarrow> set (xs[i := xs ! (i - 1), i - 1 := xs ! i]) = set xs"
    by (simp add: set_swap)
  with Some show ?thesis by (simp add: moveBackward_def)
qed

lemma set_moveToFront: "set (moveToFront xs cb) = set xs"
proof (cases "findIndex cb xs")
  case None
  then show ?thesis by (simp add: moveToFront_def)
next
  case (Some i)
  then have "i < length xs" by (simp add: findIndex_Some)
  then have "xs = take i xs @ xs ! i # drop (Suc i) xs"
    by (rule id_take_nth_drop)
  then have "set xs = set (take i xs) \<union> insert (xs ! i) (set (drop (Suc i) xs))"
    by (metis list.simps(15) set_append)
  with Some show ?thesis by (auto simp: moveToFront_def)
qed

lemma set_moveToBack: "set (moveToBack xs cb) = set xs"
proof (cases "findIndex cb xs")
  case None
  then show ?thesis by (simp add: moveToBack_def)
next
  case (Some i)
  then have "i < length xs" by (simp add: findIndex_Some)
  then have "xs = take i xs @ xs ! i # drop (Suc i) xs"
    by (rule id_take_nth_drop)
  then have "set xs = set (take i xs) \<union> insert (xs ! i) (set (drop (Suc i) xs))"
    by (metis list.simps(15) set_append)
  with Some show ?thesis by (auto simp: moveToBack_def)
qed

subsection \<open>The selection refers to a layer of the list\<close>

lemma selection_valid_iff:
  "selection_valid s \<longleftrightarrow> (\<forall>i. selectedLayerId s = Some i \<longrightarrow> i \<in> layer_id ` set (layers s))"
  by (simp add: selection_valid_def split: option.splits)

lemma next_returns: "\<exists>c j. next cur i = Inr (c, j)"
  by (simp add: next_def Let_def COLORS_def)

lemma selection_valid_with_layer:
  assumes "\<And>l. layer_id (f l) = layer_id l" and "selection_valid s"
  shows "selection_valid (with_layer layerId f s)"
proof -
  have "map layer_id (update_first (\<lambda>l. layer_id l = layerId) f (layers s)) = map layer_id (layers s)"
    by (rule map_update_first) (rule assms(1))
  then have "layer_id ` set (update_first (\<lambda>l. layer_id l = layerId) f (layers s))
           = layer_id ` set (layers s)"
    by (metis set_map)
  with assms(2) show ?thesis
    by (simp add: selection_valid_iff with_layer_def)
qed

lemma selection_valid_reorder:
  assumes "set ls = set (layers s)" and "selection_valid s"
  shows "selection_valid (s\<lparr>layers := ls\<rparr>)"
  using assms by (simp add: selection_valid_iff split: option.splits)

lemma selection_valid_map:
  assumes "\<And>l. layer_id (f l) = layer_id l" and "selection_valid s"
  shows "selection_valid (s\<lparr>layers := map f (layers s)\<rparr>)"
proof -
  have "layer_id ` f ` set (layers s) = layer_id ` set (layers s)"
    by (simp add: image_image assms(1))
  with assms(2) show ?thesis by (simp add: selection_valid_iff)
qed

lemma selection_valid_layerAdded: "\<exists>st'. layerAdded k uuid st = Inr st' \<and> selection_valid (snd st')"
proof -
  obtain i s where st: "st = (i, s)" by (cases st)
  let ?cur = "if layers s = [] then None else Some (previewColor (last (layers s)))"
  obtain c j where n: "next ?cur i = Inr (c, j)"
    using next_returns by blast
  show ?thesis
    unfolding st layerAdded_def
    by (cases k) (simp add: n Let_def selection_valid_iff)
qed

lemma selection_valid_layerSelected: "selection_valid s \<Longrightarrow> selection_valid (layerSelected p s)"
  by (auto simp: layerSelected_def selection_valid_iff find_Some_iff split: option.splits)

lemma selection_valid_layerDeleted: "selection_valid (layerDeleted p s)"
proof (cases "filter (\<lambda>l. layer_id l \<noteq> p) (layers s)")
  case Nil
  then show ?thesis by (simp add: layerDeleted_def Let_def selection_valid_iff)
next
  case (Cons l ls)
  then have "l \<in> set (filter (\<lambda>l. layer_id l \<noteq> p) (layers s))" by simp
  then have "layer_id l \<in> layer_id ` set (filter (\<lambda>l. layer_id l \<noteq> p) (layers s))"
    by (rule imageI)
  with Cons show ?thesis by (simp add: layerDeleted_def Let_def selection_valid_iff)
qed

lemma selection_valid_maskLayerPointsAdded:
  "selection_valid s \<Longrightarrow> selection_valid (maskLayerPointsAdded p pt s)"
  by (simp add: maskLayerPointsAdded_def selection_valid_with_layer split: option.splits)

lemma selection_valid_reducer:
  assumes "selection_valid (snd st)"
  shows "\<exists>st'. reducer st a = Inr st' \<and> selection_valid (snd st')"
proof -
  obtain i s where st: "st = (i, s)" by (cases st)
  with assms have v: "selection_valid s" by simp
  show ?thesis
  proof (cases a)
    case (LayerAdded k u)
    then show ?thesis using selection_valid_layerAdded by simp
  next
    case (LayerSelected p)
    then show ?thesis using v by (simp add: st selection_valid_layerSelected)
  next
    case (LayerVisibilityToggled p)
    then show ?thesis using v by (simp add: st layerVisibilityToggled_def selection_valid_with_layer)
  next
    case (LayerTranslated p x y)
    then show ?thesis using v by (simp add: st layerTranslated_def selection_valid_with_layer)
  next
    case (LayerBboxChanged p b)
    then show ?thesis using v by (simp add: st layerBboxChanged_def selection_valid_with_layer)
  next
    case (LayerReset p)
    then show ?thesis using v by (simp add: st layerReset_def selection_valid_with_layer)
  next
    case (LayerDeleted p)
    then show ?thesis by (simp add: st selection_valid_layerDeleted)
  next
    case (LayerMovedForward p)
    then show ?thesis using v
      by (simp add: st layerMovedForward_def selection_valid_reorder set_moveForward)
  next
    case (LayerMovedToFront p)
    then show ?thesis using v
      by (simp add: st layerMovedToFront_def selection_valid_reorder set_moveToBack)
  next
    case (LayerMovedBackward p)
    then show ?thesis using v
      by (simp add: st layerMovedBackward_def selection_valid_reorder set_moveBackward)
  next
    case (LayerMovedToBack p)
    then show ?thesis using v
      by (simp add: st layerMovedToBack_def selection_valid_reorder set_moveToFront)
  next
    case AllLayersDeleted
    then show ?thesis by (simp add: st allLayersDeleted_def selection_valid_iff)
  next
    case (MaskLayerPositivePromptChanged p t)
    then show ?thesis using v
      by (simp add: st maskLayerPositivePromptChanged_def selection_valid_with_layer
            split: option.splits)
  next
    case (MaskLayerNegativePromptChanged p t)
    then show ?thesis using v
      by (simp add: st maskLayerNegativePromptChanged_def selection_valid_with_layer
            split: option.splits)
  next
    case (MaskLayerPreviewColorChanged p c)
    then show ?thesis using v
      by (simp add: st maskLayerPreviewColorChanged_def selection_valid_with_layer)
  next
    case (MaskLayerLineAdded p pts t u)
    then show ?thesis using v
      by (simp add: st maskLayerLineAdded_def selection_valid_with_layer split: prod.splits)
  next
    case (MaskLayerPointsAdded p pt)
    then show ?thesis using v by (simp add: st selection_valid_maskLayerPointsAdded)
  next
    case (MaskLayerRectAdded p r u)
    then show ?thesis using v by (simp add: st maskLayerRectAdded_def selection_valid_with_layer)
  next
    case (MaskLayerAutoNegativeChanged p an)
    then show ?thesis using v
      by (simp add: st maskLayerAutoNegativeChanged_def selection_valid_with_layer)
  next
    case (BrushSizeChanged x)
    then show ?thesis using v by (simp add: st brushSizeChanged_def selection_valid_iff)
  next
    case (GlobalMaskLayerOpacityChanged x)
    have "selection_valid (s\<lparr>layers := map (\<lambda>l. l\<lparr>previewColor := (previewColor l)\<lparr>col_a := x\<rparr>\<rparr>) (layers s)\<rparr>)"
      using v by (intro selection_valid_map) simp_all
    then have "selection_valid (globalMaskLayerOpacityChanged x s)"
      by (simp add: globalMaskLayerOpacityChanged_def selection_valid_iff)
    with GlobalMaskLayerOpacityChanged show ?thesis by (simp add: st)
  next
    case (IsEnabledChanged x)
    then show ?thesis using v by (simp add: st isEnabledChanged_def selection_valid_iff)
  next
    case Undo
    have "selection_valid (undo s)"
      unfolding undo_def using v by (intro selection_valid_map) simp_all
    with Undo show ?thesis by (simp add: st)
  next
    case Redo
    have "selection_valid (redo s)"
      unfolding redo_def using v by (intro selection_valid_map) simp_all
    with Redo show ?thesis by (simp add: st)
  next
    case (OtherAction t)
    then show ?thesis using v by (simp add: st)
  qed
qed

lemma selection_valid_dispatch_all:
  "selection_valid (snd st) \<Longrightarrow> \<exists>st'. dispatch_all st as = Inr st' \<and> selection_valid (snd st')"
proof (induction as arbitrary: st)
  case Nil
  then show ?case by simp
next
  case (Cons a as)
  from selection_valid_reducer [OF Cons.prems, of a]
  obtain st1 where s1: "reducer st a = Inr st1" "selection_valid (snd st1)" by blast
  from Cons.IH [OF s1(2)] s1(1) show ?case by simp
qed

text \<open>
  Claim C3. Whatever actions are dispatched to the initial state of the slice, in whatever
  order and with whatever index the color cycler starts from, no dispatch fails and in the
  state reached \<open>selectedLayerId\<close> is null or the id of a layer of the list. Since every
  prefix of a sequence is a sequence, this holds after each single action as well.
\<close>

theorem selectedLayerId_always_valid:
  "\<exists>st. dispatch_all (i, initialRegionalPromptsState) as = Inr st \<and>
        (selectedLayerId (snd st) = None \<or>
         (\<exists>l\<in>set (layers (snd st)). selectedLayerId (snd st) = Some (layer_id l)))"
proof -
  have "selection_valid (snd (i, initialRegionalPromptsState))"
    by (simp add: selection_valid_iff initialRegionalPromptsState_def)
  from selection_valid_dispatch_all [OF this, of as]
  obtain st where st: "dispatch_all (i, initialRegionalPromptsState) as = Inr st"
    and v: "selection_valid (snd st)" by blast
  from v have "selectedLayerId (snd st) = None \<or>
         (\<exists>l\<in>set (layers (snd st)). selectedLayerId (snd st) = Some (layer_id l))"
    by (cases "selectedLayerId (snd st)") (auto simp: selection_valid_iff)
  with st show ?thesis by blast
qed

theorem selectedLayerId_always_valid_witness:
  "\<exists>st. dispatch_all (LayerColors_initial_i, initialRegionalPromptsState)
          [LayerAdded vector_mask_layer ''u1'', LayerAdded vector_mask_layer ''u2'',
           LayerDeleted ''vector_mask_layer_u2'', LayerSelected ''nowhere'', Undo] = Inr st \<and>
        (selectedLayerId (snd st) = None \<or>
         (\<exists>l\<in>set (layers (snd st)). selectedLayerId (snd st) = Some (layer_id l)))"
  by (rule selectedLayerId_always_valid)

subsection \<open>Deleting the selected layer\<close>

text \<open>
  Claim C9 as stated fails: with the layers \<open>a\<close> and \<open>b\<close> in the list and \<open>a\<close> selected,
  deleting \<open>a\<close> leaves \<open>b\<close> selected, not null.
\<close>

theorem layerDeleted_clears_selection_counterexample:
  "selectedLayerId (example_state [example_layer ''a'', example_layer ''b''] (Some ''a'')) = Some ''a'' \<and>
   selectedLayerId
     (layerDeleted ''a'' (example_state [example_layer ''a'', example_layer ''b''] (Some ''a'')))
     = Some ''b'' \<and>
   selectedLayerId
     (layerDeleted ''a'' (example_state [example_layer ''a'', example_layer ''b''] (Some ''a'')))
     \<noteq> None"
  by (simp add: layerDeleted_def example_state_def example_layer_def)

text \<open>
  Claim C9, amended. When the delete-layer action is dispatched with the id of the layer
  that \<open>selectedLayerId\<close> refers to, the layers with that id leave the list and the
  selection moves to the first layer that remains; it is null exactly when no layer
  remains, and it never refers to the deleted id.
\<close>

theorem layerDeleted_selects_first_remaining:
  assumes "selectedLayerId s = Some p"
  shows "layers (layerDeleted p s) = filter (\<lambda>l. layer_id l \<noteq> p) (layers s) \<and>
         selectedLayerId (layerDeleted p s) =
           (if layers (layerDeleted p s) = [] then None
            else Some (layer_id (hd (layers (layerDeleted p s))))) \<and>
         (selectedLayerId (layerDeleted p s) = None \<longleftrightarrow> (\<forall>l\<in>set (layers s). layer_id l = p)) \<and>
         selectedLayerId (layerDeleted p s) \<noteq> Some p"
proof (cases "filter (\<lambda>l. layer_id l \<noteq> p) (layers s)")
  case Nil
  then have "\<forall>l\<in>set (layers s). layer_id l = p"
    by (simp add: filter_empty_conv)
  with Nil show ?thesis by (simp add: layerDeleted_def Let_def)
next
  case (Cons l ls)
  then have "l \<in> set (filter (\<lambda>l. layer_id l \<noteq> p) (layers s))" by simp
  then have "l \<in> set (layers s)" "layer_id l \<noteq> p" by simp_all
  with Cons show ?thesis by (auto simp: layerDeleted_def Let_def)
qed

theorem layerDeleted_selects_first_remaining_witness:
  "selectedLayerId (example_state [example_layer ''a'', example_layer ''b''] (Some ''a'')) = Some ''a'' \<and>
   selectedLayerId
     (layerDeleted ''a'' (example_state [example_layer ''a'', example_layer ''b''] (Some ''a'')))
     = Some ''b'' \<and>
   selectedLayerId (layerDeleted ''a'' (example_state [example_layer ''a''] (Some ''a''))) = None"
proof -
  have h: "selectedLayerId (example_state ls (Some ''a'')) = Some ''a''" for ls
    by (simp add: example_state_def)
  show ?thesis
    using layerDeleted_selects_first_remaining [OF h [of "[example_layer ''a'', example_layer ''b'']"]]
      layerDeleted_selects_first_remaining [OF h [of "[example_layer ''a'']"]]
    by (simp add: example_state_def example_layer_def)
qed

subsection \<open>Appending a point\<close>

lemma update_first_find_Some:
  "find p xs = Some x \<Longrightarrow> (update_first p f xs = xs) = (f x = x)"
  by (induction xs) (auto split: if_splits)

lemma update_first_find_None: "find p xs = None \<Longrightarrow> update_first p f xs = xs"
  by (induction xs) (auto split: if_splits)

lemma push_points_changes: "isLine ob \<Longrightarrow> push_points [a, b] ob \<noteq> ob"
  by (cases ob) simp_all

lemma update_last_isLine_changes:
  assumes "findLast isLine obs = Some lastLine"
  shows "update_last isLine (push_points [a, b]) obs \<noteq> obs"
proof -
  from assms have f: "find isLine (rev obs) = Some lastLine"
    by (simp add: findLast_def)
  then have "isLine lastLine"
    by (auto simp: find_Some_iff)
  then have "push_points [a, b] lastLine \<noteq> lastLine"
    by (rule push_points_changes)
  with update_first_find_Some [OF f, of "push_points [a, b]"]
  have "update_first isLine (push_points [a, b]) (rev obs) \<noteq> rev obs"
    by simp
  then show ?thesis
    unfolding update_last_def by (metis rev_rev_ident)
qed

lemma findLast_None: "findLast p xs = None \<longleftrightarrow> (\<forall>x\<in>set xs. \<not> p x)"
  by (auto simp: findLast_def find_None_iff)

text \<open>
  Claim C5 as stated fails: in a layer whose objects are a line followed by a rectangle, the
  last object is a rectangle, yet appending a point extends the line and marks the bounding
  box as dirty.
\<close>

theorem maskLayerPointsAdded_rect_last_counterexample:
  "\<not> isLine (last (objects line_then_rect_layer)) \<and>
   layers (maskLayerPointsAdded ''a'' (5, 7) (example_state [line_then_rect_layer] None)) =
     [line_then_rect_layer\<lparr>objects :=
         [VectorMaskLine ''a.line_1'' brush 100 [0, 0, 1, 1, 5, 7],
          VectorMaskRect ''a.rect_1'' 0 0 10 10],
        bboxNeedsUpdate := True\<rparr>] \<and>
   maskLayerPointsAdded ''a'' (5, 7) (example_state [line_then_rect_layer] None)
     \<noteq> example_state [line_then_rect_layer] None"
proof -
  let ?s = "example_state [line_then_rect_layer] None"
  have a: "\<not> isLine (last (objects line_then_rect_layer))"
    by (simp add: line_then_rect_layer_def)
  have b: "layers (maskLayerPointsAdded ''a'' (5, 7) ?s) =
     [line_then_rect_layer\<lparr>objects :=
         [VectorMaskLine ''a.line_1'' brush 100 [0, 0, 1, 1, 5, 7],
          VectorMaskRect ''a.rect_1'' 0 0 10 10],
        bboxNeedsUpdate := True\<rparr>]"
    by (simp add: maskLayerPointsAdded_def example_state_def line_then_rect_layer_def
        example_layer_def findLast_def update_last_def with_layer_def)
  have "layers ?s = [line_then_rect_layer]"
    by (simp add: example_state_def)
  moreover have "bboxNeedsUpdate line_then_rect_layer = False"
    by (simp add: line_then_rect_layer_def example_layer_def)
  ultimately have "layers (maskLayerPointsAdded ''a'' (5, 7) ?s) \<noteq> layers ?s"
    unfolding b by (auto dest: arg_cong [where f = bboxNeedsUpdate])
  then have c: "maskLayerPointsAdded ''a'' (5, 7) ?s \<noteq> ?s"
    by (rule contrapos_nn) (erule arg_cong)
  from a b c show ?thesis by blast
qed

lemma find_first_match:
  assumes "\<forall>y\<in>set pre. \<not> p y" and "p x"
  shows "find p (pre @ x # post) = Some x"
  using assms by (induction pre) simp_all

lemma update_first_first_match:
  assumes "\<forall>y\<in>set pre. \<not> p y" and "p x"
  shows "update_first p f (pre @ x # post) = pre @ f x # post"
  using assms by (induction pre) simp_all

lemma findLast_last_match:
  assumes "\<forall>y\<in>set post. \<not> p y" and "p x"
  shows "findLast p (pre @ x # post) = Some x"
proof -
  have "find p (rev post @ x # rev pre) = Some x"
    using assms by (intro find_first_match) simp_all
  then show ?thesis by (simp add: findLast_def)
qed

lemma update_last_last_match:
  assumes "\<forall>y\<in>set post. \<not> p y" and "p x"
  shows "update_last p f (pre @ x # post) = pre @ f x # post"
proof -
  have "update_first p f (rev post @ x # rev pre) = rev post @ f x # rev pre"
    using assms by (intro update_first_first_match) simp_all
  then show ?thesis by (simp add: update_last_def)
qed

lemma maskLayerPointsAdded_unchanged_iff:
  assumes "find (\<lambda>l. layer_id l = layerId) (layers s) = Some layer"
  shows "maskLayerPointsAdded layerId point s = s \<longleftrightarrow> (\<forall>ob\<in>set (objects layer). \<not> isLine ob)"
proof (cases "findLast isLine (objects layer)")
  case None
  then have "\<forall>ob\<in>set (objects layer). \<not> isLine ob"
    by (simp add: findLast_None)
  with assms None show ?thesis
    by (simp add: maskLayerPointsAdded_def)
next
  case (Some lastLine)
  let ?f = "\<lambda>l. l\<lparr>objects := update_last isLine
                                 (push_points [fst point - layer_x l, snd point - layer_y l])
                                 (objects l),
                   bboxNeedsUpdate := True\<rparr>"
  have "objects (?f layer) \<noteq> objects layer"
    using update_last_isLine_changes [OF Some] by simp
  then have "?f layer \<noteq> layer"
    by (rule contrapos_nn) (erule arg_cong)
  then have "update_first (\<lambda>l. layer_id l = layerId) ?f (layers s) \<noteq> layers s"
    by (simp only: update_first_find_Some [OF assms, of ?f] not_False_eq_True)
  then have "layers (with_layer layerId ?f s) \<noteq> layers s"
    by (simp add: with_layer_def)
  then have "with_layer layerId ?f s \<noteq> s"
    by (rule contrapos_nn) (erule arg_cong)
  moreover have "\<not> (\<forall>ob\<in>set (objects layer). \<not> isLine ob)"
    using Some findLast_None [of isLine "objects layer"] by simp
  ultimately show ?thesis
    using assms Some by (simp add: maskLayerPointsAdded_def)
qed

lemma maskLayerPointsAdded_no_layer:
  assumes "\<forall>l\<in>set (layers s). layer_id l \<noteq> layerId"
  shows "maskLayerPointsAdded layerId point s = s"
proof -
  have "find (\<lambda>l. layer_id l = layerId) (layers s) = None"
    using assms by (simp add: find_None_iff)
  then show ?thesis by (simp add: maskLayerPointsAdded_def)
qed

text \<open>
  Claim C5, amended. Let an append-point action target the layer \<open>layer\<close>, the first layer of
  the list with the action's id.
  \<^item> The action leaves the layer, and the whole state, unchanged exactly when the layer's
    object sequence contains no line; so it does when the sequence consists of rectangles
    only.
  \<^item> When the sequence contains a line, let the last line be the one after which no line
    follows (rectangles may follow it). The resulting state is the given one with the
    targeted layer replaced, in place, by the layer whose last line has the point appended
    to its points, offset by the layer's position, and whose bounding box is marked dirty.
    The other objects of the layer, the other fields of the layer, the other layers and the
    rest of the state are as before. A rectangle after the line does not shield it.
\<close>

theorem maskLayerPointsAdded_unchanged_iff_no_line:
  assumes "layers s = before @ layer # after"
    and "\<forall>l\<in>set before. layer_id l \<noteq> layerId"
    and "layer_id layer = layerId"
  shows "(maskLayerPointsAdded layerId point s = s \<longleftrightarrow> (\<forall>ob\<in>set (objects layer). \<not> isLine ob)) \<and>
         (\<forall>pre i t w ps post.
            objects layer = pre @ VectorMaskLine i t w ps # post \<and> (\<forall>ob\<in>set post. \<not> isLine ob) \<longrightarrow>
            maskLayerPointsAdded layerId point s =
              s\<lparr>layers :=
                  before @
                  layer\<lparr>objects :=
                          pre @
                          VectorMaskLine i t w (ps @ [fst point - layer_x layer, snd point - layer_y layer]) #
                          post,
                        bboxNeedsUpdate := True\<rparr> #
                  after\<rparr>)"
proof (intro conjI allI impI)
  have found: "find (\<lambda>l. layer_id l = layerId) (layers s) = Some layer"
    unfolding assms(1) using assms(2,3) by (intro find_first_match) simp_all
  show "maskLayerPointsAdded layerId point s = s \<longleftrightarrow> (\<forall>ob\<in>set (objects layer). \<not> isLine ob)"
    using found by (rule maskLayerPointsAdded_unchanged_iff)
  fix pre i t w ps post
  assume a: "objects layer = pre @ VectorMaskLine i t w ps # post \<and> (\<forall>ob\<in>set post. \<not> isLine ob)"
  then have obs: "objects layer = pre @ VectorMaskLine i t w ps # post"
    and post: "\<forall>ob\<in>set post. \<not> isLine ob"
    by simp_all
  let ?f = "\<lambda>l. l\<lparr>objects := update_last isLine
                                 (push_points [fst point - layer_x l, snd point - layer_y l])
                                 (objects l),
                   bboxNeedsUpdate := True\<rparr>"
  have lastLine: "findLast isLine (objects layer) = Some (VectorMaskLine i t w ps)"
    unfolding obs using post by (intro findLast_last_match) simp_all
  have upd: "update_last isLine (push_points new) (objects layer)
               = pre @ VectorMaskLine i t w (ps @ new) # post" for new
    unfolding obs using post by (simp add: update_last_last_match)
  have "update_first (\<lambda>l. layer_id l = layerId) ?f (layers s) = before @ ?f layer # after"
    unfolding assms(1) using assms(2,3) by (intro update_first_first_match) simp_all
  then have "with_layer layerId ?f s = s\<lparr>layers := before @ ?f layer # after\<rparr>"
    by (simp add: with_layer_def)
  then show "maskLayerPointsAdded layerId point s =
              s\<lparr>layers :=
                  before @
                  layer\<lparr>objects :=
                          pre @
                          VectorMaskLine i t w (ps @ [fst point - layer_x layer, snd point - layer_y layer]) #
                          post,
                        bboxNeedsUpdate := True\<rparr> #
                  after\<rparr>"
    using found lastLine by (simp add: maskLayerPointsAdded_def upd)
qed

text \<open>
  A point appended to a layer that holds a rectangle only changes nothing. A point (5, 7)
  appended to the second layer of a list, placed at (2, 3) and holding two lines and then a
  rectangle, goes to the second line as (3, 4); the first line, the rectangle and the other
  layer stay as they are.
\<close>

theorem maskLayerPointsAdded_unchanged_iff_no_line_witness:
  "maskLayerPointsAdded ''a'' (5, 7) (example_state [rect_only_layer] None)
     = example_state [rect_only_layer] None \<and>
   maskLayerPointsAdded ''a'' (5, 7) (example_state [example_layer ''b'', two_lines_layer] None)
     \<noteq> example_state [example_layer ''b'', two_lines_layer] None \<and>
   maskLayerPointsAdded ''a'' (5, 7) (example_state [example_layer ''b'', two_lines_layer] None)
     = example_state
         [example_layer ''b'',
          two_lines_layer\<lparr>objects :=
              [VectorMaskLine ''a.line_1'' brush 100 [0, 0, 1, 1],
               VectorMaskLine ''a.line_2'' eraser 50 [4, 4, 6, 6, 3, 4],
               VectorMaskRect ''a.rect_1'' 0 0 10 10],
            bboxNeedsUpdate := True\<rparr>] None"
proof -
  let ?r = "example_state [rect_only_layer] None"
  let ?s = "example_state [example_layer ''b'', two_lines_layer] None"
  have r: "layers ?r = [] @ rect_only_layer # []"
    by (simp add: example_state_def)
  have r0: "\<forall>l\<in>set []. layer_id l \<noteq> ''a''"
    by simp
  have r1: "layer_id rect_only_layer = ''a''"
    by (simp add: rect_only_layer_def example_layer_def)
  have nr: "\<forall>ob\<in>set (objects rect_only_layer). \<not> isLine ob"
    by (simp add: rect_only_layer_def)
  have s: "layers ?s = [example_layer ''b''] @ two_lines_layer # []"
    by (simp add: example_state_def)
  have s0: "\<forall>l\<in>set [example_layer ''b'']. layer_id l \<noteq> ''a''"
    by (simp add: example_layer_def)
  have s1: "layer_id two_lines_layer = ''a''"
    by (simp add: two_lines_layer_def example_layer_def)
  have obs: "objects two_lines_layer =
      [VectorMaskLine ''a.line_1'' brush 100 [0, 0, 1, 1]] @
      VectorMaskLine ''a.line_2'' eraser 50 [4, 4, 6, 6] # [VectorMaskRect ''a.rect_1'' 0 0 10 10] \<and>
      (\<forall>ob\<in>set [VectorMaskRect ''a.rect_1'' 0 0 10 10]. \<not> isLine ob)"
    by (simp add: two_lines_layer_def)
  have nl: "\<not> (\<forall>ob\<in>set (objects two_lines_layer). \<not> isLine ob)"
    by (simp add: two_lines_layer_def)
  have pos: "layer_x two_lines_layer = 2" "layer_y two_lines_layer = 3"
    by (simp_all add: two_lines_layer_def)
  note R = maskLayerPointsAdded_unchanged_iff_no_line [OF r r0 r1, of "(5, 7)"]
  note S = maskLayerPointsAdded_unchanged_iff_no_line [OF s s0 s1, of "(5, 7)"]
  from R nr have a: "maskLayerPointsAdded ''a'' (5, 7) ?r = ?r"
    by blast
  from S nl have b: "maskLayerPointsAdded ''a'' (5, 7) ?s \<noteq> ?s"
    by blast
  from S have "\<forall>pre i t w ps post.
            objects two_lines_layer = pre @ VectorMaskLine i t w ps # post \<and>
            (\<forall>ob\<in>set post. \<not> isLine ob) \<longrightarrow>
            maskLayerPointsAdded ''a'' (5, 7) ?s =
              ?s\<lparr>layers :=
                  [example_layer ''b''] @
                  two_lines_layer\<lparr>objects :=
                          pre @
                          VectorMaskLine i t w
                            (ps @ [fst (5 :: real, 7 :: real) - layer_x two_lines_layer,
                                   snd (5 :: real, 7 :: real) - layer_y two_lines_layer]) #
                          post,
                        bboxNeedsUpdate := True\<rparr> #
                  []\<rparr>"
    by (rule conjunct2)
  from this [rule_format, OF obs]
  have c: "maskLayerPointsAdded ''a'' (5, 7) ?s
     = example_state
         [example_layer ''b'',
          two_lines_layer\<lparr>objects :=
              [VectorMaskLine ''a.line_1'' brush 100 [0, 0, 1, 1],
               VectorMaskLine ''a.line_2'' eraser 50 [4, 4, 6, 6, 3, 4],
               VectorMaskRect ''a.rect_1'' 0 0 10 10],
            bboxNeedsUpdate := True\<rparr>] None"
    by (simp add: pos example_state_def)
  from a b c show ?thesis by blast
qed

subsection \<open>Moving a layer to the front and to the back\<close>

lemma findIndex_append_first:
  assumes "\<forall>y\<in>set pre. \<not> cb y" and "cb x"
  shows "findIndex cb (pre @ x # post) = Some (length pre)"
  using assms by (induction pre) simp_all

lemma moveToBack_split:
  assumes "\<forall>y\<in>set pre. \<not> cb y" and "cb x"
  shows "moveToBack (pre @ x # post) cb = pre @ post @ [x]"
  by (simp add: moveToBack_def findIndex_append_first [OF assms])

lemma moveToFront_split:
  assumes "\<forall>y\<in>set pre. \<not> cb y" and "cb x"
  shows "moveToFront (pre @ x # post) cb = x # pre @ post"
  by (simp add: moveToFront_def findIndex_append_first [OF assms])

lemma layers_update_eq: "(s\<lparr>layers := ls\<rparr> = s) = (ls = layers s)"
proof
  assume "s\<lparr>layers := ls\<rparr> = s"
  then have "layers (s\<lparr>layers := ls\<rparr>) = layers s" by (rule arg_cong)
  then show "ls = layers s" by simp
next
  assume "ls = layers s"
  then show "s\<lparr>layers := ls\<rparr> = s" by simp
qed

text \<open>With distinct ids, a layer of the list splits it into the layers before it and the
  layers after it, none of which has its id.\<close>

lemma split_at_id:
  assumes "distinct (map layer_id ls)" and "p \<in> set (map layer_id ls)"
  obtains pre x post where "ls = pre @ x # post" and "layer_id x = p"
    and "\<forall>y\<in>set pre. layer_id y \<noteq> p" and "\<forall>y\<in>set post. layer_id y \<noteq> p"
proof -
  from assms(2) obtain x where "x \<in> set ls" and x: "layer_id x = p" by auto
  then obtain pre post where ls: "ls = pre @ x # post"
    by (auto simp: in_set_conv_decomp)
  from assms(1) have "layer_id x \<notin> layer_id ` set pre" "layer_id x \<notin> layer_id ` set post"
    unfolding ls by simp_all
  with x have "\<forall>y\<in>set pre. layer_id y \<noteq> p" "\<forall>y\<in>set post. layer_id y \<noteq> p"
    by blast+
  with ls x show ?thesis by (rule that)
qed

text \<open>
  Claim C4 as stated fails: in the list \<open>a, b, c\<close>, moving \<open>b\<close> to the front and then to the
  back gives \<open>b, a, c\<close>, and moving it to the back and then to the front gives \<open>a, c, b\<close>.
\<close>

theorem move_front_back_restores_counterexample:
  "map layer_id (layers (layerMovedToBack ''b'' (layerMovedToFront ''b''
      (example_state [example_layer ''a'', example_layer ''b'', example_layer ''c''] None))))
     = [''b'', ''a'', ''c''] \<and>
   map layer_id (layers (layerMovedToFront ''b'' (layerMovedToBack ''b''
      (example_state [example_layer ''a'', example_layer ''b'', example_layer ''c''] None))))
     = [''a'', ''c'', ''b'']"
  by (simp add: layerMovedToBack_def layerMovedToFront_def moveToFront_def moveToBack_def
        example_state_def example_layer_def)

text \<open>
  Claim C4, amended. For every layer list with distinct ids and every layer id present in
  it: move-to-front followed by move-to-back leaves that layer first in the sequence, and
  restores the original order exactly when the layer was first in the sequence already;
  move-to-back followed by move-to-front leaves it last, and restores the original order
  exactly when it was last already. In both cases the other layers keep their order.
\<close>

theorem move_front_back_restores_iff_at_end:
  assumes "distinct (map layer_id (layers s))" and "p \<in> set (map layer_id (layers s))"
  shows "(layerMovedToBack p (layerMovedToFront p s) = s \<longleftrightarrow> layer_id (hd (layers s)) = p) \<and>
         (layerMovedToFront p (layerMovedToBack p s) = s \<longleftrightarrow> layer_id (last (layers s)) = p) \<and>
         layer_id (hd (layers (layerMovedToBack p (layerMovedToFront p s)))) = p \<and>
         layer_id (last (layers (layerMovedToFront p (layerMovedToBack p s)))) = p \<and>
         filter (\<lambda>l. layer_id l \<noteq> p) (layers (layerMovedToBack p (layerMovedToFront p s)))
           = filter (\<lambda>l. layer_id l \<noteq> p) (layers s) \<and>
         filter (\<lambda>l. layer_id l \<noteq> p) (layers (layerMovedToFront p (layerMovedToBack p s)))
           = filter (\<lambda>l. layer_id l \<noteq> p) (layers s)"
proof -
  let ?cb = "\<lambda>l. layer_id l = p"
  from assms obtain pre x post where ls: "layers s = pre @ x # post" and x: "layer_id x = p"
    and pre: "\<forall>y\<in>set pre. layer_id y \<noteq> p" and post: "\<forall>y\<in>set post. layer_id y \<noteq> p"
    by (rule split_at_id)
  have x': "?cb x" by (rule x)
  have pre': "\<forall>y\<in>set pre. \<not> ?cb y" using pre by simp
  have both: "\<forall>y\<in>set (pre @ post). \<not> ?cb y" using pre post by auto
  have nil: "\<forall>y\<in>set ([]::layer list). \<not> ?cb y" by simp
  have fb: "moveToFront (moveToBack (layers s) ?cb) ?cb = x # pre @ post"
  proof -
    have "moveToBack (layers s) ?cb = (pre @ post) @ x # []"
      unfolding ls by (simp add: moveToBack_split [OF pre' x'])
    then show ?thesis
      by (simp only: moveToFront_split [OF both x']) simp
  qed
  have bf: "moveToBack (moveToFront (layers s) ?cb) ?cb = pre @ post @ [x]"
  proof -
    have "moveToFront (layers s) ?cb = [] @ x # (pre @ post)"
      unfolding ls by (simp add: moveToFront_split [OF pre' x'])
    then show ?thesis
      by (simp only: moveToBack_split [OF nil x']) simp
  qed
  have L1: "layers (layerMovedToBack p (layerMovedToFront p s)) = x # pre @ post"
    by (simp add: layerMovedToBack_def layerMovedToFront_def fb)
  have L2: "layers (layerMovedToFront p (layerMovedToBack p s)) = pre @ post @ [x]"
    by (simp add: layerMovedToBack_def layerMovedToFront_def bf)
  have S1: "layerMovedToBack p (layerMovedToFront p s) = s \<longleftrightarrow> x # pre @ post = layers s"
    by (simp add: layerMovedToBack_def layerMovedToFront_def layers_update_eq fb)
  have S2: "layerMovedToFront p (layerMovedToBack p s) = s \<longleftrightarrow> pre @ post @ [x] = layers s"
    by (simp add: layerMovedToBack_def layerMovedToFront_def layers_update_eq bf)
  have E1: "x # pre @ post = pre @ x # post \<longleftrightarrow> layer_id (hd (pre @ x # post)) = p"
  proof (cases pre)
    case Nil
    then show ?thesis by (simp add: x)
  next
    case (Cons y ys)
    with pre have "layer_id y \<noteq> p" by simp
    with Cons x show ?thesis by auto
  qed
  have E2: "pre @ post @ [x] = pre @ x # post \<longleftrightarrow> layer_id (last (pre @ x # post)) = p"
  proof (cases post rule: rev_cases)
    case Nil
    then show ?thesis by (simp add: x)
  next
    case (snoc ys y)
    with post have "layer_id y \<noteq> p" by simp
    with snoc x show ?thesis by auto
  qed
  have F: "filter (\<lambda>l. layer_id l \<noteq> p) (pre @ x # post) = filter (\<lambda>l. layer_id l \<noteq> p) (pre @ post)"
    by (simp add: x)
  show ?thesis
    unfolding S1 S2 L1 L2 ls E1 E2
    using x by (simp add: F)
qed

theorem move_front_back_restores_iff_at_end_witness:
  "distinct (map layer_id (layers (example_state [example_layer ''a'', example_layer ''b''] None))) \<and>
   ''a'' \<in> set (map layer_id (layers (example_state [example_layer ''a'', example_layer ''b''] None))) \<and>
   layerMovedToBack ''a'' (layerMovedToFront ''a''
      (example_state [example_layer ''a'', example_layer ''b''] None))
     = example_state [example_layer ''a'', example_layer ''b''] None \<and>
   layerMovedToFront ''a'' (layerMovedToBack ''a''
      (example_state [example_layer ''a'', example_layer ''b''] None))
     \<noteq> example_state [example_layer ''a'', example_layer ''b''] None"
proof -
  let ?s = "example_state [example_layer ''a'', example_layer ''b''] None"
  have d: "distinct (map layer_id (layers ?s))"
    by (simp add: example_state_def example_layer_def)
  have m: "''a'' \<in> set (map layer_id (layers ?s))"
    by (simp add: example_state_def example_layer_def)
  have h: "layer_id (hd (layers ?s)) = ''a''"
    by (simp add: example_state_def example_layer_def)
  have l: "layer_id (last (layers ?s)) \<noteq> ''a''"
    by (simp add: example_state_def example_layer_def)
  show ?thesis
    using move_front_back_restores_iff_at_end [OF d m] d m h l by blast
qed

section \<open>Properties of undo grouping\<close>

lemma LINE_1_neq_LINE_2: "LINE_1 \<noteq> LINE_2"
  by (simp add: LINE_1_def LINE_2_def)

lemma LINE_2_neq_LINE_1: "LINE_2 \<noteq> LINE_1"
  by (simp add: LINE_1_def LINE_2_def)

lemma filter_undoable_line: "filter_undoable (MaskLayerLineAdded l pts t u)"
  by (simp add: filter_undoable_def sliceName_def)

lemma filter_undoable_points: "filter_undoable (MaskLayerPointsAdded l pt)"
  by (simp add: filter_undoable_def sliceName_def)

lemma groupBy_line:
  "groupBy (MaskLayerLineAdded l pts t u) g = Some (if g = Some LINE_1 then LINE_2 else LINE_1)"
  by (simp add: groupBy_def)

lemma groupBy_points_LINE_1: "groupBy (MaskLayerPointsAdded l pt) (Some LINE_1) = Some LINE_1"
  by (simp add: groupBy_def)

lemma groupBy_points_LINE_2: "groupBy (MaskLayerPointsAdded l pt) (Some LINE_2) = Some LINE_2"
  by (simp add: groupBy_def)

text \<open>
  Claim C7. From a history with no entry and no group, the actions add-line, append-point,
  append-point, add-line, append-point, whatever their payloads, leave exactly two entries,
  the first holding the first three actions and the second the last two. In general an
  add-line action gets the stroke token that the history's group is not (\<open>LINE_2\<close> after
  \<open>LINE_1\<close>, \<open>LINE_1\<close> after anything else), so never the history's group, and an
  append-point action gets the history's group whenever that is one of the two stroke tokens.
\<close>

theorem undo_groups_two_strokes:
  "record_all empty_history
     [MaskLayerLineAdded l1 pts1 t1 u1, MaskLayerPointsAdded l2 pt2, MaskLayerPointsAdded l3 pt3,
      MaskLayerLineAdded l4 pts4 t4 u4, MaskLayerPointsAdded l5 pt5]
     = \<lparr> entries =
           [[MaskLayerLineAdded l1 pts1 t1 u1, MaskLayerPointsAdded l2 pt2, MaskLayerPointsAdded l3 pt3],
            [MaskLayerLineAdded l4 pts4 t4 u4, MaskLayerPointsAdded l5 pt5]],
         group = Some LINE_2 \<rparr> \<and>
   groupBy (MaskLayerLineAdded l pts t u) g = Some (if g = Some LINE_1 then LINE_2 else LINE_1) \<and>
   groupBy (MaskLayerLineAdded l pts t u) g \<noteq> g \<and>
   LINE_1 \<noteq> LINE_2 \<and>
   (g = Some LINE_1 \<or> g = Some LINE_2 \<longrightarrow> groupBy (MaskLayerPointsAdded l pt) g = g)"
proof (intro conjI)
  show "record_all empty_history
     [MaskLayerLineAdded l1 pts1 t1 u1, MaskLayerPointsAdded l2 pt2, MaskLayerPointsAdded l3 pt3,
      MaskLayerLineAdded l4 pts4 t4 u4, MaskLayerPointsAdded l5 pt5]
     = \<lparr> entries =
           [[MaskLayerLineAdded l1 pts1 t1 u1, MaskLayerPointsAdded l2 pt2, MaskLayerPointsAdded l3 pt3],
            [MaskLayerLineAdded l4 pts4 t4 u4, MaskLayerPointsAdded l5 pt5]],
         group = Some LINE_2 \<rparr>"
    by (simp add: record_all_def record_action_def empty_history_def filter_undoable_line
          filter_undoable_points groupBy_line groupBy_points_LINE_1 groupBy_points_LINE_2
          LINE_1_neq_LINE_2 LINE_2_neq_LINE_1 Let_def)
next
  show "groupBy (MaskLayerLineAdded l pts t u) g = Some (if g = Some LINE_1 then LINE_2 else LINE_1)"
    by (rule groupBy_line)
next
  show "groupBy (MaskLayerLineAdded l pts t u) g \<noteq> g"
    using LINE_1_neq_LINE_2 by (auto simp: groupBy_line)
next
  show "LINE_1 \<noteq> LINE_2" by (rule LINE_1_neq_LINE_2)
next
  show "g = Some LINE_1 \<or> g = Some LINE_2 \<longrightarrow> groupBy (MaskLayerPointsAdded l pt) g = g"
    using groupBy_points_LINE_1 groupBy_points_LINE_2 by auto
qed

theorem undo_groups_two_strokes_witness:
  "length (entries (record_all empty_history
     [MaskLayerLineAdded ''a'' (0, 0, 1, 1) brush ''u1'', MaskLayerPointsAdded ''a'' (2, 2),
      MaskLayerPointsAdded ''a'' (3, 3), MaskLayerLineAdded ''a'' (5, 5, 6, 6) eraser ''u2'',
      MaskLayerPointsAdded ''a'' (7, 7)])) = 2 \<and>
   map length (entries (record_all empty_history
     [MaskLayerLineAdded ''a'' (0, 0, 1, 1) brush ''u1'', MaskLayerPointsAdded ''a'' (2, 2),
      MaskLayerPointsAdded ''a'' (3, 3), MaskLayerLineAdded ''a'' (5, 5, 6, 6) eraser ''u2'',
      MaskLayerPointsAdded ''a'' (7, 7)])) = [3, 2] \<and>
   groupBy (MaskLayerLineAdded ''a'' (0, 0, 1, 1) brush ''u1'') (Some LINE_2) = Some LINE_1 \<and>
   groupBy (MaskLayerPointsAdded ''a'' (2, 2)) (Some LINE_2) = Some LINE_2"
  using undo_groups_two_strokes [of "''a''" "(0, 0, 1, 1)" brush "''u1''" "''a''" "(2, 2)"
      "''a''" "(3, 3)" "''a''" "(5, 5, 6, 6)" eraser "''u2''" "''a''" "(7, 7)"
      "''a''" "(0, 0, 1, 1)" brush "''u1''" "Some LINE_2" "(2, 2)"]
  by (simp add: LINE_1_def LINE_2_def)

section \<open>Properties of the graph splicer\<close>

subsection \<open>The copy loop ends when the regional node is not the global node\<close>

lemma not_feeds_copied: "r \<noteq> g \<Longrightarrow> \<not> feeds_global g (copied_edge r e)"
  by (simp add: feeds_global_def copied_edge_def)

text \<open>
  The loop visits the edges it pushes. A pushed edge enters the regional node, so when that
  is not the global node no pushed edge is copied again, and the loop does what a loop over
  a snapshot of the array does.
\<close>

lemma copyEdges_from:
  assumes "r \<noteq> g"
  shows "copyEdges g r i es = Some (es @ map (copied_edge r) (filter (feeds_global g) (drop i es)))"
proof (induction "length (filter (feeds_global g) (drop i es)) + (length es - i)"
        arbitrary: i es rule: less_induct)
  case less
  show ?case
  proof (cases "i < length es")
    case False
    then show ?thesis
      by (subst copyEdges.simps) simp
  next
    case True
    then have d: "drop i es = es ! i # drop (Suc i) es"
      by (simp add: Cons_nth_drop_Suc)
    show ?thesis
    proof (cases "feeds_global g (es ! i)")
      case False
      have "length (filter (feeds_global g) (drop (Suc i) es)) + (length es - Suc i)
              < length (filter (feeds_global g) (drop i es)) + (length es - i)"
        using True False by (simp add: d)
      from less [OF this] True False show ?thesis
        by (subst copyEdges.simps) (simp add: d)
    next
      case feeds: True
      let ?es = "es @ [copied_edge r (es ! i)]"
      have d': "drop (Suc i) ?es = drop (Suc i) es @ [copied_edge r (es ! i)]"
        using True by simp
      have f': "filter (feeds_global g) (drop (Suc i) ?es) = filter (feeds_global g) (drop (Suc i) es)"
        unfolding d' by (simp add: not_feeds_copied [OF assms])
      have "length (filter (feeds_global g) (drop (Suc i) ?es)) + (length ?es - Suc i)
              < length (filter (feeds_global g) (drop i es)) + (length es - i)"
        unfolding f' using True feeds by (simp add: d)
      from less [OF this] have "copyEdges g r (Suc i) ?es =
          Some (?es @ map (copied_edge r) (filter (feeds_global g) (drop (Suc i) es)))"
        by (simp only: f')
      with True feeds show ?thesis
        by (subst copyEdges.simps) (simp add: d)
    qed
  qed
qed

lemma copyEdges_snapshot:
  "r \<noteq> g \<Longrightarrow> copyEdges g r 0 es = Some (es @ map (copied_edge r) (filter (feeds_global g) es))"
  using copyEdges_from [of r g 0 es] by simp

subsection \<open>The feature flag\<close>

text \<open>
  Claim C10. For every graph, state and denoiser node id (and whatever the constants, the
  blob renderer and the upload endpoint are), when the feature flag is off the call returns,
  every node and every edge of the graph is as before the call, no blob is asked for and no
  upload is initiated.
\<close>

theorem disabled_leaves_graph_unchanged:
  assumes "\<not> isEnabled (regionalPrompts_present state)"
  shows "addRegionalPromptsToGraph K getRegionalPromptLayerBlobs uploadImage state g denoiseNodeId
           = Some (Returned, \<lparr> st_graph = g, st_effects = [] \<rparr>)"
  using assms by (simp add: addRegionalPromptsToGraph_def)

theorem disabled_leaves_graph_unchanged_witness:
  "\<not> isEnabled (regionalPrompts_present
        (example_root_state [prompt_layer ''vector_mask_layer_1'' ''a dog'' [] Off] False)) \<and>
   run_example [prompt_layer ''vector_mask_layer_1'' ''a dog'' [] Off] False []
     = Some (Returned, \<lparr> st_graph = base_graph, st_effects = [] \<rparr>)"
proof -
  have h: "\<not> isEnabled (regionalPrompts_present
        (example_root_state [prompt_layer ''vector_mask_layer_1'' ''a dog'' [] Off] False))"
    by (simp add: example_root_state_def)
  show ?thesis
    unfolding run_example_def
    using h disabled_leaves_graph_unchanged [OF h] by simp
qed

subsection \<open>What one layer adds\<close>

text \<open>The edges after a conditioning node \<open>rid\<close> is wired to its mask source and its
  collector and the global node's connections are copied to it.\<close>

lemma addPositiveCond_Some:
  assumes "PROMPT_REGION_POSITIVE_COND_PREFIX K @ ''_'' @ layer_id l \<noteq> POSITIVE_CONDITIONING K"
    and "rid = PROMPT_REGION_POSITIVE_COND_PREFIX K @ ''_'' @ layer_id l"
    and "es = edges g @ [mk_edge mid ''mask'' rid ''mask'',
                         mk_edge rid ''conditioning'' (POSITIVE_CONDITIONING_COLLECT K) ''item'']"
  shows "addPositiveCond K sdxl l p mid g =
           Some \<lparr> nodes = (nodes g)(rid \<mapsto> condNode sdxl rid p),
                  edges = es @ map (copied_edge rid) (filter (feeds_global (POSITIVE_CONDITIONING K)) es) \<rparr>"
  using assms(1) unfolding assms(2,3)
  by (simp add: addPositiveCond_def Let_def add_node_def push_edge_def copyEdges_snapshot)

lemma addNegativeCond_Some:
  assumes "PROMPT_REGION_NEGATIVE_COND_PREFIX K @ ''_'' @ layer_id l \<noteq> NEGATIVE_CONDITIONING K"
    and "rid = PROMPT_REGION_NEGATIVE_COND_PREFIX K @ ''_'' @ layer_id l"
    and "es = edges g @ [mk_edge mid ''mask'' rid ''mask'',
                         mk_edge rid ''conditioning'' (NEGATIVE_CONDITIONING_COLLECT K) ''item'']"
  shows "addNegativeCond K sdxl l p mid g =
           Some \<lparr> nodes = (nodes g)(rid \<mapsto> condNode sdxl rid p),
                  edges = es @ map (copied_edge rid) (filter (feeds_global (NEGATIVE_CONDITIONING K)) es) \<rparr>"
  using assms(1) unfolding assms(2,3)
  by (simp add: addNegativeCond_def Let_def add_node_def push_edge_def copyEdges_snapshot)

lemma addInvertedCond_Some:
  assumes "PROMPT_REGION_POSITIVE_COND_INVERTED_PREFIX K @ ''_'' @ layer_id l \<noteq> POSITIVE_CONDITIONING K"
    and "iid = PROMPT_REGION_INVERT_TENSOR_MASK_PREFIX K @ ''_'' @ layer_id l"
    and "rid = PROMPT_REGION_POSITIVE_COND_INVERTED_PREFIX K @ ''_'' @ layer_id l"
    and "es = edges g @ [mk_edge mid ''mask'' iid ''mask'', mk_edge iid ''mask'' rid ''mask'',
                         mk_edge rid ''conditioning'' (NEGATIVE_CONDITIONING_COLLECT K) ''item'']"
  shows "addInvertedCond K sdxl l p mid g =
           Some \<lparr> nodes = (nodes g)(iid \<mapsto> InvertTensorMaskInvocation iid, rid \<mapsto> condNode sdxl rid p),
                  edges = es @ map (copied_edge rid) (filter (feeds_global (POSITIVE_CONDITIONING K)) es) \<rparr>"
  using assms(1) unfolding assms(2,3,4)
  by (simp add: addInvertedCond_def Let_def add_node_def push_edge_def copyEdges_snapshot)

lemma edges_addCollectors:
  "edges (addCollectors K d g) =
     map (reroute K d) (edges g) @
     [mk_edge (POSITIVE_CONDITIONING_COLLECT K) ''collection'' d ''positive_conditioning'',
      mk_edge (NEGATIVE_CONDITIONING_COLLECT K) ''collection'' d ''negative_conditioning'']"
  by (simp add: addCollectors_def Let_def add_node_def push_edge_def)

lemma nodes_addCollectors:
  "nodes (addCollectors K d g) =
     (nodes g)(POSITIVE_CONDITIONING_COLLECT K \<mapsto> CollectInvocation (POSITIVE_CONDITIONING_COLLECT K),
               NEGATIVE_CONDITIONING_COLLECT K \<mapsto> CollectInvocation (NEGATIVE_CONDITIONING_COLLECT K))"
  by (simp add: addCollectors_def Let_def add_node_def push_edge_def)

subsection \<open>Re-routed edges\<close>

lemma filter_map_reroute:
  assumes "\<And>e. e \<in> set es \<Longrightarrow> Q (reroute K d e) = Q' e"
  shows "filter Q (map (reroute K d) es) = map (reroute K d) (filter Q' es)"
  using assms by (induction es) simp_all

lemma enters_pos_collect_reroute:
  assumes "node_id (destination e) \<noteq> POSITIVE_CONDITIONING_COLLECT K"
    and "POSITIVE_CONDITIONING_COLLECT K \<noteq> NEGATIVE_CONDITIONING_COLLECT K"
  shows "enters (POSITIVE_CONDITIONING_COLLECT K) ''item'' (reroute K d e)
           = enters d ''positive_conditioning'' e"
  using assms by (auto simp: enters_def reroute_def)

lemma enters_neg_collect_reroute:
  assumes "node_id (destination e) \<noteq> NEGATIVE_CONDITIONING_COLLECT K"
    and "POSITIVE_CONDITIONING_COLLECT K \<noteq> NEGATIVE_CONDITIONING_COLLECT K"
  shows "enters (NEGATIVE_CONDITIONING_COLLECT K) ''item'' (reroute K d e)
           = enters d ''negative_conditioning'' e"
  using assms by (auto simp: enters_def reroute_def)

lemma enters_denoise_pos_reroute: "enters d ''positive_conditioning'' (reroute K d e) = False"
  by (auto simp: enters_def reroute_def)

lemma enters_denoise_neg_reroute: "enters d ''negative_conditioning'' (reroute K d e) = False"
  by (auto simp: enters_def reroute_def)

lemma feeds_global_reroute:
  assumes "P \<noteq> d" and "P \<noteq> POSITIVE_CONDITIONING_COLLECT K"
    and "P \<noteq> NEGATIVE_CONDITIONING_COLLECT K"
  shows "feeds_global P (reroute K d e) = feeds_global P e"
  using assms by (auto simp: feeds_global_def reroute_def)

lemma reroute_feeds_global: "P \<noteq> d \<Longrightarrow> feeds_global P e \<Longrightarrow> reroute K d e = e"
  by (auto simp: feeds_global_def reroute_def)

lemma into_node_reroute:
  assumes "node_id (destination e) \<noteq> n" and "n \<noteq> POSITIVE_CONDITIONING_COLLECT K"
    and "n \<noteq> NEGATIVE_CONDITIONING_COLLECT K"
  shows "(node_id (destination (reroute K d e)) = n) = False"
  using assms by (auto simp: reroute_def)

text \<open>The edges of the base graph that feed the global node, seen after the re-routing.\<close>

lemma feeds_global_rerouted:
  assumes "P \<noteq> d" and "P \<noteq> POSITIVE_CONDITIONING_COLLECT K"
    and "P \<noteq> NEGATIVE_CONDITIONING_COLLECT K"
  shows "filter (feeds_global P) (map (reroute K d) es) = filter (feeds_global P) es"
proof -
  have "filter (feeds_global P) (map (reroute K d) es) = map (reroute K d) (filter (feeds_global P) es)"
    by (rule filter_map_reroute) (rule feeds_global_reroute [OF assms])
  also have "\<dots> = filter (feeds_global P) es"
    by (rule map_idI) (simp add: reroute_feeds_global [OF assms(1)])
  finally show ?thesis .
qed

lemma feeds_global_addCollectors:
  assumes "P \<noteq> d" and "P \<noteq> POSITIVE_CONDITIONING_COLLECT K"
    and "P \<noteq> NEGATIVE_CONDITIONING_COLLECT K"
  shows "filter (feeds_global P) (edges (addCollectors K d g)) = filter (feeds_global P) (edges g)"
  using assms
  by (simp add: edges_addCollectors feeds_global_rerouted [OF assms] feeds_global_def mk_edge_def)

lemma enters_copied: "enters n f (copied_edge r e) = (r = n \<and> field (destination e) = f)"
  by (auto simp: enters_def copied_edge_def)

lemma filter_enters_copies:
  "r \<noteq> n \<Longrightarrow> filter (enters n f) (map (copied_edge r) es) = []"
  by (induction es) (simp_all add: enters_copied)

lemma filter_into_copies:
  "filter (\<lambda>e. node_id (destination e) = r) (map (copied_edge r) es) = map (copied_edge r) es"
  by (induction es) (simp_all add: copied_edge_def)

lemma filter_into_other_copies:
  "r \<noteq> n \<Longrightarrow> filter (\<lambda>e. node_id (destination e) = n) (map (copied_edge r) es) = []"
  by (induction es) (simp_all add: copied_edge_def)

lemma filter_feeds_copies:
  "r \<noteq> P \<Longrightarrow> filter (feeds_global P) (map (copied_edge r) es) = []"
  by (induction es) (simp_all add: not_feeds_copied)

text \<open>The collectors' inputs right after the collectors are set up: what fed the denoiser.\<close>

lemma incoming_collectors:
  assumes "\<forall>e\<in>set (edges g). node_id (destination e) \<noteq> POSITIVE_CONDITIONING_COLLECT K \<and>
                              node_id (destination e) \<noteq> NEGATIVE_CONDITIONING_COLLECT K"
    and "POSITIVE_CONDITIONING_COLLECT K \<noteq> NEGATIVE_CONDITIONING_COLLECT K"
  shows "filter (enters (POSITIVE_CONDITIONING_COLLECT K) ''item'') (edges (addCollectors K d g))
           = map (reroute K d) (incoming g d ''positive_conditioning'')"
    and "filter (enters (NEGATIVE_CONDITIONING_COLLECT K) ''item'') (edges (addCollectors K d g))
           = map (reroute K d) (incoming g d ''negative_conditioning'')"
    and "filter (enters d ''positive_conditioning'') (edges (addCollectors K d g))
           = [mk_edge (POSITIVE_CONDITIONING_COLLECT K) ''collection'' d ''positive_conditioning'']"
    and "filter (enters d ''negative_conditioning'') (edges (addCollectors K d g))
           = [mk_edge (NEGATIVE_CONDITIONING_COLLECT K) ''collection'' d ''negative_conditioning'']"
proof -
  have p: "filter (enters (POSITIVE_CONDITIONING_COLLECT K) ''item'') (map (reroute K d) (edges g))
             = map (reroute K d) (filter (enters d ''positive_conditioning'') (edges g))"
    by (rule filter_map_reroute) (use assms in \<open>simp add: enters_pos_collect_reroute\<close>)
  have n: "filter (enters (NEGATIVE_CONDITIONING_COLLECT K) ''item'') (map (reroute K d) (edges g))
             = map (reroute K d) (filter (enters d ''negative_conditioning'') (edges g))"
    by (rule filter_map_reroute) (use assms in \<open>simp add: enters_neg_collect_reroute\<close>)
  have dp: "filter (enters d ''positive_conditioning'') (map (reroute K d) (edges g)) = []"
    by (simp add: filter_empty_conv enters_denoise_pos_reroute)
  have dn: "filter (enters d ''negative_conditioning'') (map (reroute K d) (edges g)) = []"
    by (simp add: filter_empty_conv enters_denoise_neg_reroute)
  show "filter (enters (POSITIVE_CONDITIONING_COLLECT K) ''item'') (edges (addCollectors K d g))
           = map (reroute K d) (incoming g d ''positive_conditioning'')"
    by (simp add: edges_addCollectors p incoming_def) (simp add: enters_def mk_edge_def)
  show "filter (enters (NEGATIVE_CONDITIONING_COLLECT K) ''item'') (edges (addCollectors K d g))
           = map (reroute K d) (incoming g d ''negative_conditioning'')"
    by (simp add: edges_addCollectors n incoming_def) (simp add: enters_def mk_edge_def)
  show "filter (enters d ''positive_conditioning'') (edges (addCollectors K d g))
           = [mk_edge (POSITIVE_CONDITIONING_COLLECT K) ''collection'' d ''positive_conditioning'']"
    by (simp add: edges_addCollectors dp) (simp add: enters_def mk_edge_def)
  show "filter (enters d ''negative_conditioning'') (edges (addCollectors K d g))
           = [mk_edge (NEGATIVE_CONDITIONING_COLLECT K) ''collection'' d ''negative_conditioning'']"
    by (simp add: edges_addCollectors dn) (simp add: enters_def mk_edge_def)
qed

lemma into_node_addCollectors:
  assumes "\<forall>e\<in>set (edges g). node_id (destination e) \<noteq> n"
    and "n \<noteq> d" and "n \<noteq> POSITIVE_CONDITIONING_COLLECT K" and "n \<noteq> NEGATIVE_CONDITIONING_COLLECT K"
  shows "filter (\<lambda>e. node_id (destination e) = n) (edges (addCollectors K d g)) = []"
proof -
  have "filter (\<lambda>e. node_id (destination e) = n) (map (reroute K d) (edges g)) = []"
    using assms by (simp add: filter_empty_conv into_node_reroute)
  with assms show ?thesis
    by (simp add: edges_addCollectors mk_edge_def)
qed

lemma incoming_literal: "incoming \<lparr> nodes = N, edges = E \<rparr> n f = filter (enters n f) E"
  by (simp add: incoming_def)

lemma source_reroute: "source (reroute K d e) = source e"
  by (simp add: reroute_def)

subsection \<open>One layer\<close>

lemma run_single_layer:
  assumes "isEnabled (regionalPrompts_present state)"
    and "filtered_layers state = [l]"
    and "size_blobs (getBlobs [layer_id l]) = 1"
    and "get_property (getBlobs [layer_id l]) (layer_id l) = Some b"
    and "up (layer_id l @ ''_mask.png'') b = Inr image_name"
  shows "addRegionalPromptsToGraph K getBlobs up state g d =
           map_option
             (\<lambda>G. (Returned,
                    \<lparr> st_graph = G,
                      st_effects = [BlobsRequested [layer_id l],
                                    UploadInitiated (layer_id l @ ''_mask.png'') b] \<rparr>))
             (addLayerNodes K (generation_model_base state = Some ''sdxl'') l image_name
                (addCollectors K d g))"
proof -
  let ?G = "addLayerNodes K (generation_model_base state = Some ''sdxl'') l image_name
              (addCollectors K d g)"
  show ?thesis
  proof (cases ?G)
    case None
    with assms show ?thesis
      by (simp add: addRegionalPromptsToGraph_def Let_def processLayer_def)
  next
    case (Some G)
    with assms show ?thesis
      by (simp add: addRegionalPromptsToGraph_def Let_def processLayer_def)
  qed
qed

subsection \<open>The scenario's values\<close>

lemma example_constants_simps:
  "NEGATIVE_CONDITIONING example_constants = ''negative_conditioning''"
  "NEGATIVE_CONDITIONING_COLLECT example_constants = ''negative_conditioning_collect''"
  "POSITIVE_CONDITIONING example_constants = ''positive_conditioning''"
  "POSITIVE_CONDITIONING_COLLECT example_constants = ''positive_conditioning_collect''"
  "PROMPT_REGION_INVERT_TENSOR_MASK_PREFIX example_constants = ''prompt_region_invert_tensor_mask''"
  "PROMPT_REGION_MASK_TO_TENSOR_PREFIX example_constants = ''prompt_region_mask_to_tensor''"
  "PROMPT_REGION_NEGATIVE_COND_PREFIX example_constants = ''prompt_region_negative_cond''"
  "PROMPT_REGION_POSITIVE_COND_INVERTED_PREFIX example_constants = ''prompt_region_positive_cond_inverted''"
  "PROMPT_REGION_POSITIVE_COND_PREFIX example_constants = ''prompt_region_positive_cond''"
  by (simp_all add: example_constants_def)

lemma edges_addCollectors_base_graph:
  "edges (addCollectors example_constants ''denoise_latents'' base_graph) =
      [mk_edge ''main_model_loader'' ''clip'' ''positive_conditioning'' ''clip'',
       mk_edge ''main_model_loader'' ''clip'' ''negative_conditioning'' ''clip'',
       mk_edge ''positive_conditioning'' ''conditioning'' ''positive_conditioning_collect'' ''item'',
       mk_edge ''negative_conditioning'' ''conditioning'' ''negative_conditioning_collect'' ''item'',
       mk_edge ''positive_conditioning_collect'' ''collection'' ''denoise_latents'' ''positive_conditioning'',
       mk_edge ''negative_conditioning_collect'' ''collection'' ''denoise_latents'' ''negative_conditioning'']"
  by (simp add: edges_addCollectors base_graph_def example_constants_simps reroute_def mk_edge_def)

lemma example_layer_facts:
  "layer_id (prompt_layer i p n an) = i"
  "autoNegative (prompt_layer i p n an) = an"
  "truthy_positive (prompt_layer i p n an) = (if p = [] then None else Some p)"
  "truthy_negative (prompt_layer i p n an) = (if n = [] then None else Some n)"
  "isVisible (prompt_layer i p n an)"
  "isVectorMaskLayer (prompt_layer i p n an)"
  "hasPrompt (prompt_layer i p n an) = (p \<noteq> [] \<or> n \<noteq> [])"
  by (simp_all add: prompt_layer_def example_layer_def truthy_positive_def truthy_negative_def
        isVectorMaskLayer_def hasPrompt_def)

lemma example_root_state_facts:
  "isEnabled (regionalPrompts_present (example_root_state ls en)) = en"
  "layers (regionalPrompts_present (example_root_state ls en)) = ls"
  "(generation_model_base (example_root_state ls en) = Some ''sdxl'') = False"
  by (simp_all add: example_root_state_def example_state_def)

text \<open>The nodes and edges that the layer \<open>vector_mask_layer_1\<close> with the positive prompt
  \<open>a dog\<close> and auto-negative off adds to the base graph with its collectors.\<close>

lemma addLayerNodes_example_positive:
  "addLayerNodes example_constants False (prompt_layer ''vector_mask_layer_1'' ''a dog'' [] Off) img
     (addCollectors example_constants ''denoise_latents'' base_graph)
   = Some \<lparr> nodes = (nodes (addCollectors example_constants ''denoise_latents'' base_graph))
                  (''prompt_region_mask_to_tensor_vector_mask_layer_1'' \<mapsto>
                     AlphaMaskToTensorInvocation ''prompt_region_mask_to_tensor_vector_mask_layer_1'' img,
                   ''prompt_region_positive_cond_vector_mask_layer_1'' \<mapsto>
                     CompelInvocation ''prompt_region_positive_cond_vector_mask_layer_1'' ''a dog''),
            edges =
      [mk_edge ''main_model_loader'' ''clip'' ''positive_conditioning'' ''clip'',
       mk_edge ''main_model_loader'' ''clip'' ''negative_conditioning'' ''clip'',
       mk_edge ''positive_conditioning'' ''conditioning'' ''positive_conditioning_collect'' ''item'',
       mk_edge ''negative_conditioning'' ''conditioning'' ''negative_conditioning_collect'' ''item'',
       mk_edge ''positive_conditioning_collect'' ''collection'' ''denoise_latents'' ''positive_conditioning'',
       mk_edge ''negative_conditioning_collect'' ''collection'' ''denoise_latents'' ''negative_conditioning'',
       mk_edge ''prompt_region_mask_to_tensor_vector_mask_layer_1'' ''mask''
         ''prompt_region_positive_cond_vector_mask_layer_1'' ''mask'',
       mk_edge ''prompt_region_positive_cond_vector_mask_layer_1'' ''conditioning''
         ''positive_conditioning_collect'' ''item'',
       mk_edge ''main_model_loader'' ''clip'' ''prompt_region_positive_cond_vector_mask_layer_1'' ''clip''] \<rparr>"
  by (simp add: addLayerNodes_def example_layer_facts Let_def example_constants_simps
        addPositiveCond_Some [OF _ refl refl] add_node_def edges_addCollectors_base_graph
        feeds_global_def copied_edge_def mk_edge_def condNode_def)

lemma run_example_single:
  assumes "p \<noteq> [] \<or> n \<noteq> []"
  shows "run_example [prompt_layer i p n an] True [(i, b)] =
      map_option
        (\<lambda>G. (Returned,
               \<lparr> st_graph = G,
                 st_effects = [BlobsRequested [i], UploadInitiated (i @ ''_mask.png'') (BlobPart b)] \<rparr>))
        (addLayerNodes example_constants False (prompt_layer i p n an)
           (''uploaded_'' @ i @ ''_mask.png'')
           (addCollectors example_constants ''denoise_latents'' base_graph))"
proof -
  let ?l = "prompt_layer i p n an"
  have en: "isEnabled (regionalPrompts_present (example_root_state [?l] True))"
    by (simp add: example_root_state_facts)
  have fl: "filtered_layers (example_root_state [?l] True) = [?l]"
    using assms by (simp add: filtered_layers_def example_root_state_facts example_layer_facts)
  have sz: "size_blobs (const_blobs [(i, b)] [layer_id ?l]) = 1"
    by (simp add: size_blobs_def const_blobs_def)
  have mp: "get_property (const_blobs [(i, b)] [layer_id ?l]) (layer_id ?l) = Some (BlobPart b)"
    by (simp add: const_blobs_def example_layer_facts get_property_def)
  have up: "example_upload (layer_id ?l @ ''_mask.png'') (BlobPart b)
              = Inr (''uploaded_'' @ i @ ''_mask.png'')"
    by (simp add: example_upload_def example_layer_facts)
  show ?thesis
    unfolding run_example_def
    using run_single_layer [where getBlobs = "const_blobs [(i, b)]" and up = example_upload,
          OF en fl sz mp up, of example_constants base_graph "''denoise_latents''"]
    by (simp add: example_root_state_facts example_layer_facts)
qed

subsection \<open>The positive block on a graph that has just got its collectors\<close>

lemma positive_block:
  assumes rid: "rid = PROMPT_REGION_POSITIVE_COND_PREFIX K @ ''_'' @ layer_id l"
    and ne: "POSITIVE_CONDITIONING K \<noteq> d"
      "POSITIVE_CONDITIONING K \<noteq> POSITIVE_CONDITIONING_COLLECT K"
      "POSITIVE_CONDITIONING K \<noteq> NEGATIVE_CONDITIONING_COLLECT K"
      "rid \<noteq> POSITIVE_CONDITIONING K"
  shows "addPositiveCond K sdxl l p mid (add_node mid n (addCollectors K d g)) =
           Some \<lparr> nodes = (nodes (add_node mid n (addCollectors K d g)))(rid \<mapsto> condNode sdxl rid p),
                  edges = edges (addCollectors K d g) @
                          [mk_edge mid ''mask'' rid ''mask'',
                           mk_edge rid ''conditioning'' (POSITIVE_CONDITIONING_COLLECT K) ''item''] @
                          map (copied_edge rid)
                            (filter (feeds_global (POSITIVE_CONDITIONING K)) (edges g)) \<rparr>"
proof -
  let ?P = "POSITIVE_CONDITIONING K"
  let ?g0 = "addCollectors K d g"
  let ?g1 = "add_node mid n ?g0"
  let ?m = "mk_edge mid ''mask'' rid ''mask''"
  let ?r = "mk_edge rid ''conditioning'' (POSITIVE_CONDITIONING_COLLECT K) ''item''"
  let ?copies = "map (copied_edge rid) (filter (feeds_global ?P) (edges g))"
  have E1: "edges ?g1 = edges ?g0"
    by (simp add: add_node_def)
  have feeds: "filter (feeds_global ?P) (edges ?g1 @ [?m, ?r]) = filter (feeds_global ?P) (edges g)"
    unfolding E1
    using ne by (simp add: feeds_global_addCollectors) (simp add: feeds_global_def mk_edge_def)
  have "PROMPT_REGION_POSITIVE_COND_PREFIX K @ ''_'' @ layer_id l \<noteq> ?P"
    using ne(4) rid by simp
  then have "addPositiveCond K sdxl l p mid ?g1 =
      Some \<lparr> nodes = (nodes ?g1)(rid \<mapsto> condNode sdxl rid p),
             edges = (edges ?g1 @ [?m, ?r]) @
                     map (copied_edge rid) (filter (feeds_global ?P) (edges ?g1 @ [?m, ?r])) \<rparr>"
    using rid by (rule addPositiveCond_Some) (rule refl)
  then have "addPositiveCond K sdxl l p mid ?g1 =
      Some \<lparr> nodes = (nodes ?g1)(rid \<mapsto> condNode sdxl rid p),
             edges = (edges ?g1 @ [?m, ?r]) @ ?copies \<rparr>"
    by (simp only: feeds)
  then show ?thesis
    by (simp add: E1)
qed

lemma base_graph_wiring:
  "incoming base_graph ''denoise_latents'' ''positive_conditioning''
     = [mk_edge ''positive_conditioning'' ''conditioning'' ''denoise_latents'' ''positive_conditioning'']"
  "incoming base_graph ''denoise_latents'' ''negative_conditioning''
     = [mk_edge ''negative_conditioning'' ''conditioning'' ''denoise_latents'' ''negative_conditioning'']"
  "filter (feeds_global ''positive_conditioning'') (edges base_graph)
     = [mk_edge ''main_model_loader'' ''clip'' ''positive_conditioning'' ''clip'']"
  by (simp_all add: base_graph_def incoming_def enters_def feeds_global_def mk_edge_def)

lemma example_blob_facts:
  "size_blobs (const_blobs [(i, b)] [layer_id (prompt_layer i p n an)]) = 1"
  "get_property (const_blobs [(i, b)] [layer_id (prompt_layer i p n an)])
     (layer_id (prompt_layer i p n an)) = Some (BlobPart b)"
  "example_upload (layer_id (prompt_layer i p n an) @ ''_mask.png'') (BlobPart b)
     = Inr (''uploaded_'' @ i @ ''_mask.png'')"
  by (simp_all add: size_blobs_def const_blobs_def example_upload_def example_layer_facts
        get_property_def)

lemma example_filtered:
  "p \<noteq> [] \<Longrightarrow> filtered_layers (example_root_state [prompt_layer i p n an] True) = [prompt_layer i p n an]"
  by (simp add: filtered_layers_def example_root_state_facts example_layer_facts)

subsection \<open>A layer with a positive prompt only\<close>

text \<open>
  Claim C1 as stated fails. In the scenario (one visible layer with the positive prompt
  \<open>a dog\<close> only, auto-negative off, spliced into the base graph) the positive collector has
  two incoming item edges, from the global positive node and from the regional node, and
  the negative collector has one, from the global negative node.
\<close>

theorem positive_only_collectors_counterexample:
  "item_sources_after
     (run_example [prompt_layer ''vector_mask_layer_1'' ''a dog'' [] Off] True
        [(''vector_mask_layer_1'', [137, 80, 78, 71])])
     ''positive_conditioning_collect''
     = Some [\<lparr> node_id = ''positive_conditioning'', field = ''conditioning'' \<rparr>,
             \<lparr> node_id = ''prompt_region_positive_cond_vector_mask_layer_1'',
               field = ''conditioning'' \<rparr>] \<and>
   item_sources_after
     (run_example [prompt_layer ''vector_mask_layer_1'' ''a dog'' [] Off] True
        [(''vector_mask_layer_1'', [137, 80, 78, 71])])
     ''negative_conditioning_collect''
     = Some [\<lparr> node_id = ''negative_conditioning'', field = ''conditioning'' \<rparr>]"
  by (simp add: run_example_single addLayerNodes_example_positive item_sources_after_def
        incoming_sources_def incoming_def enters_def mk_edge_def)

text \<open>
  Claim C1, amended. Take a base graph in which exactly one edge enters the denoiser's
  positive input, coming from the global positive node \<open>P\<close>, and exactly one enters its
  negative input, coming from the global negative node \<open>Ng\<close>, and which has no edge yet into
  the two collectors or the regional node; let the ids of the denoiser, of \<open>P\<close>, of the two
  collectors and of the regional node differ, and the id of the layer's mask node differ from
  those of the collectors and of the regional node. With the flag on, exactly one layer
  passing the filters, that layer having a positive prompt only and auto-negative off, the
  blob mapping returned for it having one entry and yielding a value for the layer's id, and
  the upload of that value succeeding, the call returns, after that one upload, a graph in
  which
  \<^item> the denoiser's positive input comes from the positive collector only, which is a
    collect node, and the collector's item edges are exactly two: the edge that went from
    \<open>P\<close> to the denoiser, retargeted, and the edge from the new regional conditioning node;
  \<^item> the denoiser's negative input comes from the negative collector only, which is a
    collect node, and the collector has exactly one item edge: the edge that went from \<open>Ng\<close>
    to the denoiser, retargeted;
  \<^item> the regional node carries the layer's positive prompt, and the edges into it are
    the edge from the layer's mask node, which decodes the uploaded image, followed by a copy
    of every edge of the base graph into \<open>P\<close> other than into \<open>P\<close>'s prompt input.
\<close>

theorem positive_only_splice:
  assumes enabled: "isEnabled (regionalPrompts_present state)"
    and one_layer: "filtered_layers state = [l]"
    and prompts: "truthy_positive l = Some p" "truthy_negative l = None" "autoNegative l = Off"
    and blob: "size_blobs (getBlobs [layer_id l]) = 1" "get_property (getBlobs [layer_id l]) (layer_id l) = Some b"
    and upload: "up (layer_id l @ ''_mask.png'') b = Inr image_name"
    and pos_wired: "incoming g d ''positive_conditioning'' = [eP]"
      "node_id (source eP) = POSITIVE_CONDITIONING K"
    and neg_wired: "incoming g d ''negative_conditioning'' = [eN]"
      "node_id (source eN) = NEGATIVE_CONDITIONING K"
    and rid: "rid = PROMPT_REGION_POSITIVE_COND_PREFIX K @ ''_'' @ layer_id l"
    and mid: "mid = PROMPT_REGION_MASK_TO_TENSOR_PREFIX K @ ''_'' @ layer_id l"
    and fresh: "\<forall>e\<in>set (edges g).
                  node_id (destination e) \<noteq> POSITIVE_CONDITIONING_COLLECT K \<and>
                  node_id (destination e) \<noteq> NEGATIVE_CONDITIONING_COLLECT K \<and>
                  node_id (destination e) \<noteq> rid"
    and ids: "distinct [d, POSITIVE_CONDITIONING K, POSITIVE_CONDITIONING_COLLECT K,
                        NEGATIVE_CONDITIONING_COLLECT K, rid]"
    and mask_id: "mid \<noteq> POSITIVE_CONDITIONING_COLLECT K" "mid \<noteq> NEGATIVE_CONDITIONING_COLLECT K"
      "mid \<noteq> rid"
  shows "\<exists>st. addRegionalPromptsToGraph K getBlobs up state g d = Some (Returned, st) \<and>
           st_effects st = [BlobsRequested [layer_id l],
                            UploadInitiated (layer_id l @ ''_mask.png'') b] \<and>
           nodes (st_graph st) (POSITIVE_CONDITIONING_COLLECT K)
             = Some (CollectInvocation (POSITIVE_CONDITIONING_COLLECT K)) \<and>
           nodes (st_graph st) (NEGATIVE_CONDITIONING_COLLECT K)
             = Some (CollectInvocation (NEGATIVE_CONDITIONING_COLLECT K)) \<and>
           nodes (st_graph st) mid = Some (AlphaMaskToTensorInvocation mid image_name) \<and>
           incoming_sources (st_graph st) d ''positive_conditioning''
             = [\<lparr> node_id = POSITIVE_CONDITIONING_COLLECT K, field = ''collection'' \<rparr>] \<and>
           incoming_sources (st_graph st) (POSITIVE_CONDITIONING_COLLECT K) ''item''
             = [source eP, \<lparr> node_id = rid, field = ''conditioning'' \<rparr>] \<and>
           incoming_sources (st_graph st) d ''negative_conditioning''
             = [\<lparr> node_id = NEGATIVE_CONDITIONING_COLLECT K, field = ''collection'' \<rparr>] \<and>
           incoming_sources (st_graph st) (NEGATIVE_CONDITIONING_COLLECT K) ''item'' = [source eN] \<and>
           nodes (st_graph st) rid
             = Some (condNode (generation_model_base state = Some ''sdxl'') rid p) \<and>
           filter (\<lambda>e. node_id (destination e) = rid) (edges (st_graph st))
             = mk_edge mid ''mask'' rid ''mask'' #
               map (copied_edge rid) (filter (feeds_global (POSITIVE_CONDITIONING K)) (edges g))"
proof -
  let ?P = "POSITIVE_CONDITIONING K"
  let ?PC = "POSITIVE_CONDITIONING_COLLECT K"
  let ?NC = "NEGATIVE_CONDITIONING_COLLECT K"
  let ?sdxl = "generation_model_base state = Some ''sdxl''"
  let ?g0 = "addCollectors K d g"
  let ?g1 = "add_node mid (AlphaMaskToTensorInvocation mid image_name) ?g0"
  let ?m = "mk_edge mid ''mask'' rid ''mask''"
  let ?r = "mk_edge rid ''conditioning'' ?PC ''item''"
  let ?copies = "map (copied_edge rid) (filter (feeds_global ?P) (edges g))"
  let ?G = "\<lparr> nodes = (nodes ?g1)(rid \<mapsto> condNode ?sdxl rid p),
              edges = edges ?g0 @ [?m, ?r] @ ?copies \<rparr>"
  from ids have ne: "?P \<noteq> d" "?P \<noteq> ?PC" "?P \<noteq> ?NC" "rid \<noteq> ?P" "rid \<noteq> ?PC" "rid \<noteq> ?NC"
    "rid \<noteq> d" "?PC \<noteq> ?NC"
    by auto
  have fresh_c: "\<forall>e\<in>set (edges g). node_id (destination e) \<noteq> ?PC \<and> node_id (destination e) \<noteq> ?NC"
    using fresh by simp
  have fresh_r: "\<forall>e\<in>set (edges g). node_id (destination e) \<noteq> rid"
    using fresh by simp
  have "addPositiveCond K ?sdxl l p mid ?g1 = Some ?G"
    using positive_block [OF rid ne(1,2,3,4), of ?sdxl p mid "AlphaMaskToTensorInvocation mid image_name" g]
    by simp
  then have "addLayerNodes K ?sdxl l image_name ?g0 = Some ?G"
    by (simp add: addLayerNodes_def Let_def prompts mid)
  then have run: "addRegionalPromptsToGraph K getBlobs up state g d =
      Some (Returned, \<lparr> st_graph = ?G,
                        st_effects = [BlobsRequested [layer_id l],
                                      UploadInitiated (layer_id l @ ''_mask.png'') b] \<rparr>)"
    by (simp add: run_single_layer [where getBlobs = getBlobs and up = up,
                    OF enabled one_layer blob upload])
  note coll = incoming_collectors [OF fresh_c ne(8), of d]
  have pw: "map source (map (reroute K d) (incoming g d ''positive_conditioning'')) = [source eP]"
    by (simp add: pos_wired source_reroute)
  have nw: "map source (map (reroute K d) (incoming g d ''negative_conditioning'')) = [source eN]"
    by (simp add: neg_wired source_reroute)
  have a: "incoming_sources ?G d ''positive_conditioning'' = [\<lparr> node_id = ?PC, field = ''collection'' \<rparr>]"
    using ne
    by (simp add: incoming_sources_def incoming_literal coll filter_enters_copies)
       (simp add: enters_def mk_edge_def)
  have b: "incoming_sources ?G ?PC ''item'' = [source eP, \<lparr> node_id = rid, field = ''conditioning'' \<rparr>]"
    using ne
    by (simp add: incoming_sources_def incoming_literal coll filter_enters_copies pw
          del: map_map)
       (simp add: enters_def mk_edge_def)
  have c: "incoming_sources ?G d ''negative_conditioning'' = [\<lparr> node_id = ?NC, field = ''collection'' \<rparr>]"
    using ne
    by (simp add: incoming_sources_def incoming_literal coll filter_enters_copies)
       (simp add: enters_def mk_edge_def)
  have d: "incoming_sources ?G ?NC ''item'' = [source eN]"
    using ne
    by (simp add: incoming_sources_def incoming_literal coll filter_enters_copies nw
          del: map_map)
       (simp add: enters_def mk_edge_def)
  have e: "nodes ?G rid = Some (condNode ?sdxl rid p)"
    by simp
  have f: "filter (\<lambda>e. node_id (destination e) = rid) (edges ?G) = ?m # ?copies"
    using ne
    by (simp add: into_node_addCollectors [OF fresh_r] filter_into_copies)
       (simp add: mk_edge_def)
  have n1: "nodes ?G ?PC = Some (CollectInvocation ?PC)"
    using ne mask_id by (simp add: add_node_def nodes_addCollectors)
  have n2: "nodes ?G ?NC = Some (CollectInvocation ?NC)"
    using ne mask_id by (simp add: add_node_def nodes_addCollectors)
  have n3: "nodes ?G mid = Some (AlphaMaskToTensorInvocation mid image_name)"
    using mask_id by (simp add: add_node_def)
  from run a b c d e f n1 n2 n3 show ?thesis
    by (intro exI [of _ "\<lparr> st_graph = ?G,
                        st_effects = [BlobsRequested [layer_id l],
                                      UploadInitiated (layer_id l @ ''_mask.png'') b] \<rparr>"])
       (simp only: splice_state.simps simp_thms)
qed

theorem positive_only_splice_witness:
  "\<exists>st. run_example [prompt_layer ''vector_mask_layer_1'' ''a dog'' [] Off] True
            [(''vector_mask_layer_1'', [137, 80, 78, 71])] = Some (Returned, st) \<and>
        st_effects st = [BlobsRequested [''vector_mask_layer_1''],
                         UploadInitiated ''vector_mask_layer_1_mask.png''
                           (BlobPart [137, 80, 78, 71])] \<and>
        nodes (st_graph st) ''positive_conditioning_collect''
          = Some (CollectInvocation ''positive_conditioning_collect'') \<and>
        nodes (st_graph st) ''negative_conditioning_collect''
          = Some (CollectInvocation ''negative_conditioning_collect'') \<and>
        nodes (st_graph st) ''prompt_region_mask_to_tensor_vector_mask_layer_1''
          = Some (AlphaMaskToTensorInvocation ''prompt_region_mask_to_tensor_vector_mask_layer_1''
                    ''uploaded_vector_mask_layer_1_mask.png'') \<and>
        incoming_sources (st_graph st) ''denoise_latents'' ''positive_conditioning''
          = [\<lparr> node_id = ''positive_conditioning_collect'', field = ''collection'' \<rparr>] \<and>
        incoming_sources (st_graph st) ''positive_conditioning_collect'' ''item''
          = [\<lparr> node_id = ''positive_conditioning'', field = ''conditioning'' \<rparr>,
             \<lparr> node_id = ''prompt_region_positive_cond_vector_mask_layer_1'',
               field = ''conditioning'' \<rparr>] \<and>
        incoming_sources (st_graph st) ''denoise_latents'' ''negative_conditioning''
          = [\<lparr> node_id = ''negative_conditioning_collect'', field = ''collection'' \<rparr>] \<and>
        incoming_sources (st_graph st) ''negative_conditioning_collect'' ''item''
          = [\<lparr> node_id = ''negative_conditioning'', field = ''conditioning'' \<rparr>] \<and>
        nodes (st_graph st) ''prompt_region_positive_cond_vector_mask_layer_1''
          = Some (CompelInvocation ''prompt_region_positive_cond_vector_mask_layer_1'' ''a dog'') \<and>
        filter (\<lambda>e. node_id (destination e) = ''prompt_region_positive_cond_vector_mask_layer_1'')
          (edges (st_graph st))
          = [mk_edge ''prompt_region_mask_to_tensor_vector_mask_layer_1'' ''mask''
               ''prompt_region_positive_cond_vector_mask_layer_1'' ''mask'',
             mk_edge ''main_model_loader'' ''clip''
               ''prompt_region_positive_cond_vector_mask_layer_1'' ''clip'']"
proof -
  let ?l = "prompt_layer ''vector_mask_layer_1'' ''a dog'' [] Off"
  let ?b = "[137, 80, 78, 71] :: nat list"
  let ?state = "example_root_state [?l] True"
  have enabled: "isEnabled (regionalPrompts_present ?state)"
    by (simp add: example_root_state_facts)
  have one_layer: "filtered_layers ?state = [?l]"
    by (simp add: example_filtered)
  have prompts: "truthy_positive ?l = Some ''a dog''" "truthy_negative ?l = None" "autoNegative ?l = Off"
    by (simp_all add: example_layer_facts)
  have pos_src: "node_id (source (mk_edge ''positive_conditioning'' ''conditioning''
                    ''denoise_latents'' ''positive_conditioning'')) = POSITIVE_CONDITIONING example_constants"
    by (simp add: mk_edge_def example_constants_simps)
  have neg_src: "node_id (source (mk_edge ''negative_conditioning'' ''conditioning''
                    ''denoise_latents'' ''negative_conditioning'')) = NEGATIVE_CONDITIONING example_constants"
    by (simp add: mk_edge_def example_constants_simps)
  have rid: "''prompt_region_positive_cond_vector_mask_layer_1''
               = PROMPT_REGION_POSITIVE_COND_PREFIX example_constants @ ''_'' @ layer_id ?l"
    by (simp add: example_constants_simps example_layer_facts)
  have mid: "''prompt_region_mask_to_tensor_vector_mask_layer_1''
               = PROMPT_REGION_MASK_TO_TENSOR_PREFIX example_constants @ ''_'' @ layer_id ?l"
    by (simp add: example_constants_simps example_layer_facts)
  have fresh: "\<forall>e\<in>set (edges base_graph).
                  node_id (destination e) \<noteq> POSITIVE_CONDITIONING_COLLECT example_constants \<and>
                  node_id (destination e) \<noteq> NEGATIVE_CONDITIONING_COLLECT example_constants \<and>
                  node_id (destination e) \<noteq> ''prompt_region_positive_cond_vector_mask_layer_1''"
    by (simp add: base_graph_def mk_edge_def example_constants_simps)
  have ids: "distinct [''denoise_latents'', POSITIVE_CONDITIONING example_constants,
                       POSITIVE_CONDITIONING_COLLECT example_constants,
                       NEGATIVE_CONDITIONING_COLLECT example_constants,
                       ''prompt_region_positive_cond_vector_mask_layer_1'']"
    by (simp add: example_constants_simps)
  have mask_id:
    "''prompt_region_mask_to_tensor_vector_mask_layer_1'' \<noteq> POSITIVE_CONDITIONING_COLLECT example_constants"
    "''prompt_region_mask_to_tensor_vector_mask_layer_1'' \<noteq> NEGATIVE_CONDITIONING_COLLECT example_constants"
    "''prompt_region_mask_to_tensor_vector_mask_layer_1'' \<noteq> ''prompt_region_positive_cond_vector_mask_layer_1''"
    by (simp_all add: example_constants_simps)
  show ?thesis
    unfolding run_example_def
    using positive_only_splice [where getBlobs = "const_blobs [(''vector_mask_layer_1'', ?b)]"
        and up = example_upload and K = example_constants and g = base_graph,
        OF enabled one_layer prompts example_blob_facts base_graph_wiring(1) pos_src
          base_graph_wiring(2) neg_src rid mid fresh ids mask_id]
    by (simp add: example_constants_simps example_root_state_facts base_graph_wiring condNode_def
          mk_edge_def copied_edge_def example_layer_facts)
qed

subsection \<open>Auto-negative by inversion\<close>

text \<open>The nodes and edges that the same layer adds when its auto-negative policy is
  \<open>invert\<close>.\<close>

lemma addLayerNodes_example_invert:
  "addLayerNodes example_constants False (prompt_layer ''vector_mask_layer_1'' ''a dog'' [] Invert) img
     (addCollectors example_constants ''denoise_latents'' base_graph)
   = Some \<lparr> nodes = (nodes (addCollectors example_constants ''denoise_latents'' base_graph))
                  (''prompt_region_mask_to_tensor_vector_mask_layer_1'' \<mapsto>
                     AlphaMaskToTensorInvocation ''prompt_region_mask_to_tensor_vector_mask_layer_1'' img,
                   ''prompt_region_positive_cond_vector_mask_layer_1'' \<mapsto>
                     CompelInvocation ''prompt_region_positive_cond_vector_mask_layer_1'' ''a dog'',
                   ''prompt_region_invert_tensor_mask_vector_mask_layer_1'' \<mapsto>
                     InvertTensorMaskInvocation ''prompt_region_invert_tensor_mask_vector_mask_layer_1'',
                   ''prompt_region_positive_cond_inverted_vector_mask_layer_1'' \<mapsto>
                     CompelInvocation ''prompt_region_positive_cond_inverted_vector_mask_layer_1''
                       ''a dog''),
            edges =
      [mk_edge ''main_model_loader'' ''clip'' ''positive_conditioning'' ''clip'',
       mk_edge ''main_model_loader'' ''clip'' ''negative_conditioning'' ''clip'',
       mk_edge ''positive_conditioning'' ''conditioning'' ''positive_conditioning_collect'' ''item'',
       mk_edge ''negative_conditioning'' ''conditioning'' ''negative_conditioning_collect'' ''item'',
       mk_edge ''positive_conditioning_collect'' ''collection'' ''denoise_latents'' ''positive_conditioning'',
       mk_edge ''negative_conditioning_collect'' ''collection'' ''denoise_latents'' ''negative_conditioning'',
       mk_edge ''prompt_region_mask_to_tensor_vector_mask_layer_1'' ''mask''
         ''prompt_region_positive_cond_vector_mask_layer_1'' ''mask'',
       mk_edge ''prompt_region_positive_cond_vector_mask_layer_1'' ''conditioning''
         ''positive_conditioning_collect'' ''item'',
       mk_edge ''main_model_loader'' ''clip'' ''prompt_region_positive_cond_vector_mask_layer_1'' ''clip'',
       mk_edge ''prompt_region_mask_to_tensor_vector_mask_layer_1'' ''mask''
         ''prompt_region_invert_tensor_mask_vector_mask_layer_1'' ''mask'',
       mk_edge ''prompt_region_invert_tensor_mask_vector_mask_layer_1'' ''mask''
         ''prompt_region_positive_cond_inverted_vector_mask_layer_1'' ''mask'',
       mk_edge ''prompt_region_positive_cond_inverted_vector_mask_layer_1'' ''conditioning''
         ''negative_conditioning_collect'' ''item'',
       mk_edge ''main_model_loader'' ''clip''
         ''prompt_region_positive_cond_inverted_vector_mask_layer_1'' ''clip''] \<rparr>"
  by (simp add: addLayerNodes_def example_layer_facts Let_def example_constants_simps
        addPositiveCond_Some [OF _ refl refl] addInvertedCond_Some [OF _ refl refl refl]
        add_node_def edges_addCollectors_base_graph
        feeds_global_def copied_edge_def mk_edge_def condNode_def)

text \<open>
  Claim C2 as stated fails. In the scenario with the policy \<open>invert\<close> the negative
  collector has two incoming item edges: from the global negative node, whose edge to the
  denoiser was retargeted to the collector, and from the inverted-mask conditioning node.
\<close>

theorem invert_negative_collector_counterexample:
  "item_sources_after
     (run_example [prompt_layer ''vector_mask_layer_1'' ''a dog'' [] Invert] True
        [(''vector_mask_layer_1'', [137, 80, 78, 71])])
     ''negative_conditioning_collect''
     = Some [\<lparr> node_id = ''negative_conditioning'', field = ''conditioning'' \<rparr>,
             \<lparr> node_id = ''prompt_region_positive_cond_inverted_vector_mask_layer_1'',
               field = ''conditioning'' \<rparr>]"
  by (simp add: run_example_single addLayerNodes_example_invert item_sources_after_def
        incoming_sources_def incoming_def enters_def mk_edge_def)

text \<open>
  Claim C2, amended. Take a base graph in which exactly one edge enters the denoiser's
  negative input, coming from the global negative node \<open>Ng\<close>, and which has no edge yet into
  the two collectors or the inverted conditioning node; let the ids of the denoiser, of the
  global positive node, of the two collectors and of the layer's two conditioning nodes
  differ, the id of the mask inversion node differ from those of the global positive node,
  of the negative collector and of the inverted conditioning node, and the id of the layer's
  mask node differ from that of the negative collector. With the flag on, exactly one layer
  passing the filters, that layer having a positive prompt only and the policy \<open>invert\<close>,
  the blob mapping returned for it having one entry and yielding a value for the layer's id,
  and the upload of that value succeeding, the call returns, after that one upload, a graph
  in which the negative collector is a collect node with exactly two incoming item edges:
  the edge that went from \<open>Ng\<close> to the denoiser, retargeted, and the edge from a new
  conditioning node. That node carries the layer's
  positive prompt, and the edges into it are the edge from the new mask inversion node,
  which the layer's mask feeds, followed by a copy of every edge of the base graph into the
  global positive node other than into its prompt input.
\<close>

theorem invert_splice:
  assumes enabled: "isEnabled (regionalPrompts_present state)"
    and one_layer: "filtered_layers state = [l]"
    and prompts: "truthy_positive l = Some p" "truthy_negative l = None" "autoNegative l = Invert"
    and blob: "size_blobs (getBlobs [layer_id l]) = 1" "get_property (getBlobs [layer_id l]) (layer_id l) = Some b"
    and upload: "up (layer_id l @ ''_mask.png'') b = Inr image_name"
    and neg_wired: "incoming g d ''negative_conditioning'' = [eN]"
      "node_id (source eN) = NEGATIVE_CONDITIONING K"
    and rid: "rid = PROMPT_REGION_POSITIVE_COND_PREFIX K @ ''_'' @ layer_id l"
    and rinv: "rinv = PROMPT_REGION_POSITIVE_COND_INVERTED_PREFIX K @ ''_'' @ layer_id l"
    and iid: "iid = PROMPT_REGION_INVERT_TENSOR_MASK_PREFIX K @ ''_'' @ layer_id l"
    and mid: "mid = PROMPT_REGION_MASK_TO_TENSOR_PREFIX K @ ''_'' @ layer_id l"
    and fresh: "\<forall>e\<in>set (edges g).
                  node_id (destination e) \<noteq> POSITIVE_CONDITIONING_COLLECT K \<and>
                  node_id (destination e) \<noteq> NEGATIVE_CONDITIONING_COLLECT K \<and>
                  node_id (destination e) \<noteq> rinv"
    and ids: "distinct [d, POSITIVE_CONDITIONING K, POSITIVE_CONDITIONING_COLLECT K,
                        NEGATIVE_CONDITIONING_COLLECT K, rid, rinv]"
      "iid \<noteq> POSITIVE_CONDITIONING K" "iid \<noteq> rinv"
    and other_ids: "iid \<noteq> NEGATIVE_CONDITIONING_COLLECT K" "mid \<noteq> NEGATIVE_CONDITIONING_COLLECT K"
  shows "\<exists>st. addRegionalPromptsToGraph K getBlobs up state g d = Some (Returned, st) \<and>
           st_effects st = [BlobsRequested [layer_id l],
                            UploadInitiated (layer_id l @ ''_mask.png'') b] \<and>
           nodes (st_graph st) (NEGATIVE_CONDITIONING_COLLECT K)
             = Some (CollectInvocation (NEGATIVE_CONDITIONING_COLLECT K)) \<and>
           incoming_sources (st_graph st) (NEGATIVE_CONDITIONING_COLLECT K) ''item''
             = [source eN, \<lparr> node_id = rinv, field = ''conditioning'' \<rparr>] \<and>
           nodes (st_graph st) rinv
             = Some (condNode (generation_model_base state = Some ''sdxl'') rinv p) \<and>
           nodes (st_graph st) iid = Some (InvertTensorMaskInvocation iid) \<and>
           mk_edge mid ''mask'' iid ''mask'' \<in> set (edges (st_graph st)) \<and>
           filter (\<lambda>e. node_id (destination e) = rinv) (edges (st_graph st))
             = mk_edge iid ''mask'' rinv ''mask'' #
               map (copied_edge rinv) (filter (feeds_global (POSITIVE_CONDITIONING K)) (edges g))"
proof -
  let ?P = "POSITIVE_CONDITIONING K"
  let ?PC = "POSITIVE_CONDITIONING_COLLECT K"
  let ?NC = "NEGATIVE_CONDITIONING_COLLECT K"
  let ?sdxl = "generation_model_base state = Some ''sdxl''"
  let ?g0 = "addCollectors K d g"
  let ?g1 = "add_node mid (AlphaMaskToTensorInvocation mid image_name) ?g0"
  let ?m = "mk_edge mid ''mask'' rid ''mask''"
  let ?r = "mk_edge rid ''conditioning'' ?PC ''item''"
  let ?fed = "filter (feeds_global ?P) (edges g)"
  let ?G1 = "\<lparr> nodes = (nodes ?g1)(rid \<mapsto> condNode ?sdxl rid p),
               edges = edges ?g0 @ [?m, ?r] @ map (copied_edge rid) ?fed \<rparr>"
  let ?mi = "mk_edge mid ''mask'' iid ''mask''"
  let ?ii = "mk_edge iid ''mask'' rinv ''mask''"
  let ?ri = "mk_edge rinv ''conditioning'' ?NC ''item''"
  let ?G = "\<lparr> nodes = (nodes ?G1)(iid \<mapsto> InvertTensorMaskInvocation iid,
                                   rinv \<mapsto> condNode ?sdxl rinv p),
              edges = (edges ?G1 @ [?mi, ?ii, ?ri]) @ map (copied_edge rinv) ?fed \<rparr>"
  from ids have ne: "?P \<noteq> d" "?P \<noteq> ?PC" "?P \<noteq> ?NC" "rid \<noteq> ?P" "rid \<noteq> ?NC"
    "?PC \<noteq> ?NC" "rinv \<noteq> ?P" "rinv \<noteq> ?NC" "rinv \<noteq> ?PC" "rinv \<noteq> d" "rid \<noteq> rinv"
    "iid \<noteq> ?P" "iid \<noteq> rinv"
    by auto
  have fresh_c: "\<forall>e\<in>set (edges g). node_id (destination e) \<noteq> ?PC \<and> node_id (destination e) \<noteq> ?NC"
    using fresh by simp
  have fresh_r: "\<forall>e\<in>set (edges g). node_id (destination e) \<noteq> rinv"
    using fresh by simp
  have pos: "addPositiveCond K ?sdxl l p mid ?g1 = Some ?G1"
    using positive_block [OF rid ne(1,2,3,4), of ?sdxl p mid "AlphaMaskToTensorInvocation mid image_name" g]
    by simp
  have feeds: "filter (feeds_global ?P) (edges ?G1 @ [?mi, ?ii, ?ri]) = ?fed"
    using ne
    by (simp add: feeds_global_addCollectors filter_feeds_copies)
       (simp add: feeds_global_def mk_edge_def)
  have "PROMPT_REGION_POSITIVE_COND_INVERTED_PREFIX K @ ''_'' @ layer_id l \<noteq> ?P"
    using ne(7) rinv by simp
  then have "addInvertedCond K ?sdxl l p mid ?G1 =
      Some \<lparr> nodes = (nodes ?G1)(iid \<mapsto> InvertTensorMaskInvocation iid,
                                  rinv \<mapsto> condNode ?sdxl rinv p),
             edges = (edges ?G1 @ [?mi, ?ii, ?ri]) @
                     map (copied_edge rinv)
                       (filter (feeds_global ?P) (edges ?G1 @ [?mi, ?ii, ?ri])) \<rparr>"
    using iid rinv by (rule addInvertedCond_Some) (rule refl)
  then have inv: "addInvertedCond K ?sdxl l p mid ?G1 = Some ?G"
    by (simp only: feeds)
  from pos inv have "addLayerNodes K ?sdxl l image_name ?g0 = Some ?G"
    by (simp add: addLayerNodes_def Let_def prompts mid)
  then have run: "addRegionalPromptsToGraph K getBlobs up state g d =
      Some (Returned, \<lparr> st_graph = ?G,
                        st_effects = [BlobsRequested [layer_id l],
                                      UploadInitiated (layer_id l @ ''_mask.png'') b] \<rparr>)"
    by (simp add: run_single_layer [where getBlobs = getBlobs and up = up,
                    OF enabled one_layer blob upload])
  note coll = incoming_collectors [OF fresh_c ne(6), of d]
  have nw: "map source (map (reroute K d) (incoming g d ''negative_conditioning'')) = [source eN]"
    by (simp add: neg_wired source_reroute)
  have a: "incoming_sources ?G ?NC ''item'' = [source eN, \<lparr> node_id = rinv, field = ''conditioning'' \<rparr>]"
    using ne
    by (simp add: incoming_sources_def incoming_literal coll filter_enters_copies nw del: map_map)
       (simp add: enters_def mk_edge_def)
  have b: "nodes ?G rinv = Some (condNode ?sdxl rinv p)"
    by simp
  have c: "nodes ?G iid = Some (InvertTensorMaskInvocation iid)"
    using ne by simp
  have e: "?mi \<in> set (edges ?G)"
    by simp
  have f: "filter (\<lambda>e. node_id (destination e) = rinv) (edges ?G) = ?ii # map (copied_edge rinv) ?fed"
    using ne
    by (simp add: into_node_addCollectors [OF fresh_r] filter_into_copies filter_into_other_copies)
       (simp add: mk_edge_def)
  have n: "nodes ?G ?NC = Some (CollectInvocation ?NC)"
    using ne other_ids by (simp add: add_node_def nodes_addCollectors)
  from run a b c e f n show ?thesis
    by (intro exI [of _ "\<lparr> st_graph = ?G,
                        st_effects = [BlobsRequested [layer_id l],
                                      UploadInitiated (layer_id l @ ''_mask.png'') b] \<rparr>"])
       (simp only: splice_state.simps simp_thms)
qed

theorem invert_splice_witness:
  "\<exists>st. run_example [prompt_layer ''vector_mask_layer_1'' ''a dog'' [] Invert] True
            [(''vector_mask_layer_1'', [137, 80, 78, 71])] = Some (Returned, st) \<and>
        st_effects st = [BlobsRequested [''vector_mask_layer_1''],
                         UploadInitiated ''vector_mask_layer_1_mask.png''
                           (BlobPart [137, 80, 78, 71])] \<and>
        nodes (st_graph st) ''negative_conditioning_collect''
          = Some (CollectInvocation ''negative_conditioning_collect'') \<and>
        incoming_sources (st_graph st) ''negative_conditioning_collect'' ''item''
          = [\<lparr> node_id = ''negative_conditioning'', field = ''conditioning'' \<rparr>,
             \<lparr> node_id = ''prompt_region_positive_cond_inverted_vector_mask_layer_1'',
               field = ''conditioning'' \<rparr>] \<and>
        nodes (st_graph st) ''prompt_region_positive_cond_inverted_vector_mask_layer_1''
          = Some (CompelInvocation ''prompt_region_positive_cond_inverted_vector_mask_layer_1''
                    ''a dog'') \<and>
        nodes (st_graph st) ''prompt_region_invert_tensor_mask_vector_mask_layer_1''
          = Some (InvertTensorMaskInvocation ''prompt_region_invert_tensor_mask_vector_mask_layer_1'') \<and>
        mk_edge ''prompt_region_mask_to_tensor_vector_mask_layer_1'' ''mask''
          ''prompt_region_invert_tensor_mask_vector_mask_layer_1'' ''mask'' \<in> set (edges (st_graph st)) \<and>
        filter (\<lambda>e. node_id (destination e) = ''prompt_region_positive_cond_inverted_vector_mask_layer_1'')
          (edges (st_graph st))
          = [mk_edge ''prompt_region_invert_tensor_mask_vector_mask_layer_1'' ''mask''
               ''prompt_region_positive_cond_inverted_vector_mask_layer_1'' ''mask'',
             mk_edge ''main_model_loader'' ''clip''
               ''prompt_region_positive_cond_inverted_vector_mask_layer_1'' ''clip'']"
proof -
  let ?l = "prompt_layer ''vector_mask_layer_1'' ''a dog'' [] Invert"
  let ?b = "[137, 80, 78, 71] :: nat list"
  let ?state = "example_root_state [?l] True"
  have enabled: "isEnabled (regionalPrompts_present ?state)"
    by (simp add: example_root_state_facts)
  have one_layer: "filtered_layers ?state = [?l]"
    by (simp add: example_filtered)
  have prompts: "truthy_positive ?l = Some ''a dog''" "truthy_negative ?l = None" "autoNegative ?l = Invert"
    by (simp_all add: example_layer_facts)
  have neg_src: "node_id (source (mk_edge ''negative_conditioning'' ''conditioning''
                    ''denoise_latents'' ''negative_conditioning'')) = NEGATIVE_CONDITIONING example_constants"
    by (simp add: mk_edge_def example_constants_simps)
  have rid: "''prompt_region_positive_cond_vector_mask_layer_1''
               = PROMPT_REGION_POSITIVE_COND_PREFIX example_constants @ ''_'' @ layer_id ?l"
    by (simp add: example_constants_simps example_layer_facts)
  have rinv: "''prompt_region_positive_cond_inverted_vector_mask_layer_1''
               = PROMPT_REGION_POSITIVE_COND_INVERTED_PREFIX example_constants @ ''_'' @ layer_id ?l"
    by (simp add: example_constants_simps example_layer_facts)
  have iid: "''prompt_region_invert_tensor_mask_vector_mask_layer_1''
               = PROMPT_REGION_INVERT_TENSOR_MASK_PREFIX example_constants @ ''_'' @ layer_id ?l"
    by (simp add: example_constants_simps example_layer_facts)
  have mid: "''prompt_region_mask_to_tensor_vector_mask_layer_1''
               = PROMPT_REGION_MASK_TO_TENSOR_PREFIX example_constants @ ''_'' @ layer_id ?l"
    by (simp add: example_constants_simps example_layer_facts)
  have fresh: "\<forall>e\<in>set (edges base_graph).
                  node_id (destination e) \<noteq> POSITIVE_CONDITIONING_COLLECT example_constants \<and>
                  node_id (destination e) \<noteq> NEGATIVE_CONDITIONING_COLLECT example_constants \<and>
                  node_id (destination e) \<noteq> ''prompt_region_positive_cond_inverted_vector_mask_layer_1''"
    by (simp add: base_graph_def mk_edge_def example_constants_simps)
  have ids: "distinct [''denoise_latents'', POSITIVE_CONDITIONING example_constants,
                       POSITIVE_CONDITIONING_COLLECT example_constants,
                       NEGATIVE_CONDITIONING_COLLECT example_constants,
                       ''prompt_region_positive_cond_vector_mask_layer_1'',
                       ''prompt_region_positive_cond_inverted_vector_mask_layer_1'']"
    "''prompt_region_invert_tensor_mask_vector_mask_layer_1'' \<noteq> POSITIVE_CONDITIONING example_constants"
    "''prompt_region_invert_tensor_mask_vector_mask_layer_1''
       \<noteq> ''prompt_region_positive_cond_inverted_vector_mask_layer_1''"
    by (simp_all add: example_constants_simps)
  have other_ids:
    "''prompt_region_invert_tensor_mask_vector_mask_layer_1'' \<noteq> NEGATIVE_CONDITIONING_COLLECT example_constants"
    "''prompt_region_mask_to_tensor_vector_mask_layer_1'' \<noteq> NEGATIVE_CONDITIONING_COLLECT example_constants"
    by (simp_all add: example_constants_simps)
  show ?thesis
    unfolding run_example_def
    using invert_splice [where getBlobs = "const_blobs [(''vector_mask_layer_1'', ?b)]"
        and up = example_upload and K = example_constants and g = base_graph,
        OF enabled one_layer prompts example_blob_facts base_graph_wiring(2) neg_src
          rid rinv iid mid fresh ids other_ids]
    by (simp add: example_constants_simps example_root_state_facts base_graph_wiring condNode_def
          mk_edge_def copied_edge_def example_layer_facts)
qed

subsection \<open>Missing blobs\<close>

lemma processLayer_missing_blob:
  "get_property bs (layer_id l) = None \<Longrightarrow>
   processLayer K up sdxl bs l st =
     Some (Threw (AssertionError (''Blob for layer '' @ layer_id l @ '' not found'')), st)"
  by (simp add: processLayer_def)

lemma processLayer_upload_fails:
  "get_property bs (layer_id l) = Some part \<Longrightarrow> up (layer_id l @ ''_mask.png'') part = Inl e \<Longrightarrow>
   processLayer K up sdxl bs l st =
     Some (Threw e, st\<lparr>st_effects := st_effects st @ [UploadInitiated (layer_id l @ ''_mask.png'') part]\<rparr>)"
  by (simp add: processLayer_def Let_def)

lemma processLayers_append:
  "processLayers K up sdxl bs (pre @ rest) st =
     (case processLayers K up sdxl bs pre st of
        None \<Rightarrow> None
      | Some (Threw e, st') \<Rightarrow> Some (Threw e, st')
      | Some (Returned, st') \<Rightarrow> processLayers K up sdxl bs rest st')"
proof (induction pre arbitrary: st)
  case Nil
  show ?case by simp
next
  case (Cons l pre)
  show ?case
  proof (cases "processLayer K up sdxl bs l st")
    case None
    then show ?thesis by simp
  next
    case (Some r)
    obtain out st1 where r: "r = (out, st1)" by (cases r)
    show ?thesis
      by (cases out) (simp_all add: Some r Cons.IH)
  qed
qed

lemma processLayer_Returned_blob:
  "processLayer K up sdxl bs l st = Some (Returned, st') \<Longrightarrow> get_property bs (layer_id l) \<noteq> None"
  by (cases "get_property bs (layer_id l)") (simp_all add: processLayer_def)

lemma processLayers_Returned_blobs:
  "processLayers K up sdxl bs ls st = Some (Returned, st') \<Longrightarrow>
   \<forall>l\<in>set ls. get_property bs (layer_id l) \<noteq> None"
proof (induction ls arbitrary: st)
  case Nil
  show ?case by simp
next
  case (Cons l ls)
  from Cons.prems obtain st1 where 1: "processLayer K up sdxl bs l st = Some (Returned, st1)"
    and 2: "processLayers K up sdxl bs ls st1 = Some (Returned, st')"
    by (auto split: option.splits outcome.splits)
  from processLayer_Returned_blob [OF 1] Cons.IH [OF 2] show ?case by simp
qed

subsection \<open>What the turns of the layers before a failure leave in the graph\<close>

lemma grows_refl: "grows {} g g"
  by (simp add: grows_def)

lemma grows_trans:
  assumes "grows A g G" and "grows B G H"
  shows "grows (A \<union> B) g H"
proof -
  from assms have p1: "prefix (edges g) (edges G)" and p2: "prefix (edges G) (edges H)"
    and d1: "dom (nodes g) \<subseteq> dom (nodes G)" and d2: "dom (nodes G) \<subseteq> dom (nodes H)"
    and u1: "dom (nodes G) \<subseteq> dom (nodes g) \<union> A" and u2: "dom (nodes H) \<subseteq> dom (nodes G) \<union> B"
    by (simp_all add: grows_def)
  from p1 p2 have "prefix (edges g) (edges H)"
    by (rule prefix_order.trans)
  moreover from d1 d2 have "dom (nodes g) \<subseteq> dom (nodes H)"
    by (rule subset_trans)
  moreover from u1 u2 have "dom (nodes H) \<subseteq> dom (nodes g) \<union> (A \<union> B)"
    by blast
  ultimately show ?thesis
    by (simp add: grows_def)
qed

lemma grows_mono: "grows A g G \<Longrightarrow> A \<subseteq> B \<Longrightarrow> grows B g G"
  unfolding grows_def by blast

lemma grows_add_node: "grows {n} g (add_node n v g)"
  by (auto simp: grows_def add_node_def)

lemma grows_addPositiveCond:
  assumes "PROMPT_REGION_POSITIVE_COND_PREFIX K @ ''_'' @ layer_id l \<noteq> POSITIVE_CONDITIONING K"
  shows "\<exists>G. addPositiveCond K sdxl l p mid g = Some G \<and>
             grows {PROMPT_REGION_POSITIVE_COND_PREFIX K @ ''_'' @ layer_id l} g G"
  unfolding addPositiveCond_Some [OF assms refl refl]
  by (auto simp: grows_def)

lemma grows_addNegativeCond:
  assumes "PROMPT_REGION_NEGATIVE_COND_PREFIX K @ ''_'' @ layer_id l \<noteq> NEGATIVE_CONDITIONING K"
  shows "\<exists>G. addNegativeCond K sdxl l p mid g = Some G \<and>
             grows {PROMPT_REGION_NEGATIVE_COND_PREFIX K @ ''_'' @ layer_id l} g G"
  unfolding addNegativeCond_Some [OF assms refl refl]
  by (auto simp: grows_def)

lemma grows_addInvertedCond:
  assumes "PROMPT_REGION_POSITIVE_COND_INVERTED_PREFIX K @ ''_'' @ layer_id l \<noteq> POSITIVE_CONDITIONING K"
  shows "\<exists>G. addInvertedCond K sdxl l p mid g = Some G \<and>
             grows {PROMPT_REGION_INVERT_TENSOR_MASK_PREFIX K @ ''_'' @ layer_id l,
                    PROMPT_REGION_POSITIVE_COND_INVERTED_PREFIX K @ ''_'' @ layer_id l} g G"
  unfolding addInvertedCond_Some [OF assms refl refl refl]
  by (auto simp: grows_def)

text \<open>The nodes of one layer: the call returns when the three copy loops end, only
  appends edges, and only inserts nodes under the layer's ids, the mask node among them.\<close>

lemma grows_addLayerNodes:
  assumes "copy_loops_end K l"
  shows "\<exists>G. addLayerNodes K sdxl l img g = Some G \<and> grows (set (layer_node_ids K l)) g G \<and>
             PROMPT_REGION_MASK_TO_TENSOR_PREFIX K @ ''_'' @ layer_id l \<in> dom (nodes G)"
proof -
  let ?mid = "PROMPT_REGION_MASK_TO_TENSOR_PREFIX K @ ''_'' @ layer_id l"
  let ?ids = "set (layer_node_ids K l)"
  let ?g1 = "add_node ?mid (AlphaMaskToTensorInvocation ?mid img) g"
  from assms have ends:
    "PROMPT_REGION_POSITIVE_COND_PREFIX K @ ''_'' @ layer_id l \<noteq> POSITIVE_CONDITIONING K"
    "PROMPT_REGION_NEGATIVE_COND_PREFIX K @ ''_'' @ layer_id l \<noteq> NEGATIVE_CONDITIONING K"
    "PROMPT_REGION_POSITIVE_COND_INVERTED_PREFIX K @ ''_'' @ layer_id l \<noteq> POSITIVE_CONDITIONING K"
    by (simp_all add: copy_loops_end_def)
  have 1: "grows ?ids g ?g1" and m1: "?mid \<in> dom (nodes ?g1)"
    by (auto simp: grows_def add_node_def layer_node_ids_def)
  obtain g2 where 2: "(case truthy_positive l of None \<Rightarrow> Some ?g1
                       | Some p \<Rightarrow> addPositiveCond K sdxl l p ?mid ?g1) = Some g2"
    and g2: "grows ?ids ?g1 g2"
  proof (cases "truthy_positive l")
    case None
    show ?thesis
      by (rule that [of ?g1]) (simp_all add: None grows_def)
  next
    case (Some p)
    from grows_addPositiveCond [OF ends(1), of sdxl p ?mid ?g1]
    obtain G where "addPositiveCond K sdxl l p ?mid ?g1 = Some G"
      and "grows {PROMPT_REGION_POSITIVE_COND_PREFIX K @ ''_'' @ layer_id l} ?g1 G"
      by blast
    then show ?thesis
      by (intro that [of G]) (simp_all add: Some grows_mono layer_node_ids_def)
  qed
  obtain g3 where 3: "(case truthy_negative l of None \<Rightarrow> Some g2
                       | Some n \<Rightarrow> addNegativeCond K sdxl l n ?mid g2) = Some g3"
    and g3: "grows ?ids g2 g3"
  proof (cases "truthy_negative l")
    case None
    show ?thesis
      by (rule that [of g2]) (simp_all add: None grows_def)
  next
    case (Some n)
    from grows_addNegativeCond [OF ends(2), of sdxl n ?mid g2]
    obtain G where "addNegativeCond K sdxl l n ?mid g2 = Some G"
      and "grows {PROMPT_REGION_NEGATIVE_COND_PREFIX K @ ''_'' @ layer_id l} g2 G"
      by blast
    then show ?thesis
      by (intro that [of G]) (simp_all add: Some grows_mono layer_node_ids_def)
  qed
  obtain g4 where 4: "(case truthy_positive l of None \<Rightarrow> Some g3
                       | Some p \<Rightarrow> if autoNegative l = Invert
                                   then addInvertedCond K sdxl l p ?mid g3 else Some g3) = Some g4"
    and g4: "grows ?ids g3 g4"
  proof (cases "truthy_positive l")
    case None
    show ?thesis
      by (rule that [of g3]) (simp_all add: None grows_def)
  next
    case (Some p)
    show ?thesis
    proof (cases "autoNegative l = Invert")
      case False
      show ?thesis
        by (rule that [of g3]) (simp_all add: Some False grows_def)
    next
      case True
      from grows_addInvertedCond [OF ends(3), of sdxl p ?mid g3]
      obtain G where "addInvertedCond K sdxl l p ?mid g3 = Some G"
        and "grows {PROMPT_REGION_INVERT_TENSOR_MASK_PREFIX K @ ''_'' @ layer_id l,
                    PROMPT_REGION_POSITIVE_COND_INVERTED_PREFIX K @ ''_'' @ layer_id l} g3 G"
        by blast
      then show ?thesis
        by (intro that [of G]) (simp_all add: Some True grows_mono layer_node_ids_def)
    qed
  qed
  have run: "addLayerNodes K sdxl l img g = Some g4"
    by (simp only: addLayerNodes_def Let_def 2 3 4 Option.bind.simps)
  have "grows (?ids \<union> ?ids) g g2"
    using 1 g2 by (rule grows_trans)
  then have "grows ?ids g g2" by simp
  then have "grows (?ids \<union> ?ids) g g3"
    using g3 by (rule grows_trans)
  then have "grows ?ids g g3" by simp
  then have "grows (?ids \<union> ?ids) g g4"
    using g4 by (rule grows_trans)
  then have G: "grows ?ids g g4" by simp
  from g2 g3 g4 have "dom (nodes ?g1) \<subseteq> dom (nodes g2)" "dom (nodes g2) \<subseteq> dom (nodes g3)"
    "dom (nodes g3) \<subseteq> dom (nodes g4)"
    by (simp_all add: grows_def)
  then have "dom (nodes ?g1) \<subseteq> dom (nodes g4)"
    by (meson subset_trans)
  with m1 have "?mid \<in> dom (nodes g4)" by blast
  with run G show ?thesis by blast
qed

lemma upload_succeeds_D:
  assumes "upload_succeeds up bs l"
  obtains part img where "get_property bs (layer_id l) = Some part"
    and "up (layer_id l @ ''_mask.png'') part = Inr img"
  using assms by (auto simp: upload_succeeds_def split: option.splits sum.splits)

lemma processLayer_returns:
  assumes "copy_loops_end K l" and "upload_succeeds up bs l"
  shows "\<exists>G. processLayer K up sdxl bs l st =
               Some (Returned, \<lparr> st_graph = G, st_effects = st_effects st @ upload_of bs l \<rparr>) \<and>
             grows (set (layer_node_ids K l)) (st_graph st) G \<and>
             PROMPT_REGION_MASK_TO_TENSOR_PREFIX K @ ''_'' @ layer_id l \<in> dom (nodes G)"
proof -
  from assms(2) obtain part img where p: "get_property bs (layer_id l) = Some part"
    and u: "up (layer_id l @ ''_mask.png'') part = Inr img"
    by (rule upload_succeeds_D)
  from grows_addLayerNodes [OF assms(1), of sdxl img "st_graph st"]
  obtain G where G: "addLayerNodes K sdxl l img (st_graph st) = Some G"
    and g: "grows (set (layer_node_ids K l)) (st_graph st) G"
    and m: "PROMPT_REGION_MASK_TO_TENSOR_PREFIX K @ ''_'' @ layer_id l \<in> dom (nodes G)"
    by blast
  have "processLayer K up sdxl bs l st =
          Some (Returned, \<lparr> st_graph = G, st_effects = st_effects st @ upload_of bs l \<rparr>)"
    by (simp add: processLayer_def Let_def p u G upload_of_def)
  with g m show ?thesis by blast
qed

lemma processLayers_returns:
  assumes "\<forall>l\<in>set ls. copy_loops_end K l \<and> upload_succeeds up bs l"
  shows "\<exists>G. processLayers K up sdxl bs ls st =
               Some (Returned,
                     \<lparr> st_graph = G, st_effects = st_effects st @ concat (map (upload_of bs) ls) \<rparr>) \<and>
             grows (\<Union>l\<in>set ls. set (layer_node_ids K l)) (st_graph st) G \<and>
             (\<forall>l\<in>set ls. PROMPT_REGION_MASK_TO_TENSOR_PREFIX K @ ''_'' @ layer_id l \<in> dom (nodes G))"
  using assms
proof (induction ls arbitrary: st)
  case Nil
  have "processLayers K up sdxl bs [] st =
      Some (Returned, \<lparr> st_graph = st_graph st, st_effects = st_effects st @ concat (map (upload_of bs) []) \<rparr>)"
    by simp
  then show ?case
    by (intro exI [of _ "st_graph st"]) (simp add: grows_refl)
next
  case (Cons l ls)
  from Cons.prems have l: "copy_loops_end K l" "upload_succeeds up bs l"
    and rest: "\<forall>l\<in>set ls. copy_loops_end K l \<and> upload_succeeds up bs l"
    by simp_all
  let ?mask = "\<lambda>l. PROMPT_REGION_MASK_TO_TENSOR_PREFIX K @ ''_'' @ layer_id l"
  from processLayer_returns [OF l, of sdxl st]
  obtain G1 where 1: "processLayer K up sdxl bs l st =
        Some (Returned, \<lparr> st_graph = G1, st_effects = st_effects st @ upload_of bs l \<rparr>)"
    and g1: "grows (set (layer_node_ids K l)) (st_graph st) G1"
    and m1: "?mask l \<in> dom (nodes G1)"
    by blast
  let ?st1 = "\<lparr> st_graph = G1, st_effects = st_effects st @ upload_of bs l \<rparr>"
  from Cons.IH [OF rest, of ?st1]
  obtain G where 2: "processLayers K up sdxl bs ls ?st1 =
        Some (Returned, \<lparr> st_graph = G,
                          st_effects = st_effects ?st1 @ concat (map (upload_of bs) ls) \<rparr>)"
    and g2: "grows (\<Union>l\<in>set ls. set (layer_node_ids K l)) (st_graph ?st1) G"
    and m2: "\<forall>l\<in>set ls. ?mask l \<in> dom (nodes G)"
    by blast
  have run: "processLayers K up sdxl bs (l # ls) st =
      Some (Returned, \<lparr> st_graph = G,
                        st_effects = st_effects st @ concat (map (upload_of bs) (l # ls)) \<rparr>)"
    by (simp add: 1 2)
  from g2 have g2': "grows (\<Union>l\<in>set ls. set (layer_node_ids K l)) G1 G" by simp
  have g: "grows (\<Union>l\<in>set (l # ls). set (layer_node_ids K l)) (st_graph st) G"
    using grows_trans [OF g1 g2'] by simp
  from g2' have "dom (nodes G1) \<subseteq> dom (nodes G)"
    by (simp add: grows_def)
  with m1 have "?mask l \<in> dom (nodes G)" by blast
  with m2 have m: "\<forall>l\<in>set (l # ls). ?mask l \<in> dom (nodes G)" by simp
  from run g m show ?case by blast
qed

subsection \<open>A blob mapping that does not fit the layers\<close>

lemma two_layers_filtered:
  "p1 \<noteq> [] \<Longrightarrow> p2 \<noteq> [] \<Longrightarrow>
   filtered_layers (example_root_state [prompt_layer i1 p1 n1 a1, prompt_layer i2 p2 n2 a2] True)
     = [prompt_layer i1 p1 n1 a1, prompt_layer i2 p2 n2 a2]"
  by (simp add: filtered_layers_def example_root_state_facts example_layer_facts)

text \<open>
  Claim C6 as stated fails. Two layers pass the filters; the blob mapping has two entries,
  one for the first layer and one under a key that is no layer's id, so it omits the second
  layer's entry. When the upload of the first layer's mask fails, the call aborts with the
  upload's error, not with an assertion error: the second layer's assertion is never
  reached.
\<close>

theorem missing_blob_assertion_counterexample:
  "filtered_layers
     (example_root_state [prompt_layer ''vector_mask_layer_1'' ''a dog'' [] Off,
                          prompt_layer ''vector_mask_layer_2'' ''a cat'' [] Off] True)
     = [prompt_layer ''vector_mask_layer_1'' ''a dog'' [] Off,
        prompt_layer ''vector_mask_layer_2'' ''a cat'' [] Off] \<and>
   size_blobs [(''vector_mask_layer_1'', [137, 80, 78, 71]), (''stray'', [0])] = 2 \<and>
   get_property [(''vector_mask_layer_1'', [137, 80, 78, 71]), (''stray'', [0])]
     ''vector_mask_layer_2'' = None \<and>
   run_example_with failing_upload
     [prompt_layer ''vector_mask_layer_1'' ''a dog'' [] Off,
      prompt_layer ''vector_mask_layer_2'' ''a cat'' [] Off]
     [(''vector_mask_layer_1'', [137, 80, 78, 71]), (''stray'', [0])]
     = Some (Threw (UploadError ''network error''),
             \<lparr> st_graph = addCollectors example_constants ''denoise_latents'' base_graph,
               st_effects = [BlobsRequested [''vector_mask_layer_1'', ''vector_mask_layer_2''],
                             UploadInitiated ''vector_mask_layer_1_mask.png''
                               (BlobPart [137, 80, 78, 71])] \<rparr>)"
  by (simp add: two_layers_filtered size_blobs_def get_property_def Object_prototype_keys_def
        run_example_with_def addRegionalPromptsToGraph_def example_root_state_facts Let_def
        const_blobs_def example_layer_facts processLayer_def failing_upload_def)

text \<open>
  Claim C6, amended. Let the flag be on, \<open>ls\<close> be the filtered layers, \<open>bs\<close> the blob mapping
  returned for their ids and \<open>g0\<close> the graph with its collectors set up.
  \<^item> If the number of entries of \<open>bs\<close> is not the number of ids, the call throws the
    assertion error of the count check; the graph is untouched and nothing is uploaded.
  \<^item> If the counts agree, the lookup of the layer \<open>l\<close> in \<open>bs\<close> finds nothing, and for
    every filtered layer before \<open>l\<close> the lookup finds a value, its upload succeeds and the
    layer's conditioning node ids are not those of the global conditioning nodes, then the
    call throws the assertion error for \<open>l\<close>. The uploads initiated are those of the layers
    before \<open>l\<close>, one each, and none for \<open>l\<close>. The graph left behind is the very graph
    that the turns of the layers before \<open>l\<close> produce from \<open>g0\<close>, and these return. It
    extends \<open>g0\<close> by nodes under the ids of the layers before \<open>l\<close> only: the collectors, the
    re-routed edges and what the earlier layers added stay, each earlier layer's mask node
    among it, and no node is inserted for \<open>l\<close>.
  \<^item> If instead the lookup of \<open>l\<close> finds a value and its upload fails, the layers before
    \<open>l\<close> being as above, the call throws the upload's error, after initiating that upload,
    with the same graph left behind.
  \<^item> Whenever the lookup of some filtered layer finds nothing, the call does not return
    normally.
\<close>

theorem blob_mismatch_aborts:
  assumes "isEnabled (regionalPrompts_present state)"
    and "ls = filtered_layers state"
    and "bs = getRegionalPromptLayerBlobs (map layer_id ls)"
    and "g0 = addCollectors K denoiseNodeId g"
  shows "(size_blobs bs \<noteq> length ls \<longrightarrow>
            addRegionalPromptsToGraph K getRegionalPromptLayerBlobs uploadImage state g denoiseNodeId
              = Some (Threw (AssertionError ''Mismatch between layer IDs and blobs''),
                      \<lparr> st_graph = g, st_effects = [BlobsRequested (map layer_id ls)] \<rparr>)) \<and>
         (\<forall>pre l post.
            size_blobs bs = length ls \<and> ls = pre @ l # post \<and>
            get_property bs (layer_id l) = None \<and>
            (\<forall>l'\<in>set pre. copy_loops_end K l' \<and> upload_succeeds uploadImage bs l') \<longrightarrow>
            (\<exists>G. addRegionalPromptsToGraph K getRegionalPromptLayerBlobs uploadImage state g
                    denoiseNodeId
                  = Some (Threw (AssertionError (''Blob for layer '' @ layer_id l @ '' not found'')),
                          \<lparr> st_graph = G,
                            st_effects = BlobsRequested (map layer_id ls) #
                                         concat (map (upload_of bs) pre) \<rparr>) \<and>
                 processLayers K uploadImage (generation_model_base state = Some ''sdxl'') bs pre
                   \<lparr> st_graph = g0, st_effects = [BlobsRequested (map layer_id ls)] \<rparr>
                  = Some (Returned,
                          \<lparr> st_graph = G,
                            st_effects = BlobsRequested (map layer_id ls) #
                                         concat (map (upload_of bs) pre) \<rparr>) \<and>
                 grows (\<Union>l'\<in>set pre. set (layer_node_ids K l')) g0 G \<and>
                 (\<forall>l'\<in>set pre.
                    PROMPT_REGION_MASK_TO_TENSOR_PREFIX K @ ''_'' @ layer_id l' \<in> dom (nodes G)))) \<and>
         (\<forall>pre l post part e.
            size_blobs bs = length ls \<and> ls = pre @ l # post \<and>
            get_property bs (layer_id l) = Some part \<and>
            uploadImage (layer_id l @ ''_mask.png'') part = Inl e \<and>
            (\<forall>l'\<in>set pre. copy_loops_end K l' \<and> upload_succeeds uploadImage bs l') \<longrightarrow>
            (\<exists>G. addRegionalPromptsToGraph K getRegionalPromptLayerBlobs uploadImage state g
                    denoiseNodeId
                  = Some (Threw e,
                          \<lparr> st_graph = G,
                            st_effects = BlobsRequested (map layer_id ls) #
                                         concat (map (upload_of bs) pre) @
                                         [UploadInitiated (layer_id l @ ''_mask.png'') part] \<rparr>) \<and>
                 processLayers K uploadImage (generation_model_base state = Some ''sdxl'') bs pre
                   \<lparr> st_graph = g0, st_effects = [BlobsRequested (map layer_id ls)] \<rparr>
                  = Some (Returned,
                          \<lparr> st_graph = G,
                            st_effects = BlobsRequested (map layer_id ls) #
                                         concat (map (upload_of bs) pre) \<rparr>) \<and>
                 grows (\<Union>l'\<in>set pre. set (layer_node_ids K l')) g0 G)) \<and>
         ((\<exists>l\<in>set ls. get_property bs (layer_id l) = None) \<longrightarrow>
            (\<forall>st. addRegionalPromptsToGraph K getRegionalPromptLayerBlobs uploadImage state g
                    denoiseNodeId \<noteq> Some (Returned, st)))"
proof -
  let ?sdxl = "generation_model_base state = Some ''sdxl''"
  let ?run = "addRegionalPromptsToGraph K getRegionalPromptLayerBlobs uploadImage state g denoiseNodeId"
  let ?st1 = "\<lparr> st_graph = g0, st_effects = [BlobsRequested (map layer_id ls)] \<rparr>"
  have run: "size_blobs bs = length ls \<Longrightarrow> ?run = processLayers K uploadImage ?sdxl bs ls ?st1"
    using assms by (simp add: addRegionalPromptsToGraph_def Let_def)
  have before: "\<exists>G. processLayers K uploadImage ?sdxl bs pre ?st1 =
                   Some (Returned,
                         \<lparr> st_graph = G,
                           st_effects = BlobsRequested (map layer_id ls) #
                                        concat (map (upload_of bs) pre) \<rparr>) \<and>
                 grows (\<Union>l'\<in>set pre. set (layer_node_ids K l')) g0 G \<and>
                 (\<forall>l'\<in>set pre.
                    PROMPT_REGION_MASK_TO_TENSOR_PREFIX K @ ''_'' @ layer_id l' \<in> dom (nodes G))"
    if "\<forall>l'\<in>set pre. copy_loops_end K l' \<and> upload_succeeds uploadImage bs l'" for pre
    using processLayers_returns [OF that, of ?sdxl ?st1] by simp
  show ?thesis
  proof (intro conjI impI allI)
    assume "size_blobs bs \<noteq> length ls"
    with assms show "?run = Some (Threw (AssertionError ''Mismatch between layer IDs and blobs''),
                      \<lparr> st_graph = g, st_effects = [BlobsRequested (map layer_id ls)] \<rparr>)"
      by (simp add: addRegionalPromptsToGraph_def Let_def)
  next
    fix pre l post
    assume a: "size_blobs bs = length ls \<and> ls = pre @ l # post \<and>
            get_property bs (layer_id l) = None \<and>
            (\<forall>l'\<in>set pre. copy_loops_end K l' \<and> upload_succeeds uploadImage bs l')"
    then have ok: "\<forall>l'\<in>set pre. copy_loops_end K l' \<and> upload_succeeds uploadImage bs l'"
      and ls: "ls = pre @ l # post" and miss: "get_property bs (layer_id l) = None"
      and sz: "size_blobs bs = length ls"
      by simp_all
    from before [OF ok] obtain G where
      1: "processLayers K uploadImage ?sdxl bs pre ?st1 =
            Some (Returned,
                  \<lparr> st_graph = G,
                    st_effects = BlobsRequested (map layer_id ls) # concat (map (upload_of bs) pre) \<rparr>)"
      and 2: "grows (\<Union>l'\<in>set pre. set (layer_node_ids K l')) g0 G"
      and 3: "\<forall>l'\<in>set pre. PROMPT_REGION_MASK_TO_TENSOR_PREFIX K @ ''_'' @ layer_id l' \<in> dom (nodes G)"
      by blast
    have "processLayers K uploadImage ?sdxl bs (pre @ l # post) ?st1 =
            Some (Threw (AssertionError (''Blob for layer '' @ layer_id l @ '' not found'')),
                  \<lparr> st_graph = G,
                    st_effects = BlobsRequested (map layer_id ls) # concat (map (upload_of bs) pre) \<rparr>)"
      by (simp only: processLayers_append 1 option.case prod.case outcome.case
            processLayers.simps processLayer_missing_blob [OF miss])
    then have "?run =
            Some (Threw (AssertionError (''Blob for layer '' @ layer_id l @ '' not found'')),
                  \<lparr> st_graph = G,
                    st_effects = BlobsRequested (map layer_id ls) # concat (map (upload_of bs) pre) \<rparr>)"
      using run [OF sz] ls by simp
    with 1 2 3 show "\<exists>G. ?run
                  = Some (Threw (AssertionError (''Blob for layer '' @ layer_id l @ '' not found'')),
                          \<lparr> st_graph = G,
                            st_effects = BlobsRequested (map layer_id ls) #
                                         concat (map (upload_of bs) pre) \<rparr>) \<and>
                 processLayers K uploadImage (generation_model_base state = Some ''sdxl'') bs pre
                   \<lparr> st_graph = g0, st_effects = [BlobsRequested (map layer_id ls)] \<rparr>
                  = Some (Returned,
                          \<lparr> st_graph = G,
                            st_effects = BlobsRequested (map layer_id ls) #
                                         concat (map (upload_of bs) pre) \<rparr>) \<and>
                 grows (\<Union>l'\<in>set pre. set (layer_node_ids K l')) g0 G \<and>
                 (\<forall>l'\<in>set pre.
                    PROMPT_REGION_MASK_TO_TENSOR_PREFIX K @ ''_'' @ layer_id l' \<in> dom (nodes G))"
      by blast
  next
    fix pre l post part e
    assume a: "size_blobs bs = length ls \<and> ls = pre @ l # post \<and>
            get_property bs (layer_id l) = Some part \<and>
            uploadImage (layer_id l @ ''_mask.png'') part = Inl e \<and>
            (\<forall>l'\<in>set pre. copy_loops_end K l' \<and> upload_succeeds uploadImage bs l')"
    then have ok: "\<forall>l'\<in>set pre. copy_loops_end K l' \<and> upload_succeeds uploadImage bs l'"
      and ls: "ls = pre @ l # post" and part: "get_property bs (layer_id l) = Some part"
      and fails: "uploadImage (layer_id l @ ''_mask.png'') part = Inl e"
      and sz: "size_blobs bs = length ls"
      by simp_all
    from before [OF ok] obtain G where
      1: "processLayers K uploadImage ?sdxl bs pre ?st1 =
            Some (Returned,
                  \<lparr> st_graph = G,
                    st_effects = BlobsRequested (map layer_id ls) # concat (map (upload_of bs) pre) \<rparr>)"
      and 2: "grows (\<Union>l'\<in>set pre. set (layer_node_ids K l')) g0 G"
      by blast
    have "processLayers K uploadImage ?sdxl bs (pre @ l # post) ?st1 =
            Some (Threw e,
                  \<lparr> st_graph = G,
                    st_effects = BlobsRequested (map layer_id ls) # concat (map (upload_of bs) pre) @
                                 [UploadInitiated (layer_id l @ ''_mask.png'') part] \<rparr>)"
      by (simp add: processLayers_append 1
            processLayer_upload_fails [where up = uploadImage, OF part fails])
    then have "?run =
            Some (Threw e,
                  \<lparr> st_graph = G,
                    st_effects = BlobsRequested (map layer_id ls) # concat (map (upload_of bs) pre) @
                                 [UploadInitiated (layer_id l @ ''_mask.png'') part] \<rparr>)"
      using run [OF sz] ls by simp
    with 1 2 show "\<exists>G. ?run
                  = Some (Threw e,
                          \<lparr> st_graph = G,
                            st_effects = BlobsRequested (map layer_id ls) #
                                         concat (map (upload_of bs) pre) @
                                         [UploadInitiated (layer_id l @ ''_mask.png'') part] \<rparr>) \<and>
                 processLayers K uploadImage (generation_model_base state = Some ''sdxl'') bs pre
                   \<lparr> st_graph = g0, st_effects = [BlobsRequested (map layer_id ls)] \<rparr>
                  = Some (Returned,
                          \<lparr> st_graph = G,
                            st_effects = BlobsRequested (map layer_id ls) #
                                         concat (map (upload_of bs) pre) \<rparr>) \<and>
                 grows (\<Union>l'\<in>set pre. set (layer_node_ids K l')) g0 G"
      by blast
  next
    fix st
    assume missing: "\<exists>l\<in>set ls. get_property bs (layer_id l) = None"
    show "?run \<noteq> Some (Returned, st)"
    proof (cases "size_blobs bs = length ls")
      case False
      with assms show ?thesis
        by (simp add: addRegionalPromptsToGraph_def Let_def)
    next
      case True
      have "processLayers K uploadImage ?sdxl bs ls ?st1 \<noteq> Some (Returned, st)"
        using processLayers_Returned_blobs missing by blast
      with run [OF True] show ?thesis by simp
    qed
  qed
qed

text \<open>
  Two layers with a positive prompt each. With a blob for the first layer only, the count
  check fails and the graph is untouched. With a blob for the first layer and a blob
  under a key that is no layer's id, the counts agree, the first layer is uploaded and
  wired, and the call then fails on the second layer's missing blob: nothing is uploaded
  and no node inserted for it, and the collectors and the first layer's nodes stay in the
  graph. With the same blobs and an upload endpoint that is not reachable, the call fails
  on the first upload.
\<close>

theorem blob_mismatch_aborts_witness:
  "run_example [prompt_layer ''vector_mask_layer_1'' ''a dog'' [] Off,
                prompt_layer ''vector_mask_layer_2'' ''a cat'' [] Off] True
     [(''vector_mask_layer_1'', [137, 80, 78, 71])]
     = Some (Threw (AssertionError ''Mismatch between layer IDs and blobs''),
             \<lparr> st_graph = base_graph,
               st_effects = [BlobsRequested [''vector_mask_layer_1'', ''vector_mask_layer_2'']] \<rparr>) \<and>
   (\<exists>G. run_example [prompt_layer ''vector_mask_layer_1'' ''a dog'' [] Off,
                      prompt_layer ''vector_mask_layer_2'' ''a cat'' [] Off] True
           [(''vector_mask_layer_1'', [137, 80, 78, 71]), (''stray'', [0])]
         = Some (Threw (AssertionError ''Blob for layer vector_mask_layer_2 not found''),
                 \<lparr> st_graph = G,
                   st_effects = [BlobsRequested [''vector_mask_layer_1'', ''vector_mask_layer_2''],
                                 UploadInitiated ''vector_mask_layer_1_mask.png''
                                   (BlobPart [137, 80, 78, 71])] \<rparr>) \<and>
        prefix (edges (addCollectors example_constants ''denoise_latents'' base_graph)) (edges G) \<and>
        ''positive_conditioning_collect'' \<in> dom (nodes G) \<and>
        ''negative_conditioning_collect'' \<in> dom (nodes G) \<and>
        ''prompt_region_mask_to_tensor_vector_mask_layer_1'' \<in> dom (nodes G) \<and>
        ''prompt_region_mask_to_tensor_vector_mask_layer_2'' \<notin> dom (nodes G) \<and>
        ''prompt_region_positive_cond_vector_mask_layer_2'' \<notin> dom (nodes G)) \<and>
   (\<exists>G. run_example_with failing_upload
           [prompt_layer ''vector_mask_layer_1'' ''a dog'' [] Off,
            prompt_layer ''vector_mask_layer_2'' ''a cat'' [] Off]
           [(''vector_mask_layer_1'', [137, 80, 78, 71]), (''stray'', [0])]
         = Some (Threw (UploadError ''network error''),
                 \<lparr> st_graph = G,
                   st_effects = [BlobsRequested [''vector_mask_layer_1'', ''vector_mask_layer_2''],
                                 UploadInitiated ''vector_mask_layer_1_mask.png''
                                   (BlobPart [137, 80, 78, 71])] \<rparr>))"
proof -
  let ?l1 = "prompt_layer ''vector_mask_layer_1'' ''a dog'' [] Off"
  let ?l2 = "prompt_layer ''vector_mask_layer_2'' ''a cat'' [] Off"
  let ?state = "example_root_state [?l1, ?l2] True"
  let ?short = "[(''vector_mask_layer_1'', [137, 80, 78, 71 :: nat])]"
  let ?stray = "[(''vector_mask_layer_1'', [137, 80, 78, 71 :: nat]), (''stray'', [0])]"
  let ?ids = "[''vector_mask_layer_1'', ''vector_mask_layer_2'']"
  let ?g0 = "addCollectors example_constants ''denoise_latents'' base_graph"
  let ?bs = "const_blobs ?stray (map layer_id (filtered_layers ?state))"
  have enabled: "isEnabled (regionalPrompts_present ?state)"
    by (simp add: example_root_state_facts)
  have ls: "filtered_layers ?state = [?l1, ?l2]"
    by (simp add: two_layers_filtered)
  have ids: "map layer_id (filtered_layers ?state) = ?ids"
    by (simp add: ls example_layer_facts)
  have bs: "?bs = ?stray"
    by (simp add: const_blobs_def)
  text \<open>The count check.\<close>
  note short = blob_mismatch_aborts [where K = example_constants
      and getRegionalPromptLayerBlobs = "const_blobs ?short" and uploadImage = example_upload
      and state = ?state and g = base_graph and denoiseNodeId = "''denoise_latents''",
      OF enabled refl refl refl]
  have count: "size_blobs (const_blobs ?short (map layer_id (filtered_layers ?state)))
                 \<noteq> length (filtered_layers ?state)"
    by (simp add: size_blobs_def const_blobs_def ls)
  from short count have a: "run_example [?l1, ?l2] True ?short
     = Some (Threw (AssertionError ''Mismatch between layer IDs and blobs''),
             \<lparr> st_graph = base_graph, st_effects = [BlobsRequested ?ids] \<rparr>)"
    unfolding run_example_def ids by blast
  text \<open>The second layer's blob is missing.\<close>
  note stray = blob_mismatch_aborts [where K = example_constants
      and getRegionalPromptLayerBlobs = "const_blobs ?stray" and uploadImage = example_upload
      and state = ?state and g = base_graph and denoiseNodeId = "''denoise_latents''",
      OF enabled refl refl refl]
  have size: "size_blobs ?bs = length (filtered_layers ?state)"
    by (simp add: size_blobs_def const_blobs_def ls)
  have split: "filtered_layers ?state = [?l1] @ ?l2 # []"
    by (simp add: ls)
  have miss: "get_property ?bs (layer_id ?l2) = None"
    by (simp add: bs get_property_def Object_prototype_keys_def example_layer_facts)
  have first: "\<forall>l'\<in>set [?l1]. copy_loops_end example_constants l' \<and> upload_succeeds example_upload ?bs l'"
    by (simp add: bs copy_loops_end_def upload_succeeds_def get_property_def example_upload_def
          example_layer_facts example_constants_simps)
  from stray have "\<forall>pre l post.
            size_blobs ?bs = length (filtered_layers ?state) \<and>
            filtered_layers ?state = pre @ l # post \<and>
            get_property ?bs (layer_id l) = None \<and>
            (\<forall>l'\<in>set pre. copy_loops_end example_constants l' \<and> upload_succeeds example_upload ?bs l') \<longrightarrow>
            (\<exists>G. addRegionalPromptsToGraph example_constants (const_blobs ?stray) example_upload ?state
                    base_graph ''denoise_latents''
                  = Some (Threw (AssertionError (''Blob for layer '' @ layer_id l @ '' not found'')),
                          \<lparr> st_graph = G,
                            st_effects = BlobsRequested (map layer_id (filtered_layers ?state)) #
                                         concat (map (upload_of ?bs) pre) \<rparr>) \<and>
                 processLayers example_constants example_upload (generation_model_base ?state = Some ''sdxl'')
                   ?bs pre
                   \<lparr> st_graph = ?g0,
                     st_effects = [BlobsRequested (map layer_id (filtered_layers ?state))] \<rparr>
                  = Some (Returned,
                          \<lparr> st_graph = G,
                            st_effects = BlobsRequested (map layer_id (filtered_layers ?state)) #
                                         concat (map (upload_of ?bs) pre) \<rparr>) \<and>
                 grows (\<Union>l'\<in>set pre. set (layer_node_ids example_constants l')) ?g0 G \<and>
                 (\<forall>l'\<in>set pre.
                    PROMPT_REGION_MASK_TO_TENSOR_PREFIX example_constants @ ''_'' @ layer_id l'
                      \<in> dom (nodes G)))"
    by (rule conjunct2 [THEN conjunct1])
  note inst = this [rule_format, of "[?l1]" ?l2 "[]"]
  have "\<exists>G. addRegionalPromptsToGraph example_constants (const_blobs ?stray) example_upload ?state
                    base_graph ''denoise_latents''
                  = Some (Threw (AssertionError (''Blob for layer '' @ layer_id ?l2 @ '' not found'')),
                          \<lparr> st_graph = G,
                            st_effects = BlobsRequested (map layer_id (filtered_layers ?state)) #
                                         concat (map (upload_of ?bs) [?l1]) \<rparr>) \<and>
                 processLayers example_constants example_upload (generation_model_base ?state = Some ''sdxl'')
                   ?bs [?l1]
                   \<lparr> st_graph = ?g0,
                     st_effects = [BlobsRequested (map layer_id (filtered_layers ?state))] \<rparr>
                  = Some (Returned,
                          \<lparr> st_graph = G,
                            st_effects = BlobsRequested (map layer_id (filtered_layers ?state)) #
                                         concat (map (upload_of ?bs) [?l1]) \<rparr>) \<and>
                 grows (\<Union>l'\<in>set [?l1]. set (layer_node_ids example_constants l')) ?g0 G \<and>
                 (\<forall>l'\<in>set [?l1].
                    PROMPT_REGION_MASK_TO_TENSOR_PREFIX example_constants @ ''_'' @ layer_id l'
                      \<in> dom (nodes G))"
    by (rule inst) (use size split miss first in blast)
  then obtain G where run: "addRegionalPromptsToGraph example_constants (const_blobs ?stray)
        example_upload ?state base_graph ''denoise_latents''
      = Some (Threw (AssertionError (''Blob for layer '' @ layer_id ?l2 @ '' not found'')),
              \<lparr> st_graph = G,
                st_effects = BlobsRequested (map layer_id (filtered_layers ?state)) #
                             concat (map (upload_of ?bs) [?l1]) \<rparr>)"
    and g: "grows (\<Union>l'\<in>set [?l1]. set (layer_node_ids example_constants l')) ?g0 G"
    and m: "\<forall>l'\<in>set [?l1].
              PROMPT_REGION_MASK_TO_TENSOR_PREFIX example_constants @ ''_'' @ layer_id l' \<in> dom (nodes G)"
    by blast
  have run': "run_example [?l1, ?l2] True ?stray
      = Some (Threw (AssertionError ''Blob for layer vector_mask_layer_2 not found''),
              \<lparr> st_graph = G,
                st_effects = [BlobsRequested ?ids,
                              UploadInitiated ''vector_mask_layer_1_mask.png''
                                (BlobPart [137, 80, 78, 71])] \<rparr>)"
    unfolding run_example_def run
    by (simp add: ids const_blobs_def upload_of_def get_property_def example_layer_facts)
  have dom0: "dom (nodes ?g0) =
      {''main_model_loader'', ''positive_conditioning'', ''negative_conditioning'',
       ''denoise_latents'', ''positive_conditioning_collect'', ''negative_conditioning_collect''}"
    by (auto simp: nodes_addCollectors example_constants_simps base_graph_def)
  from g have pre: "prefix (edges ?g0) (edges G)"
    and keep: "dom (nodes ?g0) \<subseteq> dom (nodes G)"
    and only: "dom (nodes G) \<subseteq> dom (nodes ?g0) \<union> set (layer_node_ids example_constants ?l1)"
    by (simp_all add: grows_def)
  from keep have c1: "''positive_conditioning_collect'' \<in> dom (nodes G)"
    and c2: "''negative_conditioning_collect'' \<in> dom (nodes G)"
    unfolding dom0 by simp_all
  from m have m1: "''prompt_region_mask_to_tensor_vector_mask_layer_1'' \<in> dom (nodes G)"
    by (simp add: example_constants_simps example_layer_facts)
  have "''prompt_region_mask_to_tensor_vector_mask_layer_2''
          \<notin> dom (nodes ?g0) \<union> set (layer_node_ids example_constants ?l1)"
    unfolding dom0 by (simp add: layer_node_ids_def example_constants_simps example_layer_facts)
  with only have n1: "''prompt_region_mask_to_tensor_vector_mask_layer_2'' \<notin> dom (nodes G)"
    by blast
  have "''prompt_region_positive_cond_vector_mask_layer_2''
          \<notin> dom (nodes ?g0) \<union> set (layer_node_ids example_constants ?l1)"
    unfolding dom0 by (simp add: layer_node_ids_def example_constants_simps example_layer_facts)
  with only have n2: "''prompt_region_positive_cond_vector_mask_layer_2'' \<notin> dom (nodes G)"
    by blast
  from run' pre c1 c2 m1 n1 n2 have b: "\<exists>G. run_example [?l1, ?l2] True ?stray
         = Some (Threw (AssertionError ''Blob for layer vector_mask_layer_2 not found''),
                 \<lparr> st_graph = G,
                   st_effects = [BlobsRequested ?ids,
                                 UploadInitiated ''vector_mask_layer_1_mask.png''
                                   (BlobPart [137, 80, 78, 71])] \<rparr>) \<and>
        prefix (edges ?g0) (edges G) \<and>
        ''positive_conditioning_collect'' \<in> dom (nodes G) \<and>
        ''negative_conditioning_collect'' \<in> dom (nodes G) \<and>
        ''prompt_region_mask_to_tensor_vector_mask_layer_1'' \<in> dom (nodes G) \<and>
        ''prompt_region_mask_to_tensor_vector_mask_layer_2'' \<notin> dom (nodes G) \<and>
        ''prompt_region_positive_cond_vector_mask_layer_2'' \<notin> dom (nodes G)"
    by blast
  text \<open>The first upload fails.\<close>
  note down = blob_mismatch_aborts [where K = example_constants
      and getRegionalPromptLayerBlobs = "const_blobs ?stray" and uploadImage = failing_upload
      and state = ?state and g = base_graph and denoiseNodeId = "''denoise_latents''",
      OF enabled refl refl refl]
  have split0: "filtered_layers ?state = [] @ ?l1 # [?l2]"
    by (simp add: ls)
  have part: "get_property ?bs (layer_id ?l1) = Some (BlobPart [137, 80, 78, 71])"
    by (simp add: bs get_property_def example_layer_facts)
  have fails: "failing_upload (layer_id ?l1 @ ''_mask.png'') (BlobPart [137, 80, 78, 71])
                 = Inl (UploadError ''network error'')"
    by (simp add: failing_upload_def)
  have none: "\<forall>l'\<in>set []. copy_loops_end example_constants l' \<and> upload_succeeds failing_upload ?bs l'"
    by simp
  from down have "\<forall>pre l post part e.
            size_blobs ?bs = length (filtered_layers ?state) \<and>
            filtered_layers ?state = pre @ l # post \<and>
            get_property ?bs (layer_id l) = Some part \<and>
            failing_upload (layer_id l @ ''_mask.png'') part = Inl e \<and>
            (\<forall>l'\<in>set pre. copy_loops_end example_constants l' \<and> upload_succeeds failing_upload ?bs l') \<longrightarrow>
            (\<exists>G. addRegionalPromptsToGraph example_constants (const_blobs ?stray) failing_upload ?state
                    base_graph ''denoise_latents''
                  = Some (Threw e,
                          \<lparr> st_graph = G,
                            st_effects = BlobsRequested (map layer_id (filtered_layers ?state)) #
                                         concat (map (upload_of ?bs) pre) @
                                         [UploadInitiated (layer_id l @ ''_mask.png'') part] \<rparr>) \<and>
                 processLayers example_constants failing_upload (generation_model_base ?state = Some ''sdxl'')
                   ?bs pre
                   \<lparr> st_graph = ?g0,
                     st_effects = [BlobsRequested (map layer_id (filtered_layers ?state))] \<rparr>
                  = Some (Returned,
                          \<lparr> st_graph = G,
                            st_effects = BlobsRequested (map layer_id (filtered_layers ?state)) #
                                         concat (map (upload_of ?bs) pre) \<rparr>) \<and>
                 grows (\<Union>l'\<in>set pre. set (layer_node_ids example_constants l')) ?g0 G)"
    by (rule conjunct2 [THEN conjunct2, THEN conjunct1])
  note inst0 = this [rule_format, of "[]" ?l1 "[?l2]" "BlobPart [137, 80, 78, 71]"
      "UploadError ''network error''"]
  have "\<exists>G. addRegionalPromptsToGraph example_constants (const_blobs ?stray) failing_upload ?state
                    base_graph ''denoise_latents''
                  = Some (Threw (UploadError ''network error''),
                          \<lparr> st_graph = G,
                            st_effects = BlobsRequested (map layer_id (filtered_layers ?state)) #
                                         concat (map (upload_of ?bs) []) @
                                         [UploadInitiated (layer_id ?l1 @ ''_mask.png'')
                                            (BlobPart [137, 80, 78, 71])] \<rparr>) \<and>
                 processLayers example_constants failing_upload (generation_model_base ?state = Some ''sdxl'')
                   ?bs []
                   \<lparr> st_graph = ?g0,
                     st_effects = [BlobsRequested (map layer_id (filtered_layers ?state))] \<rparr>
                  = Some (Returned,
                          \<lparr> st_graph = G,
                            st_effects = BlobsRequested (map layer_id (filtered_layers ?state)) #
                                         concat (map (upload_of ?bs) []) \<rparr>) \<and>
                 grows (\<Union>l'\<in>set []. set (layer_node_ids example_constants l')) ?g0 G"
    by (rule inst0) (use size split0 part fails none in blast)
  then have c: "\<exists>G. run_example_with failing_upload [?l1, ?l2] ?stray
         = Some (Threw (UploadError ''network error''),
                 \<lparr> st_graph = G,
                   st_effects = [BlobsRequested ?ids,
                                 UploadInitiated ''vector_mask_layer_1_mask.png''
                                   (BlobPart [137, 80, 78, 71])] \<rparr>)"
    unfolding run_example_with_def
    by (auto simp: ids const_blobs_def example_layer_facts)
  from a b c show ?thesis by blast
qed

end
